theory Spec2Isabelle
  imports Complex_Main "HOL-Library.Code_Target_Nat"
begin

section \<open>JavaScript values\<close>

text \<open>
  The client is a JavaScript module (\<^verbatim>\<open>lcdprocjs.js\<close>). Its values are modelled by a
  datatype of the scalar values it handles, with the language's own coercions
  (\<^verbatim>\<open>ToNumber\<close>, \<^verbatim>\<open>ToString\<close>, \<^verbatim>\<open>Array.prototype.join\<close>, \<^verbatim>\<open>Math.round\<close>)
  written out.

  A number is \<^verbatim>\<open>NaN\<close>, an infinity, or \<open>Finite q\<close> for a rational \<open>q\<close>: the binary64
  value \<open>q\<close>. The arithmetic of the language computes the exact result and rounds it to
  binary64 (\<open>fl\<close> below: to the nearest value, a tie to the even significand, overflow to
  an infinity, gradual underflow), and so do the operations of the model. The two zeros
  are one value: the program never divides by a number, and both print as \<^verbatim>\<open>0\<close>.

  Strings are lists of 8-bit characters: a character stands for a UTF-16 code unit below
  256, which covers the ASCII text of the protocol.
\<close>

datatype jsnum = NaN | PosInfinity | NegInfinity | Finite rat

datatype jsval = JUndefined | JNull | JBool bool | JNum jsnum | JStr string

subsection \<open>Rounding to binary64\<close>

fun num_neg :: "jsnum \<Rightarrow> jsnum" where
  "num_neg NaN = NaN"
| "num_neg PosInfinity = NegInfinity"
| "num_neg NegInfinity = PosInfinity"
| "num_neg (Finite q) = Finite (- q)"

text \<open>The number of binary digits of a positive integer.\<close>

function bitlen :: "int \<Rightarrow> nat" where
  "bitlen n = (if n \<le> 0 then 0 else Suc (bitlen (n div 2)))"
  by auto

termination
  by (relation "measure nat") auto

declare bitlen.simps [simp del]

definition pow2 :: "int \<Rightarrow> rat" where
  "pow2 e = (if 0 \<le> e then 2 ^ nat e else 1 / 2 ^ nat (- e))"

text \<open>The binade of \<open>q > 0\<close>: the \<open>e\<close> with \<open>2^e \<le> q < 2^(e+1)\<close>.\<close>

definition exponent_of :: "rat \<Rightarrow> int" where
  "exponent_of q =
     (if 1 \<le> q then int (bitlen \<lfloor>q\<rfloor>) - 1
      else - int (bitlen (\<lceil>1 / q\<rceil> - 1)))"

text \<open>The nearest integer, a tie going to the even one.\<close>

definition round_even :: "rat \<Rightarrow> int" where
  "round_even r =
     (let n = \<lfloor>r\<rfloor>; d = r - of_int n in
      if d < 1 / 2 then n else if 1 / 2 < d then n + 1 else if even n then n else n + 1)"

text \<open>
  The binary64 value of a positive rational: a significand of 53 bits, the exponent of
  the unit in the last place between \<open>-1074\<close> (subnormal numbers) and \<open>971\<close>, and
  infinity from \<open>2^1024\<close> on.
\<close>

definition fl_pos :: "rat \<Rightarrow> jsnum" where
  "fl_pos q =
     (let u = pow2 (max (exponent_of q) (- 1022) - 52);
          r = of_int (round_even (q / u)) * u
      in if 2 ^ 1024 \<le> r then PosInfinity else Finite r)"

definition fl :: "rat \<Rightarrow> jsnum" where
  "fl q = (if q = 0 then Finite 0 else if q < 0 then num_neg (fl_pos (- q)) else fl_pos q)"

subsection \<open>Arithmetic\<close>

fun num_add :: "jsnum \<Rightarrow> jsnum \<Rightarrow> jsnum" where
  "num_add NaN b = NaN"
| "num_add a NaN = NaN"
| "num_add PosInfinity NegInfinity = NaN"
| "num_add NegInfinity PosInfinity = NaN"
| "num_add PosInfinity b = PosInfinity"
| "num_add NegInfinity b = NegInfinity"
| "num_add a PosInfinity = PosInfinity"
| "num_add a NegInfinity = NegInfinity"
| "num_add (Finite p) (Finite q) = fl (p + q)"

definition num_sub :: "jsnum \<Rightarrow> jsnum \<Rightarrow> jsnum" where
  "num_sub a b = num_add a (num_neg b)"

definition num_sign :: "jsnum \<Rightarrow> int" where
  "num_sign a = (case a of NaN \<Rightarrow> 0 | PosInfinity \<Rightarrow> 1 | NegInfinity \<Rightarrow> - 1
                 | Finite q \<Rightarrow> (if q < 0 then - 1 else if q = 0 then 0 else 1))"

fun num_mul :: "jsnum \<Rightarrow> jsnum \<Rightarrow> jsnum" where
  "num_mul NaN b = NaN"
| "num_mul a NaN = NaN"
| "num_mul (Finite p) (Finite q) = fl (p * q)"
| "num_mul a b =
     (if num_sign a * num_sign b = 0 then NaN
      else if num_sign a * num_sign b < 0 then NegInfinity else PosInfinity)"

text \<open>
  \<^verbatim>\<open>Math.round\<close>: the nearest integer, a tie going up. The result is exact: a binary64
  value of magnitude \<open>2^52\<close> or more is an integer, and below that every integer is a
  binary64 value.
\<close>

fun Math_round :: "jsnum \<Rightarrow> jsnum" where
  "Math_round (Finite q) = Finite (of_int \<lfloor>q + 1 / 2\<rfloor>)"
| "Math_round a = a"

subsection \<open>Strings\<close>

text \<open>
  White space as \<^verbatim>\<open>String.prototype.trim\<close> and \<^verbatim>\<open>ToNumber\<close> see it, among the code
  units below 256: TAB, LF, VT, FF, CR, SP and NBSP.
\<close>

definition is_ws :: "char \<Rightarrow> bool" where
  "is_ws c = (of_char c \<in> {9, 10, 11, 12, 13, 32, 160 :: nat})"

definition trim :: "string \<Rightarrow> string" where
  "trim s = rev (dropWhile is_ws (rev (dropWhile is_ws s)))"

text \<open>\<^verbatim>\<open>s.split(d)\<close> for a separator \<open>d\<close> of one character.\<close>

fun split :: "char \<Rightarrow> string \<Rightarrow> string list" where
  "split d [] = [[]]"
| "split d (c # cs) =
     (if c = d then [] # split d cs
      else (case split d cs of [] \<Rightarrow> [[c]] | t # ts \<Rightarrow> (c # t) # ts))"

text \<open>\<^verbatim>\<open>s.indexOf(p) == 0\<close>: \<open>p\<close> is a prefix of \<open>s\<close>.\<close>

definition starts_with :: "string \<Rightarrow> string \<Rightarrow> bool" where
  "starts_with p s = (take (length p) s = p)"

definition line_feed :: char where
  "line_feed = CHR 0x0A"

subsection \<open>Numbers and strings\<close>

definition is_digit :: "char \<Rightarrow> bool" where
  "is_digit c = (48 \<le> (of_char c :: nat) \<and> (of_char c :: nat) \<le> 57)"

definition digit_val :: "char \<Rightarrow> nat" where
  "digit_val c = of_char c - 48"

definition digit_char :: "nat \<Rightarrow> char" where
  "digit_char d = char_of (48 + d)"

text \<open>\<^verbatim>\<open>ToNumber\<close> of a run of decimal digits.\<close>

definition undec :: "string \<Rightarrow> nat" where
  "undec s = foldl (\<lambda>a c. 10 * a + digit_val c) 0 s"

text \<open>The decimal digits of a natural number, as \<^verbatim>\<open>ToString\<close> prints an integer.\<close>

fun dec :: "nat \<Rightarrow> string" where
  "dec n = (if n < 10 then [digit_char n] else dec (n div 10) @ [digit_char (n mod 10)])"

declare dec.simps [simp del]

definition pow10 :: "int \<Rightarrow> rat" where
  "pow10 e = (if 0 \<le> e then 10 ^ nat e else 1 / 10 ^ nat (- e))"

text \<open>The decimal digits of an integer that is not negative, and their number.\<close>

function digits :: "int \<Rightarrow> string" where
  "digits n =
     (if n < 10 then [digit_char (nat n)]
      else digits (n div 10) @ [digit_char (nat (n mod 10))])"
  by auto

termination
  by (relation "measure nat") auto

declare digits.simps [simp del]

function declen :: "int \<Rightarrow> nat" where
  "declen n = (if n \<le> 0 then 0 else Suc (declen (n div 10)))"
  by auto

termination
  by (relation "measure nat") auto

declare declen.simps [simp del]

text \<open>The decade of \<open>q > 0\<close>: the \<open>n\<close> with \<open>10^(n-1) \<le> q < 10^n\<close>.\<close>

definition magnitude :: "rat \<Rightarrow> int" where
  "magnitude q =
     (if 1 \<le> q then int (declen \<lfloor>q\<rfloor>) else 1 - int (declen (\<lceil>1 / q\<rceil> - 1)))"

text \<open>
  \<^verbatim>\<open>Number::toString\<close> prints the shortest decimal that reads back as the same number:
  integers \<open>n\<close>, \<open>k\<close>, \<open>s\<close> with \<open>k\<close> as small as possible such that \<open>s\<close> has \<open>k\<close> digits and
  \<open>s * 10^(n-k)\<close> rounds to the number, and among several such \<open>s\<close> the one nearest to
  the number (the even one of two). The decimals of \<open>k\<close> digits in the decade of \<open>q\<close> are
  the multiples of \<open>10^(n-k)\<close>; only the two next to \<open>q\<close> can round to it.
\<close>

definition decimal_near :: "rat \<Rightarrow> int \<Rightarrow> nat \<Rightarrow> int option" where
  "decimal_near q n k =
     (let u = pow10 (n - int k);
          lo = \<lfloor>q / u\<rfloor>;
          hi = lo + 1;
          fits_lo = (fl (of_int lo * u) = Finite q);
          fits_hi = (fl (of_int hi * u) = Finite q)
      in if fits_lo \<and> fits_hi
         then (if q / u - of_int lo < of_int hi - q / u then Some lo
               else if of_int hi - q / u < q / u - of_int lo then Some hi
               else if even lo then Some lo else Some hi)
         else if fits_lo then Some lo
         else if fits_hi then Some hi
         else None)"

text \<open>
  The search for \<open>k\<close>, from 1 upwards. Seventeen digits identify every binary64 value; the
  last equation is reached for no such value.
\<close>

fun shortest_decimal :: "rat \<Rightarrow> int \<Rightarrow> nat \<Rightarrow> nat \<Rightarrow> int \<times> nat" where
  "shortest_decimal q n k 0 = (\<lfloor>q / pow10 (n - int k)\<rfloor>, k)"
| "shortest_decimal q n k (Suc fuel) =
     (case decimal_near q n k of
        Some s \<Rightarrow> (s, k)
      | None \<Rightarrow> shortest_decimal q n (Suc k) fuel)"

definition strip_zeros :: "string \<Rightarrow> string" where
  "strip_zeros ds = rev (dropWhile (\<lambda>c. c = CHR ''0'') (rev ds))"

text \<open>
  The digits of \<open>s\<close> and the exponent \<open>n\<close>. (When \<open>q\<close> is rounded up to the next decade,
  \<open>s\<close> is \<open>10^k\<close>: its digits are a one and zeros, and \<open>n\<close> is one more.)
\<close>

definition decimal_digits :: "rat \<Rightarrow> string \<times> int" where
  "decimal_digits q =
     (let n = magnitude q;
          (s, k) = shortest_decimal q n 1 17;
          ds = digits s
      in (strip_zeros ds, n + int (length ds) - int k))"

text \<open>
  \<^verbatim>\<open>Number::toString\<close> of a number that is not negative: plain notation for
  \<open>10^-6 \<le> q < 10^21\<close> and exponent notation otherwise.
\<close>

definition pos_toString :: "rat \<Rightarrow> string" where
  "pos_toString q =
     (if q = 0 then ''0''
      else
        let (ds, n) = decimal_digits q;
            k = int (length ds)
        in if k \<le> n \<and> n \<le> 21 then ds @ replicate (nat (n - k)) (CHR ''0'')
           else if 0 < n \<and> n \<le> 21 then take (nat n) ds @ ''.'' @ drop (nat n) ds
           else if - 6 < n \<and> n \<le> 0 then ''0.'' @ replicate (nat (- n)) (CHR ''0'') @ ds
           else take 1 ds @ (if k = 1 then [] else CHR ''.'' # drop 1 ds) @ ''e'' @
                (if 0 < n - 1 then ''+'' else ''-'') @ digits \<bar>n - 1\<bar>)"

fun num_toString :: "jsnum \<Rightarrow> string" where
  "num_toString NaN = ''NaN''"
| "num_toString PosInfinity = ''Infinity''"
| "num_toString NegInfinity = ''-Infinity''"
| "num_toString (Finite q) = (if q < 0 then CHR ''-'' # pos_toString (- q) else pos_toString q)"

text \<open>\<^verbatim>\<open>ToString\<close>, as string concatenation with \<^verbatim>\<open>+\<close> applies it.\<close>

fun toString :: "jsval \<Rightarrow> string" where
  "toString JUndefined = ''undefined''"
| "toString JNull = ''null''"
| "toString (JBool b) = (if b then ''true'' else ''false'')"
| "toString (JNum a) = num_toString a"
| "toString (JStr s) = s"

text \<open>
  \<^verbatim>\<open>Array.prototype.join\<close>: \<^verbatim>\<open>undefined\<close> and \<^verbatim>\<open>null\<close> elements print as the empty
  string, every other element by \<^verbatim>\<open>ToString\<close>.
\<close>

fun join_elem :: "jsval \<Rightarrow> string" where
  "join_elem JUndefined = []"
| "join_elem JNull = []"
| "join_elem v = toString v"

fun join :: "string \<Rightarrow> jsval list \<Rightarrow> string" where
  "join sep [] = []"
| "join sep [v] = join_elem v"
| "join sep (v # vs) = join_elem v @ sep @ join sep vs"

text \<open>
  \<^verbatim>\<open>ToNumber\<close> of a string (the grammar \<^verbatim>\<open>StringNumericLiteral\<close>): white space around
  the literal is skipped and the empty literal is 0; \<^verbatim>\<open>0x\<close>, \<^verbatim>\<open>0o\<close> and \<^verbatim>\<open>0b\<close>
  introduce unsigned hexadecimal, octal and binary integers; a decimal literal has an
  optional sign, digits with an optional fraction, and an optional exponent;
  \<^verbatim>\<open>Infinity\<close> may carry a sign. Everything else is \<^verbatim>\<open>NaN\<close>. The value of the
  literal is rounded to binary64.
\<close>

definition hex_val :: "char \<Rightarrow> nat option" where
  "hex_val c =
     (let n = (of_char c :: nat) in
      if 48 \<le> n \<and> n \<le> 57 then Some (n - 48)
      else if 97 \<le> n \<and> n \<le> 102 then Some (n - 87)
      else if 65 \<le> n \<and> n \<le> 70 then Some (n - 55)
      else None)"

definition radix_digits :: "nat \<Rightarrow> string \<Rightarrow> nat option" where
  "radix_digits b s =
     (if s \<noteq> [] \<and> (\<forall>c \<in> set s. case hex_val c of None \<Rightarrow> False | Some d \<Rightarrow> d < b)
      then Some (foldl (\<lambda>a c. b * a + the (hex_val c)) 0 s)
      else None)"

definition radix_prefix :: "string \<Rightarrow> nat option" where
  "radix_prefix s =
     (if take 2 s \<in> {''0x'', ''0X''} then Some 16
      else if take 2 s \<in> {''0o'', ''0O''} then Some 8
      else if take 2 s \<in> {''0b'', ''0B''} then Some 2
      else None)"

definition split_sign :: "string \<Rightarrow> int \<times> string" where
  "split_sign s =
     (case s of
        [] \<Rightarrow> (1, [])
      | c # cs \<Rightarrow> if c = CHR ''+'' then (1, cs) else if c = CHR ''-'' then (- 1, cs) else (1, s))"

definition is_exp_mark :: "char \<Rightarrow> bool" where
  "is_exp_mark c = (c = CHR ''e'' \<or> c = CHR ''E'')"

definition exponent_part :: "string \<Rightarrow> int option" where
  "exponent_part ex =
     (case ex of
        [] \<Rightarrow> Some 0
      | m # t \<Rightarrow>
          (let (sg, ds) = split_sign t in
           if ds \<noteq> [] \<and> list_all is_digit ds
           then Some (sg * int (undec ds))
           else None))"

definition unsigned_decimal :: "string \<Rightarrow> rat option" where
  "unsigned_decimal u =
     (let m = takeWhile (\<lambda>c. \<not> is_exp_mark c) u;
          ex = dropWhile (\<lambda>c. \<not> is_exp_mark c) u;
          a = takeWhile is_digit m;
          r = dropWhile is_digit m;
          b = (case r of
                 [] \<Rightarrow> Some []
               | c # cs \<Rightarrow> if c = CHR ''.'' \<and> list_all is_digit cs then Some cs else None)
      in case b of
           None \<Rightarrow> None
         | Some b \<Rightarrow>
             if a @ b = [] then None
             else (case exponent_part ex of
                     None \<Rightarrow> None
                   | Some e \<Rightarrow>
                       Some (of_nat (undec (a @ b)) / 10 ^ length b * pow10 e)))"

definition string_toNumber :: "string \<Rightarrow> jsnum" where
  "string_toNumber s =
     (let t = trim s in
      if t = [] then Finite 0
      else case radix_prefix t of
        Some b \<Rightarrow> (case radix_digits b (drop 2 t) of
                     None \<Rightarrow> NaN | Some n \<Rightarrow> fl (of_nat n))
      | None \<Rightarrow>
          (let (sg, u) = split_sign t in
           if u = ''Infinity'' then (if sg < 0 then NegInfinity else PosInfinity)
           else case unsigned_decimal u of
                  None \<Rightarrow> NaN
                | Some q \<Rightarrow> fl (of_int sg * q)))"

fun toNumber :: "jsval \<Rightarrow> jsnum" where
  "toNumber JUndefined = NaN"
| "toNumber JNull = Finite 0"
| "toNumber (JBool b) = Finite (if b then 1 else 0)"
| "toNumber (JNum a) = a"
| "toNumber (JStr s) = string_toNumber s"

section \<open>Objects\<close>

text \<open>
  An object is the list of its own enumerable string-keyed properties in the order they
  were created; a well-formed object has no key twice. The objects of the client
  (\<^verbatim>\<open>screens\<close>, \<^verbatim>\<open>widgets\<close>, a screen's \<^verbatim>\<open>config\<close>) are created by \<^verbatim>\<open>{}\<close>, so
  a lookup that finds no own property continues in \<^verbatim>\<open>Object.prototype\<close>.
\<close>

type_synonym 'v jsobject = "(string \<times> 'v) list"

definition wf_object :: "'v jsobject \<Rightarrow> bool" where
  "wf_object obj = distinct (map fst obj)"

text \<open>\<^verbatim>\<open>obj[k] = v\<close>: an existing property keeps its place, a new one goes last.\<close>

fun obj_put :: "'v jsobject \<Rightarrow> string \<Rightarrow> 'v \<Rightarrow> 'v jsobject" where
  "obj_put [] k v = [(k, v)]"
| "obj_put (p # ps) k v = (if fst p = k then (k, v) # ps else p # obj_put ps k v)"

text \<open>\<^verbatim>\<open>delete obj[k]\<close>.\<close>

definition obj_delete :: "'v jsobject \<Rightarrow> string \<Rightarrow> 'v jsobject" where
  "obj_delete obj k = filter (\<lambda>p. fst p \<noteq> k) obj"

text \<open>The property names of \<^verbatim>\<open>Object.prototype\<close> (Node.js).\<close>

definition object_prototype_keys :: "string list" where
  "object_prototype_keys =
     [''constructor'', ''__defineGetter__'', ''__defineSetter__'', ''hasOwnProperty'',
      ''__lookupGetter__'', ''__lookupSetter__'', ''isPrototypeOf'',
      ''propertyIsEnumerable'', ''toString'', ''valueOf'', ''__proto__'',
      ''toLocaleString'']"

datatype 'v property = Own 'v | Inherited | Missing

text \<open>\<^verbatim>\<open>obj[k]\<close>: \<open>Missing\<close> is the value \<^verbatim>\<open>undefined\<close>.\<close>

definition obj_get :: "'v jsobject \<Rightarrow> string \<Rightarrow> 'v property" where
  "obj_get obj k =
     (case map_of obj k of
        Some v \<Rightarrow> Own v
      | None \<Rightarrow> if k \<in> set object_prototype_keys then Inherited else Missing)"

text \<open>
  The order in which \<^verbatim>\<open>Object.keys\<close>, and with it lodash's \<^verbatim>\<open>_.forOwn\<close>,
  \<^verbatim>\<open>_.assign\<close> and \<^verbatim>\<open>_.isEmpty\<close>, enumerate an object: the keys that are array indices
  (the canonical decimal string of an integer below \<open>2^32 - 1\<close>) first, in ascending
  numeric order, then every other key in creation order.
\<close>

definition array_index :: "string \<Rightarrow> nat option" where
  "array_index k =
     (if k \<noteq> [] \<and> list_all is_digit k \<and> dec (undec k) = k \<and> int (undec k) < 4294967295
      then Some (undec k) else None)"

definition is_array_index :: "string \<Rightarrow> bool" where
  "is_array_index k = (array_index k \<noteq> None)"

definition own_entries :: "'v jsobject \<Rightarrow> (string \<times> 'v) list" where
  "own_entries obj =
     sort_key (\<lambda>p. the (array_index (fst p))) (filter (\<lambda>p. is_array_index (fst p)) obj)
     @ filter (\<lambda>p. \<not> is_array_index (fst p)) obj"

text \<open>\<^verbatim>\<open>_.isEmpty(config)\<close>, for an argument that is an object or left out.\<close>

fun isEmpty :: "'v jsobject option \<Rightarrow> bool" where
  "isEmpty None = True"
| "isEmpty (Some obj) = (own_entries obj = [])"

text \<open>\<^verbatim>\<open>_.assign(target, source)\<close>; a source left out assigns nothing.\<close>

definition assign :: "'v jsobject \<Rightarrow> 'v jsobject option \<Rightarrow> 'v jsobject" where
  "assign target source =
     (case source of
        None \<Rightarrow> target
      | Some src \<Rightarrow> foldl (\<lambda>t p. obj_put t (fst p) (snd p)) target (own_entries src))"

text \<open>\<^verbatim>\<open>arr[i]\<close>, which is \<^verbatim>\<open>undefined\<close> past the end.\<close>

definition elem :: "jsval list \<Rightarrow> nat \<Rightarrow> jsval" where
  "elem xs i = (if i < length xs then xs ! i else JUndefined)"

section \<open>Serializer\<close>

text \<open>\<^verbatim>\<open>function quoteString(str) { return "{" + str + "}"; }\<close>\<close>

definition quoteString :: "jsval \<Rightarrow> string" where
  "quoteString str = ''{'' @ toString str @ ''}''"

text \<open>
  \<^verbatim>\<open>flattenObj(obj, donotdashkeys)\<close>; the second argument is read for its truth value,
  and is false when left out.
\<close>

definition flattenObj :: "jsval jsobject \<Rightarrow> bool \<Rightarrow> jsval list" where
  "flattenObj obj donotdashkeys =
     concat (map (\<lambda>p. [JStr ((if donotdashkeys then [] else ''-'') @ fst p), snd p])
                 (own_entries obj))"

section \<open>The client and its objects\<close>

text \<open>
  A client, its screens and their widgets are objects that refer to each other and are
  updated in place, and the caller keeps the objects that the factory methods return.
  The model keeps every screen and every widget in a store (a list; an object's reference
  is its index, and an object is never removed from the store) beside the fields of the
  client. What the client does to its socket and the events it emits are recorded, in
  order, in \<open>trace\<close>.
\<close>

datatype effect =
    SocketConnect nat string
  | SocketWrite string
  | SocketEnd
  | SocketDestroy
  | ClientEmit string
  | ScreenEmit nat string

record dims =
  width :: jsnum
  height :: jsnum

record lcdproc_config =
  version :: jsval
  protocol :: jsval
  lcdsize :: dims
  cellsize :: dims

record client_config =
  host :: string
  port :: nat
  name :: string

text \<open>The prototype of a widget object: which constructor made it.\<close>

datatype widget_proto =
    Widget | TitleWidget | StringWidget | HorizontalBarWidget | VerticalBarWidget
  | IconWidget | BigNumberWidget

record widget =
  screen :: nat
  widgetId :: string
  widgetType :: jsval
  params :: "jsval list option"
  proto :: widget_proto

record screen_obj =
  screenId :: string
  screen_config :: "jsval jsobject"
  widgets :: "nat jsobject"
  widgetCnt :: nat

record client =
  config :: client_config
  lcdprocConfig :: lcdproc_config
  screens :: "nat jsobject"
  screenCnt :: nat
  screen_store :: "screen_obj list"
  widget_store :: "widget list"
  trace :: "effect list"

datatype error = TypeError | RangeError | NoSuchObject

subsection \<open>Client\<close>

text \<open>
  \<^verbatim>\<open>new Client(config)\<close>: the fields of \<open>config\<close> that are given replace the defaults.
\<close>

record client_options =
  opt_host :: "string option"
  opt_port :: "nat option"
  opt_name :: "string option"

definition Client :: "client_options \<Rightarrow> client" where
  "Client opts =
     \<lparr> config =
         \<lparr> host = (case opt_host opts of None \<Rightarrow> ''localhost'' | Some h \<Rightarrow> h),
           port = (case opt_port opts of None \<Rightarrow> 13666 | Some p \<Rightarrow> p),
           name = (case opt_name opts of None \<Rightarrow> ''lcdprocjs'' | Some n \<Rightarrow> n) \<rparr>,
       lcdprocConfig =
         \<lparr> version = JNum (Finite 0),
           protocol = JNum (Finite 0),
           lcdsize = \<lparr> width = Finite 0, height = Finite 0 \<rparr>,
           cellsize = \<lparr> width = Finite 0, height = Finite 0 \<rparr> \<rparr>,
       screens = [],
       screenCnt = 0,
       screen_store = [],
       widget_store = [],
       trace = [] \<rparr>"

definition effect :: "effect \<Rightarrow> client \<Rightarrow> client" where
  "effect e c = c\<lparr>trace := trace c @ [e]\<rparr>"

text \<open>
  \<^verbatim>\<open>Client.prototype._write\<close>: an argument is a scalar or an array; arrays are spliced
  in, the tokens are joined with single spaces and the line is written with a line feed.
\<close>

datatype arg = Tok jsval | Arr "jsval list"

fun arg_tokens :: "arg \<Rightarrow> jsval list" where
  "arg_tokens (Tok v) = [v]"
| "arg_tokens (Arr vs) = vs"

definition Client_write :: "arg list \<Rightarrow> client \<Rightarrow> client" where
  "Client_write args c =
     (let out = concat (map arg_tokens args);
          o_line = join '' '' out
      in effect (SocketWrite (o_line @ [line_feed])) c)"

text \<open>\<^verbatim>\<open>Client.prototype._unrefScreen\<close>\<close>

definition Client_unrefScreen :: "string \<Rightarrow> client \<Rightarrow> client" where
  "Client_unrefScreen sid c = c\<lparr>screens := obj_delete (screens c) sid\<rparr>"

text \<open>
  \<^verbatim>\<open>Client.prototype._newScreenId\<close>: the counter is read, then incremented. (A counter
  that reached \<open>2^53\<close> would stop there; the model counts in the natural numbers.)
\<close>

definition Client_newScreenId :: "client \<Rightarrow> string \<times> client" where
  "Client_newScreenId c =
     (name (config c) @ ''_s'' @ dec (screenCnt c), c\<lparr>screenCnt := Suc (screenCnt c)\<rparr>)"

text \<open>
  \<^verbatim>\<open>Client.prototype.connect\<close> installs the three socket listeners below and opens the
  socket; \<^verbatim>\<open>Client.prototype.close\<close> ends it.
\<close>

definition Client_connect :: "client \<Rightarrow> client" where
  "Client_connect c = effect (SocketConnect (port (config c)) (host (config c))) c"

definition Client_close :: "client \<Rightarrow> client" where
  "Client_close c = effect SocketEnd c"

text \<open>The listener for the socket's \<^verbatim>\<open>connect\<close> event.\<close>

definition on_connect :: "client \<Rightarrow> client" where
  "on_connect c = Client_write [Tok (JStr ''hello'')] c"

text \<open>The listener for the socket's \<^verbatim>\<open>error\<close> event.\<close>

definition on_error :: "client \<Rightarrow> client" where
  "on_error c = effect SocketDestroy c"

text \<open>
  The listener for \<^verbatim>\<open>data\<close>, first branch: the \<^verbatim>\<open>switch\<close> on one word of the
  \<^verbatim>\<open>connect\<close> line, where \<open>nxt\<close> is \<^verbatim>\<open>params[i+1]\<close> (\<^verbatim>\<open>undefined\<close> after the last
  word). The unary \<^verbatim>\<open>+\<close> is \<^verbatim>\<open>ToNumber\<close>.
\<close>

definition connect_param :: "string \<Rightarrow> jsval \<Rightarrow> lcdproc_config \<Rightarrow> lcdproc_config" where
  "connect_param word nxt cfg =
     (if word = ''LCDproc'' then cfg\<lparr>version := nxt\<rparr>
      else if word = ''protocol'' then cfg\<lparr>protocol := nxt\<rparr>
      else if word = ''wid'' then cfg\<lparr>lcdsize := (lcdsize cfg)\<lparr>width := toNumber nxt\<rparr>\<rparr>
      else if word = ''hgt'' then cfg\<lparr>lcdsize := (lcdsize cfg)\<lparr>height := toNumber nxt\<rparr>\<rparr>
      else if word = ''cellwid'' then cfg\<lparr>cellsize := (cellsize cfg)\<lparr>width := toNumber nxt\<rparr>\<rparr>
      else if word = ''cellhgt''
        then cfg\<lparr>cellsize := (cellsize cfg)\<lparr>height := toNumber nxt\<rparr>\<rparr>
      else cfg)"

text \<open>\<^verbatim>\<open>params.forEach(function(value, i) { ... })\<close>\<close>

fun connect_params :: "string list \<Rightarrow> lcdproc_config \<Rightarrow> lcdproc_config" where
  "connect_params [] cfg = cfg"
| "connect_params (word # rest) cfg =
     connect_params rest
       (connect_param word (case rest of [] \<Rightarrow> JUndefined | n # ns \<Rightarrow> JStr n) cfg)"

definition on_connect_line :: "string \<Rightarrow> client \<Rightarrow> client" where
  "on_connect_line data c =
     (let c1 = c\<lparr>lcdprocConfig := connect_params (split CHR '' '' data) (lcdprocConfig c)\<rparr>;
          c2 = Client_write [Tok (JStr ''client_set''), Tok (JStr ''-name''),
                             Tok (JStr (quoteString (JStr (name (config c1)))))] c1
      in effect (ClientEmit ''ready'') c2)"

text \<open>
  Second branch: one message of the chunk. \<^verbatim>\<open>self.screens[id]\<close> that is inherited from
  \<^verbatim>\<open>Object.prototype\<close> is not \<^verbatim>\<open>undefined\<close> and has no \<^verbatim>\<open>emit\<close>: the call throws.
  (\<^verbatim>\<open>log\<close> prints nothing: \<^verbatim>\<open>debug\<close> is false.)
\<close>

definition screen_emit :: "string \<Rightarrow> string \<Rightarrow> client \<Rightarrow> error + client" where
  "screen_emit sid event c =
     (case obj_get (screens c) sid of
        Missing \<Rightarrow> Inr c
      | Own r \<Rightarrow> Inr (effect (ScreenEmit r event) c)
      | Inherited \<Rightarrow> Inl TypeError)"

definition on_message :: "string \<Rightarrow> client \<Rightarrow> error + client" where
  "on_message msg c =
     (if msg = ''success'' then Inr c
      else let m = take 6 msg in
        if m = ''listen'' then screen_emit (drop 7 msg) ''shown'' c
        else if m = ''ignore'' then screen_emit (drop 7 msg) ''hidden'' c
        else Inr c)"

text \<open>\<^verbatim>\<open>data.split("\n").forEach(...)\<close>: an exception ends the loop.\<close>

fun on_messages :: "string list \<Rightarrow> client \<Rightarrow> error + client" where
  "on_messages [] c = Inr c"
| "on_messages (msg # msgs) c =
     (case on_message msg c of Inl e \<Rightarrow> Inl e | Inr c' \<Rightarrow> on_messages msgs c')"

definition on_data :: "string \<Rightarrow> client \<Rightarrow> error + client" where
  "on_data buf c =
     (let data = trim buf in
      if starts_with ''connect'' data then Inr (on_connect_line data c)
      else on_messages (split line_feed data) c)"

subsection \<open>Screen\<close>

text \<open>
  In the functions below \<open>r\<close> is the reference of the screen (\<^verbatim>\<open>this\<close>), \<open>w\<close> the
  reference of the widget, and the client state comes last.

  \<^verbatim>\<open>Screen.prototype.setConfig\<close>
\<close>

definition Screen_setConfig :: "nat \<Rightarrow> jsval jsobject option \<Rightarrow> client \<Rightarrow> client" where
  "Screen_setConfig r cfg c =
     (if isEmpty cfg then c
      else case cfg of
        None \<Rightarrow> c
      | Some obj \<Rightarrow>
          (let s = screen_store c ! r;
               c1 = c\<lparr>screen_store :=
                       (screen_store c)[r := s\<lparr>screen_config := assign (screen_config s) cfg\<rparr>]\<rparr>
           in Client_write [Tok (JStr ''screen_set''), Tok (JStr (screenId s)),
                            Arr (flattenObj obj False)] c1))"

text \<open>
  \<^verbatim>\<open>function Screen(client, screenId, config)\<close>: the new object goes to the end of the
  store. (\<^verbatim>\<open>screenId\<close> is a field of the record, so the argument is \<open>sid\<close>.)
\<close>

definition Screen :: "string \<Rightarrow> jsval jsobject option \<Rightarrow> client \<Rightarrow> nat \<times> client" where
  "Screen sid cfg c =
     (let r = length (screen_store c);
          c1 = c\<lparr>screen_store := screen_store c @
                  [\<lparr> screenId = sid, screen_config = [], widgets = [], widgetCnt = 0 \<rparr>]\<rparr>;
          c2 = Client_write [Tok (JStr ''screen_add''), Tok (JStr sid)] c1
      in (r, Screen_setConfig r cfg c2))"

text \<open>
  \<^verbatim>\<open>Client.prototype.addScreen\<close>. It returns \<^verbatim>\<open>this.screens[id]\<close>, the object it has
  just stored there.
\<close>

definition Client_addScreen :: "jsval jsobject option \<Rightarrow> client \<Rightarrow> nat \<times> client" where
  "Client_addScreen cfg c =
     (let (sid, c1) = Client_newScreenId c;
          (r, c2) = Screen sid cfg c1
      in (r, c2\<lparr>screens := obj_put (screens c2) sid r\<rparr>))"

text \<open>\<^verbatim>\<open>Screen.prototype.delete\<close>\<close>

definition Screen_delete :: "nat \<Rightarrow> client \<Rightarrow> client" where
  "Screen_delete r c =
     (let sid = screenId (screen_store c ! r)
      in Client_unrefScreen sid
           (Client_write [Tok (JStr ''screen_del''), Tok (JStr sid)] c))"

text \<open>\<^verbatim>\<open>Screen.prototype._newWidgetId\<close>\<close>

definition Screen_newWidgetId :: "nat \<Rightarrow> client \<Rightarrow> string \<times> client" where
  "Screen_newWidgetId r c =
     (let s = screen_store c ! r
      in (screenId s @ ''_w'' @ dec (widgetCnt s),
          c\<lparr>screen_store := (screen_store c)[r := s\<lparr>widgetCnt := Suc (widgetCnt s)\<rparr>]\<rparr>))"

text \<open>\<^verbatim>\<open>Screen.prototype._unrefWidget\<close>\<close>

definition Screen_unrefWidget :: "nat \<Rightarrow> string \<Rightarrow> client \<Rightarrow> client" where
  "Screen_unrefWidget r wid c =
     (let s = screen_store c ! r
      in c\<lparr>screen_store := (screen_store c)[r := s\<lparr>widgets := obj_delete (widgets s) wid\<rparr>]\<rparr>)"

text \<open>
  \<^verbatim>\<open>function Widget(screen, widgetId, widgetType)\<close>, which every widget constructor
  calls; \<open>pr\<close> is the constructor that \<^verbatim>\<open>new\<close> was applied to.
\<close>

definition new_Widget :: "widget_proto \<Rightarrow> nat \<Rightarrow> string \<Rightarrow> jsval \<Rightarrow> client \<Rightarrow> nat \<times> client" where
  "new_Widget pr r wid wtype c =
     (let w = length (widget_store c);
          c1 = c\<lparr>widget_store := widget_store c @
                  [\<lparr> screen = r, widgetId = wid, widgetType = wtype, params = None,
                     proto = pr \<rparr>]\<rparr>
      in (w, Client_write [Tok (JStr ''widget_add''), Tok (JStr (screenId (screen_store c ! r))),
                           Tok (JStr wid), Tok wtype] c1))"

text \<open>\<^verbatim>\<open>this.widgets[id] = ...\<close>\<close>

definition set_widget :: "nat \<Rightarrow> string \<Rightarrow> nat \<Rightarrow> client \<Rightarrow> client" where
  "set_widget r wid w c =
     (let s = screen_store c ! r
      in c\<lparr>screen_store := (screen_store c)[r := s\<lparr>widgets := obj_put (widgets s) wid w\<rparr>]\<rparr>)"

text \<open>
  The body that \<^verbatim>\<open>addWidget\<close>, \<^verbatim>\<open>addString\<close>, \<^verbatim>\<open>addHorizontalBar\<close>,
  \<^verbatim>\<open>addVerticalBar\<close>, \<^verbatim>\<open>addIcon\<close> and \<^verbatim>\<open>addBigNumber\<close> share:
  \<^verbatim>\<open>var id = this._newWidgetId(); this.widgets[id] = new W(this, id); return this.widgets[id];\<close>
\<close>

definition add_numbered :: "widget_proto \<Rightarrow> jsval \<Rightarrow> nat \<Rightarrow> client \<Rightarrow> nat \<times> client" where
  "add_numbered pr wtype r c =
     (let (wid, c1) = Screen_newWidgetId r c;
          (w, c2) = new_Widget pr r wid wtype c1
      in (w, set_widget r wid w c2))"

definition Screen_addWidget :: "nat \<Rightarrow> jsval \<Rightarrow> client \<Rightarrow> nat \<times> client" where
  "Screen_addWidget r wtype c = add_numbered Widget wtype r c"

definition Screen_addString :: "nat \<Rightarrow> client \<Rightarrow> nat \<times> client" where
  "Screen_addString r c = add_numbered StringWidget (JStr ''string'') r c"

definition Screen_addHorizontalBar :: "nat \<Rightarrow> client \<Rightarrow> nat \<times> client" where
  "Screen_addHorizontalBar r c = add_numbered HorizontalBarWidget (JStr ''hbar'') r c"

definition Screen_addVerticalBar :: "nat \<Rightarrow> client \<Rightarrow> nat \<times> client" where
  "Screen_addVerticalBar r c = add_numbered VerticalBarWidget (JStr ''vbar'') r c"

definition Screen_addIcon :: "nat \<Rightarrow> client \<Rightarrow> nat \<times> client" where
  "Screen_addIcon r c = add_numbered IconWidget (JStr ''icon'') r c"

definition Screen_addBigNumber :: "nat \<Rightarrow> client \<Rightarrow> nat \<times> client" where
  "Screen_addBigNumber r c = add_numbered BigNumberWidget (JStr ''num'') r c"

text \<open>
  \<^verbatim>\<open>Screen.prototype.addTitle\<close>. The key ends in \<^verbatim>\<open>_wTITLE\<close> and so is no property of
  \<^verbatim>\<open>Object.prototype\<close>: \<^verbatim>\<open>this.widgets[id]\<close> is \<^verbatim>\<open>undefined\<close> exactly when the screen
  has no own property of that name.
\<close>

definition Screen_addTitle :: "nat \<Rightarrow> client \<Rightarrow> nat \<times> client" where
  "Screen_addTitle r c =
     (let wid = screenId (screen_store c ! r) @ ''_wTITLE''
      in case map_of (widgets (screen_store c ! r)) wid of
           None \<Rightarrow>
             (let (w, c1) = new_Widget TitleWidget r wid (JStr ''title'') c
              in (w, set_widget r wid w c1))
         | Some w \<Rightarrow> (w, c))"

subsection \<open>Widget\<close>

text \<open>
  \<^verbatim>\<open>Array.apply(null, arguments)\<close> is \<^verbatim>\<open>Array(a1, ..., an)\<close>: the array of the
  arguments, except that one single argument that is a number asks for an array of that
  length (its elements read as \<^verbatim>\<open>undefined\<close>), which throws unless the number is an
  integer from 0 to \<open>2^32 - 1\<close>.
\<close>

fun array_of_length :: "jsnum \<Rightarrow> error + jsval list" where
  "array_of_length (Finite q) =
     (if q = of_int \<lfloor>q\<rfloor> \<and> 0 \<le> q \<and> q \<le> 4294967295
      then Inr (replicate (nat \<lfloor>q\<rfloor>) JUndefined) else Inl RangeError)"
| "array_of_length a = Inl RangeError"

fun Array_apply :: "jsval list \<Rightarrow> error + jsval list" where
  "Array_apply [JNum a] = array_of_length a"
| "Array_apply args = Inr args"

text \<open>\<^verbatim>\<open>Widget.prototype.setParams\<close>\<close>

definition Widget_setParams :: "nat \<Rightarrow> jsval list \<Rightarrow> client \<Rightarrow> error + client" where
  "Widget_setParams w args c =
     (case Array_apply args of
        Inl e \<Rightarrow> Inl e
      | Inr ps \<Rightarrow>
          (let wd = widget_store c ! w;
               c1 = c\<lparr>widget_store := (widget_store c)[w := wd\<lparr>params := Some ps\<rparr>]\<rparr>
           in Inr (Client_write [Tok (JStr ''widget_set''),
                                 Tok (JStr (screenId (screen_store c ! screen wd))),
                                 Tok (JStr (widgetId wd)), Arr ps] c1)))"

text \<open>\<^verbatim>\<open>Widget.prototype.delete\<close>\<close>

definition Widget_delete :: "nat \<Rightarrow> client \<Rightarrow> client" where
  "Widget_delete w c =
     (let wd = widget_store c ! w
      in Screen_unrefWidget (screen wd) (widgetId wd)
           (Client_write [Tok (JStr ''widget_del''),
                          Tok (JStr (screenId (screen_store c ! screen wd))),
                          Tok (JStr (widgetId wd))] c))"

text \<open>\<^verbatim>\<open>TitleWidget.prototype.setTitle\<close>\<close>

definition TitleWidget_setTitle :: "nat \<Rightarrow> jsval \<Rightarrow> client \<Rightarrow> error + client" where
  "TitleWidget_setTitle w text c = Widget_setParams w [JStr (quoteString text)] c"

text \<open>\<^verbatim>\<open>StringWidget.prototype.set\<close>, \<^verbatim>\<open>setPos\<close> and \<^verbatim>\<open>setText\<close>\<close>

definition StringWidget_set :: "nat \<Rightarrow> jsval \<Rightarrow> jsval \<Rightarrow> jsval \<Rightarrow> client \<Rightarrow> error + client" where
  "StringWidget_set w x y text c = Widget_setParams w [x, y, JStr (quoteString text)] c"

definition StringWidget_setPos :: "nat \<Rightarrow> jsval \<Rightarrow> jsval \<Rightarrow> client \<Rightarrow> error + client" where
  "StringWidget_setPos w x y c =
     (case params (widget_store c ! w) of
        None \<Rightarrow> Widget_setParams w [x, y, JNum (Finite 0)] c
      | Some ps \<Rightarrow> Widget_setParams w [x, y, elem ps 2] c)"

definition StringWidget_setText :: "nat \<Rightarrow> jsval \<Rightarrow> client \<Rightarrow> error + client" where
  "StringWidget_setText w text c =
     (case params (widget_store c ! w) of
        None \<Rightarrow> StringWidget_set w (JNum (Finite 1)) (JNum (Finite 1)) text c
      | Some ps \<Rightarrow> StringWidget_set w (elem ps 0) (elem ps 1) text c)"

text \<open>
  \<^verbatim>\<open>HorizontalBarWidget.prototype.set\<close>: \<^verbatim>\<open>-\<close> and \<^verbatim>\<open>*\<close> apply \<^verbatim>\<open>ToNumber\<close> to their
  operands; the capabilities are numbers already.
\<close>

definition hbar_length :: "lcdproc_config \<Rightarrow> jsval \<Rightarrow> jsval \<Rightarrow> jsnum" where
  "hbar_length cfg x percent =
     Math_round
       (num_mul
          (num_mul (num_add (num_sub (width (lcdsize cfg)) (toNumber x)) (Finite 1))
                   (width (cellsize cfg)))
          (toNumber percent))"

definition HorizontalBarWidget_set ::
  "nat \<Rightarrow> jsval \<Rightarrow> jsval \<Rightarrow> jsval \<Rightarrow> client \<Rightarrow> error + client" where
  "HorizontalBarWidget_set w x y percent c =
     Widget_setParams w [x, y, JNum (hbar_length (lcdprocConfig c) x percent)] c"

text \<open>\<^verbatim>\<open>VerticalBarWidget.prototype.set\<close>\<close>

definition vbar_length :: "lcdproc_config \<Rightarrow> jsval \<Rightarrow> jsval \<Rightarrow> jsnum" where
  "vbar_length cfg y percent =
     Math_round (num_mul (num_mul (toNumber y) (height (cellsize cfg))) (toNumber percent))"

definition VerticalBarWidget_set ::
  "nat \<Rightarrow> jsval \<Rightarrow> jsval \<Rightarrow> jsval \<Rightarrow> client \<Rightarrow> error + client" where
  "VerticalBarWidget_set w x y percent c =
     Widget_setParams w [x, y, JNum (vbar_length (lcdprocConfig c) y percent)] c"

text \<open>
  \<^verbatim>\<open>HorizontalBarWidget.prototype.setPos = StringWidget.prototype.setPos\<close>, and the same
  for \<^verbatim>\<open>VerticalBarWidget\<close>.
\<close>

definition HorizontalBarWidget_setPos :: "nat \<Rightarrow> jsval \<Rightarrow> jsval \<Rightarrow> client \<Rightarrow> error + client" where
  "HorizontalBarWidget_setPos = StringWidget_setPos"

definition VerticalBarWidget_setPos :: "nat \<Rightarrow> jsval \<Rightarrow> jsval \<Rightarrow> client \<Rightarrow> error + client" where
  "VerticalBarWidget_setPos = StringWidget_setPos"

text \<open>
  \<^verbatim>\<open>HorizontalBarWidget.prototype.setValue\<close>, which is \<^verbatim>\<open>VerticalBarWidget\<close>'s too:
  \<^verbatim>\<open>this.set\<close> is the \<^verbatim>\<open>set\<close> of the widget's own prototype.
\<close>

definition this_set ::
  "nat \<Rightarrow> client \<Rightarrow> nat \<Rightarrow> jsval \<Rightarrow> jsval \<Rightarrow> jsval \<Rightarrow> client \<Rightarrow> error + client" where
  "this_set w c =
     (if proto (widget_store c ! w) = VerticalBarWidget then VerticalBarWidget_set
      else HorizontalBarWidget_set)"

definition HorizontalBarWidget_setValue :: "nat \<Rightarrow> jsval \<Rightarrow> client \<Rightarrow> error + client" where
  "HorizontalBarWidget_setValue w percent c =
     (case params (widget_store c ! w) of
        None \<Rightarrow> this_set w c w (JNum (Finite 1)) (JNum (Finite 1)) percent c
      | Some ps \<Rightarrow> this_set w c w (elem ps 0) (elem ps 1) percent c)"

definition VerticalBarWidget_setValue :: "nat \<Rightarrow> jsval \<Rightarrow> client \<Rightarrow> error + client" where
  "VerticalBarWidget_setValue = HorizontalBarWidget_setValue"

text \<open>\<^verbatim>\<open>IconWidget.prototype.set\<close> and \<^verbatim>\<open>setIcon\<close>\<close>

definition IconWidget_set :: "nat \<Rightarrow> jsval \<Rightarrow> jsval \<Rightarrow> jsval \<Rightarrow> client \<Rightarrow> error + client" where
  "IconWidget_set w x y iconname c = Widget_setParams w [x, y, iconname] c"

definition IconWidget_setIcon :: "nat \<Rightarrow> jsval \<Rightarrow> client \<Rightarrow> error + client" where
  "IconWidget_setIcon w iconname c =
     (case params (widget_store c ! w) of
        None \<Rightarrow> IconWidget_set w (JNum (Finite 1)) (JNum (Finite 1)) iconname c
      | Some ps \<Rightarrow> IconWidget_set w (elem ps 0) (elem ps 1) iconname c)"

text \<open>\<^verbatim>\<open>BigNumberWidget.prototype.set\<close>\<close>

definition BigNumberWidget_set :: "nat \<Rightarrow> jsval \<Rightarrow> jsval \<Rightarrow> client \<Rightarrow> error + client" where
  "BigNumberWidget_set w x number c = Widget_setParams w [x, number] c"

section \<open>Programs over the interface\<close>

text \<open>
  What a program and the socket can do to a client, as data: the public methods (on the
  client, on a screen it holds, on a widget it holds) and the three socket events. A
  method that the widget's prototype does not have is a \<^verbatim>\<open>TypeError\<close>, as the call
  \<^verbatim>\<open>w.setPos(...)\<close> on an icon widget is. A reference that no factory method has
  returned names no object; no program holds one, and the run stops with \<open>NoSuchObject\<close>.
\<close>

datatype call =
    Connect
  | Close
  | SocketConnected
  | SocketData string
  | SocketError
  | AddScreen "jsval jsobject option"
  | SetConfig nat "jsval jsobject option"
  | DeleteScreen nat
  | AddWidget nat jsval
  | AddTitle nat
  | AddString nat
  | AddHorizontalBar nat
  | AddVerticalBar nat
  | AddIcon nat
  | AddBigNumber nat
  | SetParams nat "jsval list"
  | DeleteWidget nat
  | SetTitle nat jsval
  | SetXY nat jsval jsval jsval
  | SetPos nat jsval jsval
  | SetText nat jsval
  | SetValue nat jsval
  | SetIcon nat jsval

datatype ret = Done | ScreenRef nat | WidgetRef nat

definition returning :: "client \<Rightarrow> error + ret \<times> client" where
  "returning c = Inr (Done, c)"

definition finished :: "error + client \<Rightarrow> error + ret \<times> client" where
  "finished res = (case res of Inl e \<Rightarrow> Inl e | Inr c \<Rightarrow> Inr (Done, c))"

definition new_screen :: "nat \<times> client \<Rightarrow> error + ret \<times> client" where
  "new_screen p = Inr (ScreenRef (fst p), snd p)"

definition new_widget :: "nat \<times> client \<Rightarrow> error + ret \<times> client" where
  "new_widget p = Inr (WidgetRef (fst p), snd p)"

text \<open>\<^verbatim>\<open>w.set(a, b, d)\<close>: the \<^verbatim>\<open>set\<close> of the widget's prototype.\<close>

definition widget_set :: "nat \<Rightarrow> jsval \<Rightarrow> jsval \<Rightarrow> jsval \<Rightarrow> client \<Rightarrow> error + client" where
  "widget_set w a b d c =
     (case proto (widget_store c ! w) of
        StringWidget \<Rightarrow> StringWidget_set w a b d c
      | HorizontalBarWidget \<Rightarrow> HorizontalBarWidget_set w a b d c
      | VerticalBarWidget \<Rightarrow> VerticalBarWidget_set w a b d c
      | IconWidget \<Rightarrow> IconWidget_set w a b d c
      | BigNumberWidget \<Rightarrow> BigNumberWidget_set w a b c
      | _ \<Rightarrow> Inl TypeError)"

definition widget_setPos :: "nat \<Rightarrow> jsval \<Rightarrow> jsval \<Rightarrow> client \<Rightarrow> error + client" where
  "widget_setPos w x y c =
     (case proto (widget_store c ! w) of
        StringWidget \<Rightarrow> StringWidget_setPos w x y c
      | HorizontalBarWidget \<Rightarrow> HorizontalBarWidget_setPos w x y c
      | VerticalBarWidget \<Rightarrow> VerticalBarWidget_setPos w x y c
      | _ \<Rightarrow> Inl TypeError)"

definition widget_setValue :: "nat \<Rightarrow> jsval \<Rightarrow> client \<Rightarrow> error + client" where
  "widget_setValue w percent c =
     (case proto (widget_store c ! w) of
        HorizontalBarWidget \<Rightarrow> HorizontalBarWidget_setValue w percent c
      | VerticalBarWidget \<Rightarrow> VerticalBarWidget_setValue w percent c
      | _ \<Rightarrow> Inl TypeError)"

definition on_screen :: "nat \<Rightarrow> client \<Rightarrow> (error + ret \<times> client) \<Rightarrow> error + ret \<times> client" where
  "on_screen r c res = (if r < length (screen_store c) then res else Inl NoSuchObject)"

definition on_widget :: "nat \<Rightarrow> client \<Rightarrow> (error + ret \<times> client) \<Rightarrow> error + ret \<times> client" where
  "on_widget w c res = (if w < length (widget_store c) then res else Inl NoSuchObject)"

fun exec :: "call \<Rightarrow> client \<Rightarrow> error + ret \<times> client" where
  "exec Connect c = returning (Client_connect c)"
| "exec Close c = returning (Client_close c)"
| "exec SocketConnected c = returning (on_connect c)"
| "exec (SocketData buf) c = finished (on_data buf c)"
| "exec SocketError c = returning (on_error c)"
| "exec (AddScreen cfg) c = new_screen (Client_addScreen cfg c)"
| "exec (SetConfig r cfg) c = on_screen r c (returning (Screen_setConfig r cfg c))"
| "exec (DeleteScreen r) c = on_screen r c (returning (Screen_delete r c))"
| "exec (AddWidget r wtype) c = on_screen r c (new_widget (Screen_addWidget r wtype c))"
| "exec (AddTitle r) c = on_screen r c (new_widget (Screen_addTitle r c))"
| "exec (AddString r) c = on_screen r c (new_widget (Screen_addString r c))"
| "exec (AddHorizontalBar r) c = on_screen r c (new_widget (Screen_addHorizontalBar r c))"
| "exec (AddVerticalBar r) c = on_screen r c (new_widget (Screen_addVerticalBar r c))"
| "exec (AddIcon r) c = on_screen r c (new_widget (Screen_addIcon r c))"
| "exec (AddBigNumber r) c = on_screen r c (new_widget (Screen_addBigNumber r c))"
| "exec (SetParams w args) c = on_widget w c (finished (Widget_setParams w args c))"
| "exec (DeleteWidget w) c = on_widget w c (returning (Widget_delete w c))"
| "exec (SetTitle w text) c =
     on_widget w c
       (if proto (widget_store c ! w) = TitleWidget then finished (TitleWidget_setTitle w text c)
        else Inl TypeError)"
| "exec (SetXY w a b d) c = on_widget w c (finished (widget_set w a b d c))"
| "exec (SetPos w x y) c = on_widget w c (finished (widget_setPos w x y c))"
| "exec (SetText w text) c =
     on_widget w c
       (if proto (widget_store c ! w) = StringWidget then finished (StringWidget_setText w text c)
        else Inl TypeError)"
| "exec (SetValue w percent) c = on_widget w c (finished (widget_setValue w percent c))"
| "exec (SetIcon w iconname) c =
     on_widget w c
       (if proto (widget_store c ! w) = IconWidget then finished (IconWidget_setIcon w iconname c)
        else Inl TypeError)"

text \<open>A program: the calls in order, until one throws. It returns what each call returned.\<close>

fun run :: "call list \<Rightarrow> client \<Rightarrow> error + ret list \<times> client" where
  "run [] c = Inr ([], c)"
| "run (k # ks) c =
     (case exec k c of
        Inl e \<Rightarrow> Inl e
      | Inr (v, c1) \<Rightarrow>
          (case run ks c1 of Inl e \<Rightarrow> Inl e | Inr (vs, c2) \<Rightarrow> Inr (v # vs, c2)))"

section \<open>Notions used to state the properties\<close>

text \<open>\<^verbatim>\<open>new Client()\<close>, with no configuration.\<close>

text \<open>The number that the decimal literal of value \<open>q\<close> denotes in a program.\<close>

definition number :: "rat \<Rightarrow> jsval" where
  "number q = JNum (fl q)"

definition no_options :: client_options where
  "no_options = \<lparr> opt_host = None, opt_port = None, opt_name = None \<rparr>"

text \<open>The handshake response of an LCDproc 0.5.7 server with a 20x4 display.\<close>

definition connect_line :: string where
  "connect_line = ''connect LCDproc 0.5.7 protocol 0.3 wid 20 hgt 4 cellwid 5 cellhgt 8''"

text \<open>
  What \<^verbatim>\<open>setParams\<close> is to do for a widget, in the words of its documentation: record
  \<open>ps\<close> as the widget's parameters and send \<^verbatim>\<open>widget_set <screenId> <id> <ps...>\<close>.
\<close>

definition sent_params :: "nat \<Rightarrow> jsval list \<Rightarrow> client \<Rightarrow> client" where
  "sent_params w ps c =
     c\<lparr> widget_store := (widget_store c)[w := (widget_store c ! w)\<lparr>params := Some ps\<rparr>],
        trace := trace c @
          [SocketWrite
             (join '' ''
                ([JStr ''widget_set'',
                  JStr (screenId (screen_store c ! screen (widget_store c ! w))),
                  JStr (widgetId (widget_store c ! w))] @ ps)
              @ [line_feed])] \<rparr>"

text \<open>
  An example: a program that connects, completes the handshake, adds a screen and puts
  one widget of each kind but \<^verbatim>\<open>num\<close> on it, and the state it leaves.
\<close>

definition demo_calls :: "call list" where
  "demo_calls =
     [SocketConnected, SocketData connect_line, AddScreen None, AddHorizontalBar 0,
      AddVerticalBar 0, AddString 0, AddIcon 0, AddTitle 0]"

definition demo_client :: client where
  "demo_client =
     \<lparr> config = \<lparr> host = ''localhost'', port = 13666, name = ''lcdprocjs'' \<rparr>,
       lcdprocConfig =
         \<lparr> version = JStr ''0.5.7'', protocol = JStr ''0.3'',
           lcdsize = \<lparr> width = Finite 20, height = Finite 4 \<rparr>,
           cellsize = \<lparr> width = Finite 5, height = Finite 8 \<rparr> \<rparr>,
       screens = [(''lcdprocjs_s0'', 0)],
       screenCnt = 1,
       screen_store =
         [\<lparr> screenId = ''lcdprocjs_s0'', screen_config = [],
            widgets =
              [(''lcdprocjs_s0_w0'', 0), (''lcdprocjs_s0_w1'', 1), (''lcdprocjs_s0_w2'', 2),
               (''lcdprocjs_s0_w3'', 3), (''lcdprocjs_s0_wTITLE'', 4)],
            widgetCnt = 4 \<rparr>],
       widget_store =
         [\<lparr> screen = 0, widgetId = ''lcdprocjs_s0_w0'', widgetType = JStr ''hbar'',
            params = None, proto = HorizontalBarWidget \<rparr>,
          \<lparr> screen = 0, widgetId = ''lcdprocjs_s0_w1'', widgetType = JStr ''vbar'',
            params = None, proto = VerticalBarWidget \<rparr>,
          \<lparr> screen = 0, widgetId = ''lcdprocjs_s0_w2'', widgetType = JStr ''string'',
            params = None, proto = StringWidget \<rparr>,
          \<lparr> screen = 0, widgetId = ''lcdprocjs_s0_w3'', widgetType = JStr ''icon'',
            params = None, proto = IconWidget \<rparr>,
          \<lparr> screen = 0, widgetId = ''lcdprocjs_s0_wTITLE'', widgetType = JStr ''title'',
            params = None, proto = TitleWidget \<rparr>],
       trace =
         [SocketWrite ''hello\<newline>'',
          SocketWrite ''client_set -name {lcdprocjs}\<newline>'',
          ClientEmit ''ready'',
          SocketWrite ''screen_add lcdprocjs_s0\<newline>'',
          SocketWrite ''widget_add lcdprocjs_s0 lcdprocjs_s0_w0 hbar\<newline>'',
          SocketWrite ''widget_add lcdprocjs_s0 lcdprocjs_s0_w1 vbar\<newline>'',
          SocketWrite ''widget_add lcdprocjs_s0 lcdprocjs_s0_w2 string\<newline>'',
          SocketWrite ''widget_add lcdprocjs_s0 lcdprocjs_s0_w3 icon\<newline>'',
          SocketWrite ''widget_add lcdprocjs_s0 lcdprocjs_s0_wTITLE title\<newline>''] \<rparr>"

text \<open>
  The ids of the widgets that the numbered factory methods (all but \<^verbatim>\<open>addTitle\<close>) have
  created on screen \<open>r\<close>, in the order of creation. The store keeps every widget ever
  created, deleted or not.
\<close>

definition numbered :: "nat \<Rightarrow> client \<Rightarrow> string list" where
  "numbered r c =
     map widgetId (filter (\<lambda>wd. screen wd = r \<and> proto wd \<noteq> TitleWidget) (widget_store c))"

text \<open>The calls that are widget factory methods of screen \<open>r\<close>.\<close>

fun factory_on :: "nat \<Rightarrow> call \<Rightarrow> bool" where
  "factory_on r (AddWidget r' wtype) = (r' = r)"
| "factory_on r (AddTitle r') = (r' = r)"
| "factory_on r (AddString r') = (r' = r)"
| "factory_on r (AddHorizontalBar r') = (r' = r)"
| "factory_on r (AddVerticalBar r') = (r' = r)"
| "factory_on r (AddIcon r') = (r' = r)"
| "factory_on r (AddBigNumber r') = (r' = r)"
| "factory_on r k = False"

text \<open>A chunk from the socket that the \<^verbatim>\<open>data\<close> listener takes for the handshake.\<close>

fun handshake :: "call \<Rightarrow> bool" where
  "handshake (SocketData buf) = starts_with ''connect'' (trim buf)"
| "handshake k = False"

text \<open>The screens that the calls of a program returned, in order.\<close>

fun screens_of :: "ret list \<Rightarrow> nat list" where
  "screens_of [] = []"
| "screens_of (ScreenRef r # vs) = r # screens_of vs"
| "screens_of (v # vs) = screens_of vs"

text \<open>
  What identifies the objects of a client: everything but the capabilities, the trace,
  the configuration of a screen and the parameters of a widget.
\<close>

definition screen_key :: "screen_obj \<Rightarrow> string \<times> nat jsobject \<times> nat" where
  "screen_key s = (screenId s, widgets s, widgetCnt s)"

definition widget_key :: "widget \<Rightarrow> nat \<times> string \<times> widget_proto" where
  "widget_key wd = (screen wd, widgetId wd, proto wd)"

definition skeleton ::
  "client \<Rightarrow> client_config \<times> nat jsobject \<times> nat \<times> (string \<times> nat jsobject \<times> nat) list
     \<times> (nat \<times> string \<times> widget_proto) list" where
  "skeleton c =
     (config c, screens c, screenCnt c, map screen_key (screen_store c),
      map widget_key (widget_store c))"

text \<open>
  The invariant of a client: the screens in the store are those the counter has numbered,
  each with the id of its number; a widget belongs to a screen in the store; the numbered
  widgets of a screen carry the ids of the counter values used so far; and a screen's
  \<^verbatim>\<open>widgets\<close> object maps an id to a widget of that id.
\<close>

definition consistent :: "client \<Rightarrow> bool" where
  "consistent c \<longleftrightarrow>
     length (screen_store c) = screenCnt c \<and>
     (\<forall>r < length (screen_store c).
        screenId (screen_store c ! r) = name (config c) @ ''_s'' @ dec r) \<and>
     (\<forall>w < length (widget_store c). screen (widget_store c ! w) < length (screen_store c)) \<and>
     (\<forall>r < length (screen_store c).
        numbered r c =
          map (\<lambda>n. screenId (screen_store c ! r) @ ''_w'' @ dec n)
            [0..<widgetCnt (screen_store c ! r)]) \<and>
     (\<forall>r < length (screen_store c). \<forall>wid w.
        map_of (widgets (screen_store c ! r)) wid = Some w \<longrightarrow>
          w < length (widget_store c) \<and> widgetId (widget_store c ! w) = wid)"

text \<open>The calls that create or unregister an object.\<close>

fun structural :: "call \<Rightarrow> bool" where
  "structural (AddScreen cfg) = True"
| "structural (DeleteScreen r) = True"
| "structural (AddWidget r wtype) = True"
| "structural (AddTitle r) = True"
| "structural (AddString r) = True"
| "structural (AddHorizontalBar r) = True"
| "structural (AddVerticalBar r) = True"
| "structural (AddIcon r) = True"
| "structural (AddBigNumber r) = True"
| "structural (DeleteWidget w) = True"
| "structural k = False"

text \<open>The widgets that the calls of a program returned, in order.\<close>

fun widgets_of :: "ret list \<Rightarrow> nat list" where
  "widgets_of [] = []"
| "widgets_of (WidgetRef w # vs) = w # widgets_of vs"
| "widgets_of (v # vs) = widgets_of vs"

text \<open>
  The ids that a sequence of factory calls on one screen is to hand out, for the screen
  id \<open>sid\<close> and the counter value \<open>n\<close>: the fixed id for the title, and for every other
  widget the id of the next number, the title not counted.
\<close>

fun expected_ids :: "string \<Rightarrow> nat \<Rightarrow> call list \<Rightarrow> string list" where
  "expected_ids sid n [] = []"
| "expected_ids sid n (AddTitle r # ks) = (sid @ ''_wTITLE'') # expected_ids sid n ks"
| "expected_ids sid n (k # ks) = (sid @ ''_w'' @ dec n) # expected_ids sid (Suc n) ks"


text \<open>How often the client has emitted \<^verbatim>\<open>ready\<close>.\<close>

definition ready_count :: "client \<Rightarrow> nat" where
  "ready_count c = count_list (trace c) (ClientEmit ''ready'')"



section \<open>Binary64 values\<close>

lemma bitlen_eq: "2 ^ k \<le> n \<Longrightarrow> n < 2 ^ Suc k \<Longrightarrow> bitlen n = Suc k"
proof (induction k arbitrary: n)
  case 0
  then have "n = 1" by simp
  then show ?case by (simp add: bitlen.simps)
next
  case (Suc k)
  from Suc.prems have "2 ^ k \<le> n div 2" and "n div 2 < 2 ^ Suc k"
    by auto
  from Suc.IH [OF this] Suc.prems show ?case
    by (subst bitlen.simps) auto
qed

lemma bitlen_bounds: "0 < n \<Longrightarrow> 2 ^ (bitlen n - 1) \<le> n \<and> n < 2 ^ bitlen n"
proof (induction n rule: bitlen.induct)
  case (1 n)
  show ?case
  proof (cases "n div 2 \<le> 0")
    case True
    with 1(2) have "n = 1" by auto
    then show ?thesis by (simp add: bitlen.simps)
  next
    case False
    with 1 have ih: "2 ^ (bitlen (n div 2) - 1) \<le> n div 2" "n div 2 < 2 ^ bitlen (n div 2)"
      by auto
    from False have pos: "0 < bitlen (n div 2)"
      by (subst bitlen.simps) simp
    have b: "bitlen n = Suc (bitlen (n div 2))"
      using 1(2) by (subst bitlen.simps) simp
    from pos obtain j where j: "bitlen (n div 2) = Suc j"
      by (cases "bitlen (n div 2)") auto
    from ih show ?thesis
      unfolding b j by auto
  qed
qed


lemma pow2_pos: "0 < (pow2 k :: rat)"
  by (simp add: pow2_def)

lemma pow2_nat: "0 \<le> k \<Longrightarrow> (pow2 k :: rat) = of_int (2 ^ nat k)"
  by (simp add: pow2_def)

lemma pow2_neg: "pow2 (- int n) = 1 / 2 ^ n"
  by (cases n) (simp_all add: pow2_def nat_add_distrib)

lemma exponent_of_eq:
  assumes "pow2 k \<le> q" and "q < pow2 (k + 1)"
  shows "exponent_of q = k"
proof (cases "0 \<le> k")
  case True
  with assms have lo: "of_int (2 ^ nat k) \<le> q" and hi: "q < of_int (2 ^ nat (k + 1))"
    by (simp_all add: pow2_nat)
  from lo have "(1 :: rat) \<le> of_int (2 ^ nat k)"
    by simp
  with lo have q1: "1 \<le> q"
    by linarith
  from lo have "2 ^ nat k \<le> \<lfloor>q\<rfloor>"
    by (simp add: le_floor_iff)
  moreover from hi have "\<lfloor>q\<rfloor> < 2 ^ nat (k + 1)"
    by (simp add: floor_less_iff)
  moreover from True have "nat (k + 1) = Suc (nat k)"
    by simp
  ultimately have "bitlen \<lfloor>q\<rfloor> = Suc (nat k)"
    by (intro bitlen_eq) simp_all
  with q1 True show ?thesis
    by (simp add: exponent_of_def)
next
  case False
  define j where "j = nat (- k)"
  with False have k: "k = - int j" and j: "0 < j"
    by simp_all
  then obtain i where i: "j = Suc i"
    by (cases j) auto
  have q0: "0 < q"
    using assms(1) pow2_pos [of k] by linarith
  have "k + 1 = - int i"
    by (simp add: k i)
  with assms have lo: "1 / 2 ^ j \<le> q" and hi: "q < 1 / 2 ^ i"
    by (simp_all add: pow2_neg k)
  from hi have q1: "q < 1"
  proof -
    have "(1::rat) / 2 ^ i \<le> 1"
      by simp
    with hi show ?thesis
      by linarith
  qed
  from lo q0 have "1 / q \<le> 2 ^ j"
    by (simp add: field_simps)
  then have "1 / q \<le> of_int (2 ^ j)"
    by simp
  then have up: "\<lceil>1 / q\<rceil> \<le> 2 ^ j"
    by (simp only: ceiling_le_iff)
  from hi q0 have "2 ^ i < 1 / q"
    by (simp add: field_simps)
  then have "of_int (2 ^ i) < 1 / q"
    by simp
  then have "2 ^ i < \<lceil>1 / q\<rceil>"
    by (simp only: less_ceiling_iff)
  with up have "2 ^ i \<le> \<lceil>1 / q\<rceil> - 1" and "\<lceil>1 / q\<rceil> - 1 < 2 ^ Suc i"
    by (simp_all add: i)
  then have "bitlen (\<lceil>1 / q\<rceil> - 1) = Suc i"
    by (rule bitlen_eq)
  with q1 show ?thesis
    by (simp add: exponent_of_def k i)
qed

lemma round_even_eq:
  assumes "\<bar>r - of_int m\<bar> < 1 / 2 \<or> \<bar>r - of_int m\<bar> = 1 / 2 \<and> even m"
  shows "round_even r = m"
proof -
  consider "r - of_int m < 1 / 2" "0 \<le> r - of_int m"
    | "r - of_int m < 0" "- (1 / 2) < r - of_int m"
    | "r - of_int m = 1 / 2" "even m"
    | "r - of_int m = - (1 / 2)" "even m"
    using assms by fastforce
  then show ?thesis
  proof cases
    case 1
    then have "\<lfloor>r\<rfloor> = m"
      by (intro floor_unique) linarith+
    with 1 show ?thesis
      by (simp add: round_even_def Let_def)
  next
    case 2
    then have "\<lfloor>r\<rfloor> = m - 1"
      by (simp add: floor_eq_iff; linarith)
    with 2 show ?thesis
      by (simp add: round_even_def Let_def)
  next
    case 3
    then have "\<lfloor>r\<rfloor> = m"
      by (intro floor_unique) linarith+
    with 3 show ?thesis
      by (simp add: round_even_def Let_def)
  next
    case 4
    then have "\<lfloor>r\<rfloor> = m - 1"
      by (simp add: floor_eq_iff; linarith)
    with 4 show ?thesis
      by (simp add: round_even_def Let_def)
  qed
qed

text \<open>How a value of \<open>fl\<close> is checked: give the binade \<open>k\<close> and the significand \<open>m\<close>.\<close>

lemma fl_eqI:
  assumes "pow2 k \<le> q" and "q < pow2 (k + 1)"
    and "u = pow2 (max k (- 1022) - 52)"
    and "\<bar>q / u - of_int m\<bar> < 1 / 2 \<or> \<bar>q / u - of_int m\<bar> = 1 / 2 \<and> even m"
    and "of_int m * u < 2 ^ 1024"
  shows "fl q = Finite (of_int m * u)"
proof -
  have "0 < q"
    using assms(1) pow2_pos [of k] by linarith
  moreover have "exponent_of q = k"
    using assms(1,2) by (rule exponent_of_eq)
  moreover have "round_even (q / u) = m"
    using assms(4) by (rule round_even_eq)
  ultimately show ?thesis
    using assms(3,5) by (simp add: fl_def fl_pos_def Let_def)
qed

lemma fl_neg: "fl (- q) = num_neg (fl q)"
proof -
  have "num_neg (num_neg a) = a" for a
    by (cases a) simp_all
  then show ?thesis
    by (simp add: fl_def)
qed

text \<open>Integers of magnitude up to \<open>2^53\<close> are binary64 values.\<close>

lemma fl_of_nat_pos:
  assumes "0 < n" and "n \<le> 2 ^ 53"
  shows "fl (of_int n) = Finite (of_int n)"
proof (cases "n = 2 ^ 53")
  case True
  have "fl (of_int n) = Finite (of_int (2 ^ 52) * pow2 (max 53 (- 1022) - 52))"
    by (rule fl_eqI [where k = 53]) (simp_all add: True pow2_def)
  then show ?thesis
    by (simp add: True pow2_def)
next
  case False
  with assms have lt: "n < 2 ^ 53"
    by simp
  define k where "k = bitlen n - 1"
  from bitlen_bounds [OF assms(1)] have lo: "2 ^ k \<le> n" and hi: "n < 2 ^ bitlen n"
    by (simp_all add: k_def)
  have "0 < bitlen n"
    using assms(1) by (subst bitlen.simps) simp
  then have b: "bitlen n = Suc k"
    by (simp add: k_def)
  have "k < 53"
  proof (rule ccontr)
    assume "\<not> k < 53"
    then have "(2::int) ^ 53 \<le> 2 ^ k"
      by (intro power_increasing) simp_all
    with lo lt show False
      by linarith
  qed
  then have k52: "k \<le> 52"
    by simp
  define u :: rat where "u = pow2 (int k - 52)"
  have u: "u = 1 / 2 ^ (52 - k)"
    using k52 by (cases "k = 52") (simp_all add: u_def pow2_def nat_diff_distrib')
  have "fl (of_int n) = Finite (of_int (n * 2 ^ (52 - k)) * u)"
  proof (rule fl_eqI [where k = "int k"])
    show "pow2 (int k) \<le> (of_int n :: rat)"
    proof -
      have "(of_int (2 ^ k) :: rat) \<le> of_int n"
        using lo by (simp only: of_int_le_iff)
      then show ?thesis
        by (simp add: pow2_def)
    qed
    show "(of_int n :: rat) < pow2 (int k + 1)"
    proof -
      have "(of_int n :: rat) < of_int (2 ^ Suc k)"
        using hi unfolding b by (simp only: of_int_less_iff)
      then show ?thesis
        by (simp add: pow2_def nat_add_distrib)
    qed
    show "u = pow2 (max (int k) (- 1022) - 52)"
      by (simp add: u_def)
    show "\<bar>of_int n / u - of_int (n * 2 ^ (52 - k))\<bar> < 1 / 2 \<or>
      \<bar>of_int n / u - of_int (n * 2 ^ (52 - k))\<bar> = 1 / 2 \<and> even (n * 2 ^ (52 - k))"
      by (simp add: u)
    show "of_int (n * 2 ^ (52 - k)) * u < 2 ^ 1024"
    proof -
      have "(of_int n :: rat) < of_int (2 ^ 53)"
        using lt by (simp only: of_int_less_iff)
      also have "\<dots> \<le> 2 ^ 1024"
        by simp
      finally show ?thesis
        by (simp add: u)
    qed
  qed
  then show ?thesis
    by (simp add: u)
qed

lemma fl_of_int: "\<bar>n\<bar> \<le> 2 ^ 53 \<Longrightarrow> fl (of_int n) = Finite (of_int n)"
proof -
  assume a: "\<bar>n\<bar> \<le> 2 ^ 53"
  consider "n = 0" | "0 < n" | "n < 0"
    by linarith
  then show ?thesis
  proof cases
    case 1
    then show ?thesis by (simp add: fl_def)
  next
    case 2
    with a show ?thesis by (simp add: fl_of_nat_pos)
  next
    case 3
    with a have "fl (of_int (- n)) = Finite (of_int (- n))"
      by (intro fl_of_nat_pos) simp_all
    then have "num_neg (fl (of_int n)) = Finite (- of_int n)"
      by (simp add: fl_neg)
    then show ?thesis
      by (cases "fl (of_int n)") simp_all
  qed
qed

lemma fl_numeral [simp]:
  "numeral w \<le> (9007199254740992 :: int) \<Longrightarrow> fl (numeral w) = Finite (numeral w)"
  "numeral w \<le> (9007199254740992 :: int) \<Longrightarrow> fl (- numeral w) = Finite (- numeral w)"
  "fl 0 = Finite 0"
  "fl 1 = Finite 1"
  "fl (- 1) = Finite (- 1)"
  using fl_of_int [of "numeral w"] fl_of_int [of "- numeral w"] fl_of_int [of 1]
    fl_of_int [of "- 1"]
  by (simp_all add: fl_def)

section \<open>Decimal digits and ids\<close>

lemma digit_char_simps:
  "digit_char 0 = CHR ''0''" "digit_char 1 = CHR ''1''" "digit_char 2 = CHR ''2''"
  "digit_char 3 = CHR ''3''" "digit_char 4 = CHR ''4''" "digit_char 5 = CHR ''5''"
  "digit_char 6 = CHR ''6''" "digit_char 7 = CHR ''7''" "digit_char 8 = CHR ''8''"
  "digit_char 9 = CHR ''9''"
  by (simp_all add: digit_char_def char_of_def bit_Suc_0_iff)

lemma digit_val_digit_char: "d < 10 \<Longrightarrow> digit_val (digit_char d) = d"
  by (simp add: digit_val_def digit_char_def)

lemma is_digit_digit_char: "d < 10 \<Longrightarrow> is_digit (digit_char d)"
  by (simp add: is_digit_def digit_char_def)

lemma undec_snoc: "undec (s @ [ch]) = 10 * undec s + digit_val ch"
  by (simp add: undec_def)

text \<open>Reading the digits of a number gives the number back: \<open>dec\<close> is injective.\<close>

lemma undec_dec: "undec (dec n) = n"
proof (induction n rule: dec.induct)
  case (1 n)
  show ?case
  proof (cases "n < 10")
    case True
    then show ?thesis
      by (subst dec.simps) (simp add: undec_def digit_val_digit_char)
  next
    case False
    then have "undec (dec (n div 10)) = n div 10"
      using 1 by simp
    with False show ?thesis
      by (subst dec.simps) (simp add: undec_snoc digit_val_digit_char)
  qed
qed

lemma dec_inj: "dec m = dec n \<longleftrightarrow> m = n"
  by (metis undec_dec)

lemma dec_not_Nil: "dec n \<noteq> []"
  by (subst dec.simps) simp

lemma dec_digits: "ch \<in> set (dec n) \<Longrightarrow> is_digit ch"
proof (induction n rule: dec.induct)
  case (1 n)
  show ?case
  proof (cases "n < 10")
    case True
    with 1(2) show ?thesis
      by (subst (asm) dec.simps) (simp add: is_digit_digit_char)
  next
    case False
    with 1 show ?thesis
      by (subst (asm) (2) dec.simps) (auto simp: is_digit_digit_char)
  qed
qed

lemma last_dec: "is_digit (last (s @ dec n))"
  using dec_digits [of "last (dec n)" n] dec_not_Nil [of n] by simp

text \<open>An id that ends in a counter is no property of \<^verbatim>\<open>Object.prototype\<close>.\<close>

lemma prototype_key_last: "k \<in> set object_prototype_keys \<Longrightarrow> \<not> is_digit (last k)"
  by (auto simp: object_prototype_keys_def is_digit_def)

lemma numbered_not_inherited: "s @ dec n \<notin> set object_prototype_keys"
  using prototype_key_last [of "s @ dec n"] last_dec [of s n] by blast

lemma obj_get_Missing:
  "map_of obj (s @ dec n) = None \<Longrightarrow> obj_get obj (s @ dec n) = Missing"
  by (simp add: obj_get_def numbered_not_inherited)

lemma map_of_obj_put: "map_of (obj_put obj k v) = (map_of obj)(k \<mapsto> v)"
  by (induction obj) auto

lemma map_of_obj_delete: "map_of (obj_delete obj k) = (map_of obj)(k := None)"
  by (induction obj) (auto simp: obj_delete_def)

section \<open>Strings and lines\<close>

lemma split_no_sep: "d \<notin> set s \<Longrightarrow> split d s = [s]"
  by (induction s) auto

lemma dropWhile_hd: "xs \<noteq> [] \<Longrightarrow> \<not> P (hd xs) \<Longrightarrow> dropWhile P xs = xs"
  by (cases xs) auto

lemma trim_id: "s \<noteq> [] \<Longrightarrow> \<not> is_ws (hd s) \<Longrightarrow> \<not> is_ws (last s) \<Longrightarrow> trim s = s"
  by (simp add: trim_def dropWhile_hd hd_rev)

lemma is_ws_line_feed: "is_ws line_feed"
  by (simp add: is_ws_def line_feed_def)

lemma trim_line_feed:
  "s \<noteq> [] \<Longrightarrow> \<not> is_ws (hd s) \<Longrightarrow> \<not> is_ws (last s) \<Longrightarrow> trim (s @ [line_feed]) = s"
  by (simp add: trim_def dropWhile_hd hd_rev is_ws_line_feed)

lemma is_digit_not_ws: "is_digit ch \<Longrightarrow> \<not> is_ws ch"
  by (auto simp: is_digit_def is_ws_def)

lemmas string_eval = trim_def is_ws_def starts_with_def line_feed_def

lemmas number_eval = string_toNumber_def radix_prefix_def split_sign_def unsigned_decimal_def
  is_exp_mark_def is_digit_def exponent_part_def digit_val_def pow10_def undec_def


section \<open>Evaluating programs\<close>

lemma dec_small:
  "dec 0 = ''0''" "dec (Suc 0) = ''1''" "dec (Suc (Suc 0)) = ''2''"
  "dec (Suc (Suc (Suc 0))) = ''3''" "dec (Suc (Suc (Suc (Suc 0)))) = ''4''"
  by (simp_all add: dec.simps digit_char_def char_of_def bit_Suc_0_iff)

lemma dec_numerals:
  "dec 1 = ''1''" "dec 2 = ''2''" "dec 3 = ''3''" "dec 4 = ''4''" "dec 5 = ''5''"
  by (simp_all add: dec.simps digit_char_def char_of_def bit_Suc_0_iff)

text \<open>\<^verbatim>\<open>Math.round\<close> leaves an integer as it is.\<close>

lemma Math_round_of_int: "Math_round (Finite (of_int n)) = Finite (of_int n)"
  by (simp add: floor_eq_iff)

declare Math_round.simps(1) [simp del]

lemma Math_round_integer [simp]:
  "Math_round (Finite 0) = Finite 0"
  "Math_round (Finite 1) = Finite 1"
  "Math_round (Finite (numeral k)) = Finite (numeral k)"
  "Math_round (Finite (- numeral k)) = Finite (- numeral k)"
  using Math_round_of_int [of 0] Math_round_of_int [of 1] Math_round_of_int [of "numeral k"]
    Math_round_of_int [of "- numeral k"]
  by simp_all

text \<open>Evaluating the rounding to binary64 and the printing of numbers.\<close>

lemma floor_rat_numeral:
  "\<lfloor>(numeral a :: rat) / numeral b\<rfloor> = numeral a div numeral b"
  "\<lfloor>(1 :: rat) / numeral b\<rfloor> = 1 div numeral b"
  using floor_divide_of_int_eq [of "numeral a" "numeral b", where ?'a = rat]
    floor_divide_of_int_eq [of 1 "numeral b", where ?'a = rat]
  by simp_all

lemma ceiling_rat_numeral:
  "\<lceil>(numeral a :: rat) / numeral b\<rceil> = - (- numeral a div numeral b)"
  "\<lceil>(1 :: rat) / numeral b\<rceil> = - (- 1 div numeral b)"
  using ceiling_divide_eq_div [of "numeral a" "numeral b", where ?'a = rat]
    ceiling_divide_eq_div [of 1 "numeral b", where ?'a = rat]
  by simp_all

lemma bitlen_numeral:
  "bitlen 0 = 0" "bitlen 1 = 1"
  "bitlen (numeral w) = Suc (bitlen (numeral w div 2))"
  by (subst bitlen.simps, simp)+

lemma declen_numeral:
  "declen 0 = 0" "declen 1 = 1"
  "declen (numeral w) = Suc (declen (numeral w div 10))"
  by (subst declen.simps, simp)+

lemma digits_numeral:
  "n < 10 \<Longrightarrow> digits n = [digit_char (nat n)]"
  "10 \<le> n \<Longrightarrow> digits n = digits (n div 10) @ [digit_char (nat (n mod 10))]"
  by (subst digits.simps, simp)+

lemma shortest_decimal_numeral:
  "shortest_decimal q n k (numeral w) =
     (case decimal_near q n k of
        Some s \<Rightarrow> (s, k)
      | None \<Rightarrow> shortest_decimal q n (Suc k) (pred_numeral w))"
  by (simp add: numeral_eq_Suc)

lemma replicate_num: "replicate (numeral w) x = x # replicate (pred_numeral w) x"
  by (simp add: numeral_eq_Suc)

lemmas fl_eval = fl_def fl_pos_def exponent_of_def round_even_def pow2_def bitlen_numeral
  floor_rat_numeral ceiling_rat_numeral Let_def

lemmas printer_eval = pos_toString_def decimal_digits_def magnitude_def decimal_near_def
  strip_zeros_def pow10_def declen_numeral digits_numeral digit_char_def char_of_def
  bit_Suc_0_iff shortest_decimal_numeral replicate_num floor_rat_numeral ceiling_rat_numeral
  Let_def

lemma pos_toString_small:
  "pos_toString 0 = ''0''" "pos_toString 1 = ''1''" "pos_toString 11 = ''11''"
  "pos_toString 50 = ''50''" "pos_toString 100 = ''100''"
  "pos_toString 2 = ''2''" "pos_toString 3 = ''3''" "pos_toString 4 = ''4''"
  "pos_toString 5 = ''5''" "pos_toString 6 = ''6''" "pos_toString 14 = ''14''"
  "pos_toString 22 = ''22''" "pos_toString 25 = ''25''" "pos_toString 32 = ''32''"
  by (simp_all add: printer_eval)

text \<open>
  Numbers that are no small integers: a fraction, a fraction of 17 digits, the binary64
  value of \<^verbatim>\<open>0.1\<close>, an integer above \<open>2^53\<close> (\<open>2^60\<close>, whose last digits are not
  printed) and \<open>10^21\<close>, where the exponent notation begins.
\<close>

lemma pos_toString_examples:
  "pos_toString (3 / 2) = ''1.5''"
  "pos_toString (3602879701896397 / 36028797018963968) = ''0.1''"
  "pos_toString (8162774324609023 / 562949953421312) = ''14.499999999999998''"
  "pos_toString 1152921504606846976 = ''1152921504606847000''"
  "pos_toString 1000000000000000000000 = ''1e+21''"
  by (simp_all add: printer_eval fl_eval)

lemmas client_eval = Client_def no_options_def effect_def Client_write_def Client_unrefScreen_def
  Client_newScreenId_def Client_connect_def Client_close_def on_connect_def on_error_def
  Client_addScreen_def Screen_def Screen_setConfig_def Screen_delete_def
  Screen_newWidgetId_def Screen_unrefWidget_def new_Widget_def set_widget_def add_numbered_def
  Screen_addWidget_def Screen_addString_def Screen_addHorizontalBar_def
  Screen_addVerticalBar_def Screen_addIcon_def Screen_addBigNumber_def Screen_addTitle_def
  Widget_setParams_def Widget_delete_def TitleWidget_setTitle_def StringWidget_set_def
  StringWidget_setPos_def StringWidget_setText_def HorizontalBarWidget_set_def
  VerticalBarWidget_set_def HorizontalBarWidget_setPos_def VerticalBarWidget_setPos_def
  this_set_def HorizontalBarWidget_setValue_def VerticalBarWidget_setValue_def
  IconWidget_set_def IconWidget_setIcon_def BigNumberWidget_set_def
  returning_def finished_def new_screen_def new_widget_def widget_set_def widget_setPos_def
  widget_setValue_def on_screen_def on_widget_def quoteString_def elem_def
  hbar_length_def vbar_length_def num_sub_def Let_def line_feed_def


section \<open>The handshake\<close>

lemma split_connect_line:
  "split CHR '' '' connect_line =
     [''connect'', ''LCDproc'', ''0.5.7'', ''protocol'', ''0.3'', ''wid'', ''20'', ''hgt'', ''4'',
      ''cellwid'', ''5'', ''cellhgt'', ''8'']"
  by (simp add: connect_line_def)

lemma connect_params_connect_line:
  "connect_params (split CHR '' '' connect_line) cfg =
     \<lparr> version = JStr ''0.5.7'', protocol = JStr ''0.3'',
       lcdsize = \<lparr> width = Finite 20, height = Finite 4 \<rparr>,
       cellsize = \<lparr> width = Finite 5, height = Finite 8 \<rparr> \<rparr>"
  by (simp add: split_connect_line connect_param_def number_eval string_eval)

lemma trim_connect_line: "trim connect_line = connect_line"
  by (simp add: connect_line_def string_eval)

lemma starts_with_connect_line: "starts_with ''connect'' connect_line"
  by (simp add: connect_line_def string_eval)

lemma on_connect_line_connect_line:
  "on_connect_line connect_line c =
     c\<lparr> lcdprocConfig :=
          \<lparr> version = JStr ''0.5.7'', protocol = JStr ''0.3'',
            lcdsize = \<lparr> width = Finite 20, height = Finite 4 \<rparr>,
            cellsize = \<lparr> width = Finite 5, height = Finite 8 \<rparr> \<rparr>,
        trace := trace c @
          [SocketWrite (''client_set -name {'' @ name (config c) @ ''}'' @ [line_feed]),
           ClientEmit ''ready''] \<rparr>"
  by (simp add: on_connect_line_def connect_params_connect_line Client_write_def effect_def
      quoteString_def)

lemma on_data_connect_line: "on_data connect_line c = Inr (on_connect_line connect_line c)"
  by (simp add: on_data_def trim_connect_line starts_with_connect_line)

text \<open>
  C1. When the connection receives the line
  \<^verbatim>\<open>connect LCDproc 0.5.7 protocol 0.3 wid 20 hgt 4 cellwid 5 cellhgt 8\<close>, whatever the
  capabilities were before (in particular the zeros of a new client), they are afterwards
  version "0.5.7", protocol "0.3", size 20 by 4 and cell size 5 by 8; the listener has
  written \<^verbatim>\<open>client_set -name {<name>}\<close> to the socket and then emitted \<^verbatim>\<open>ready\<close> once,
  and it has done nothing else. Both effects are in the trace when the listener returns,
  so before any later chunk is looked at.
\<close>

theorem handshake_line:
  "connect_line = ''connect LCDproc 0.5.7 protocol 0.3 wid 20 hgt 4 cellwid 5 cellhgt 8'' \<and>
   lcdprocConfig (Client opts) =
     \<lparr> version = JNum (Finite 0), protocol = JNum (Finite 0),
       lcdsize = \<lparr> width = Finite 0, height = Finite 0 \<rparr>,
       cellsize = \<lparr> width = Finite 0, height = Finite 0 \<rparr> \<rparr> \<and>
   on_data connect_line c =
     Inr (c\<lparr> lcdprocConfig :=
               \<lparr> version = JStr ''0.5.7'', protocol = JStr ''0.3'',
                 lcdsize = \<lparr> width = Finite 20, height = Finite 4 \<rparr>,
                 cellsize = \<lparr> width = Finite 5, height = Finite 8 \<rparr> \<rparr>,
             trace := trace c @
               [SocketWrite (''client_set -name {'' @ name (config c) @ ''}'' @ [line_feed]),
                ClientEmit ''ready''] \<rparr>)"
  by (simp add: on_data_connect_line on_connect_line_connect_line connect_line_def [symmetric]
      Client_def)

section \<open>Widgets\<close>

text \<open>The example program runs, and leaves the example state.\<close>

lemma run_demo:
  "run demo_calls (Client no_options) =
     Inr ([Done, Done, ScreenRef 0, WidgetRef 0, WidgetRef 1, WidgetRef 2, WidgetRef 3,
           WidgetRef 4], demo_client)"
  by (simp add: demo_calls_def demo_client_def on_data_connect_line
      on_connect_line_connect_line client_eval dec_small)

lemma Array_apply_3: "Array_apply [a, b, d] = Inr [a, b, d]"
  by simp

lemma Widget_setParams_sent:
  "Array_apply args = Inr ps \<Longrightarrow> Widget_setParams w args c = Inr (sent_params w ps c)"
  by (simp add: Widget_setParams_def sent_params_def Client_write_def effect_def Let_def)

lemma sent_params_params:
  "w < length (widget_store c) \<Longrightarrow> params (widget_store (sent_params w ps c) ! w) = Some ps"
  by (simp add: sent_params_def)

lemma sent_params_other [simp]:
  "lcdprocConfig (sent_params w ps c) = lcdprocConfig c"
  "screen_store (sent_params w ps c) = screen_store c"
  "length (widget_store (sent_params w ps c)) = length (widget_store c)"
  by (simp_all add: sent_params_def)

lemma sent_params_proto:
  "proto (widget_store (sent_params w ps c) ! v) = proto (widget_store c ! v)"
  by (cases "w < length (widget_store c)")
    (simp_all add: sent_params_def nth_list_update list_update_beyond)

subsection \<open>Bar lengths\<close>

text \<open>
  The binary64 values of the decimal literals \<^verbatim>\<open>0.015\<close>, \<^verbatim>\<open>0.145\<close>, \<^verbatim>\<open>0.29\<close> and
  \<^verbatim>\<open>0.3\<close>, and of the products of the examples below.
\<close>

lemma fl_literals:
  "fl (3 / 200) = Finite (1080863910568919 / 72057594037927936)"
  "fl (29 / 200) = Finite (5224175567749775 / 36028797018963968)"
  "fl (29 / 100) = Finite (5224175567749775 / 18014398509481984)"
  "fl (3 / 10) = Finite (5404319552844595 / 18014398509481984)"
  using fl_eqI [where q = "3 / 200" and k = "- 7" and m = 8646911284551352, OF _ _ refl]
    fl_eqI [where q = "29 / 200" and k = "- 3" and m = 5224175567749775, OF _ _ refl]
    fl_eqI [where q = "29 / 100" and k = "- 2" and m = 5224175567749775, OF _ _ refl]
    fl_eqI [where q = "3 / 10" and k = "- 2" and m = 5404319552844595, OF _ _ refl]
  by (simp_all add: pow2_def)

lemma fl_products:
  "fl (27021597764222975 / 18014398509481984) = Finite (3 / 2)"
  "fl (130604389193744375 / 9007199254740992) = Finite (8162774324609023 / 562949953421312)"
  "fl (391813167581233125 / 18014398509481984) = Finite (87 / 4)"
  "fl (5404319552844595 / 1125899906842624) = Finite (5404319552844595 / 1125899906842624)"
  "fl (1 / 2) = Finite (1 / 2)"
  "fl (3 / 2) = Finite (3 / 2)"
  using fl_eqI [where q = "27021597764222975 / 18014398509481984" and k = 0
      and m = 6755399441055744, OF _ _ refl]
    fl_eqI [where q = "130604389193744375 / 9007199254740992" and k = 3
      and m = 8162774324609023, OF _ _ refl]
    fl_eqI [where q = "391813167581233125 / 18014398509481984" and k = 4
      and m = 6122080743456768, OF _ _ refl]
    fl_eqI [where q = "5404319552844595 / 1125899906842624" and k = 2
      and m = 5404319552844595, OF _ _ refl]
    fl_eqI [where q = "1 / 2" and k = "- 1" and m = 4503599627370496, OF _ _ refl]
    fl_eqI [where q = "3 / 2" and k = 0 and m = 6755399441055744, OF _ _ refl]
  by (simp_all add: pow2_def)

lemma Math_round_eqI:
  "of_int n \<le> q + 1 / 2 \<Longrightarrow> q + 1 / 2 < of_int n + 1 \<Longrightarrow> Math_round (Finite q) = Finite (of_int n)"
  by (simp add: Math_round.simps(1) floor_unique)

lemma Math_round_fractions:
  "Math_round (Finite (3 / 2)) = Finite 2"
  "Math_round (Finite (8162774324609023 / 562949953421312)) = Finite 14"
  "Math_round (Finite (87 / 4)) = Finite 22"
  "Math_round (Finite (5404319552844595 / 1125899906842624)) = Finite 5"
  "Math_round (Finite (1 / 2)) = Finite 1"
  "Math_round (Finite (- (1 / 2))) = Finite 0"
  "Math_round (Finite (- (3 / 2))) = Finite (- 1)"
  using Math_round_eqI [of 2 "3 / 2"]
    Math_round_eqI [of 14 "8162774324609023 / 562949953421312"]
    Math_round_eqI [of 22 "87 / 4"]
    Math_round_eqI [of 5 "5404319552844595 / 1125899906842624"]
    Math_round_eqI [of 1 "1 / 2"]
    Math_round_eqI [of 0 "- (1 / 2)"]
    Math_round_eqI [of "- 1" "- (3 / 2)"]
  by simp_all

text \<open>
  With a geometry and a position that are integers, the length before the product with
  the percentage is computed without rounding.
\<close>

lemma hbar_length_integer:
  assumes "width (lcdsize cfg) = Finite (of_int W)" and "width (cellsize cfg) = Finite (of_int CW)"
    and "toNumber x = Finite (of_int X)"
    and "\<bar>W - X\<bar> \<le> 2 ^ 53" and "\<bar>W - X + 1\<bar> \<le> 2 ^ 53" and "\<bar>(W - X + 1) * CW\<bar> \<le> 2 ^ 53"
  shows "hbar_length cfg x percent =
    Math_round (num_mul (Finite (of_int ((W - X + 1) * CW))) (toNumber percent))"
proof -
  have "num_sub (Finite (of_int W)) (Finite (of_int X)) = fl (of_int (W - X))"
    by (simp add: num_sub_def)
  also have "\<dots> = Finite (of_int (W - X))"
    using assms(4) by (rule fl_of_int)
  finally have a: "num_sub (Finite (of_int W)) (Finite (of_int X)) = Finite (of_int (W - X))" .
  have "num_add (Finite (of_int (W - X))) (Finite 1) = fl (of_int (W - X + 1))"
    by simp
  also have "\<dots> = Finite (of_int (W - X + 1))"
    using assms(5) by (rule fl_of_int)
  finally have b: "num_add (Finite (of_int (W - X))) (Finite 1) = Finite (of_int (W - X + 1))" .
  have "num_mul (Finite (of_int (W - X + 1))) (Finite (of_int CW)) = fl (of_int ((W - X + 1) * CW))"
    by simp
  also have "\<dots> = Finite (of_int ((W - X + 1) * CW))"
    using assms(6) by (rule fl_of_int)
  finally have "num_mul (Finite (of_int (W - X + 1))) (Finite (of_int CW)) =
    Finite (of_int ((W - X + 1) * CW))" .
  with a b show ?thesis
    by (simp only: hbar_length_def assms(1,2,3))
qed

lemma vbar_length_integer:
  assumes "height (cellsize cfg) = Finite (of_int CH)" and "toNumber y = Finite (of_int Y)"
    and "\<bar>Y * CH\<bar> \<le> 2 ^ 53"
  shows "vbar_length cfg y percent =
    Math_round (num_mul (Finite (of_int (Y * CH))) (toNumber percent))"
proof -
  have "num_mul (Finite (of_int Y)) (Finite (of_int CH)) = fl (of_int (Y * CH))"
    by simp
  also have "\<dots> = Finite (of_int (Y * CH))"
    using assms(3) by (rule fl_of_int)
  finally show ?thesis
    by (simp only: vbar_length_def assms(1,2))
qed

lemma full_and_empty:
  assumes "\<bar>n\<bar> \<le> 2 ^ 53"
  shows "Math_round (num_mul (Finite (of_int n)) (Finite 1)) = Finite (of_int n)"
    and "Math_round (num_mul (Finite (of_int n)) (Finite 0)) = Finite 0"
  using fl_of_int [OF assms] by (simp_all add: Math_round_of_int)


lemma bar_length_examples:
  assumes "lcdsize cfg = \<lparr> width = Finite 20, height = Finite 4 \<rparr>"
    and "cellsize cfg = \<lparr> width = Finite 5, height = Finite 8 \<rparr>"
  shows "hbar_length cfg (JNum (Finite 1)) (JNum (Finite 1)) = Finite 100"
    and "hbar_length cfg (JNum (Finite 1)) (JNum (Finite 0)) = Finite 0"
    and "hbar_length cfg (JNum (Finite 1)) (number (15 / 1000)) = Finite 2"
    and "hbar_length cfg (JNum (Finite 1)) (number (145 / 1000)) = Finite 14"
    and "hbar_length cfg (JNum (Finite 1)) (JStr ''0.145'') = Finite 14"
    and "hbar_length cfg (JNum (Finite 6)) (number (29 / 100)) = Finite 22"
    and "hbar_length cfg (JNum (Finite 11)) (number (1 / 2)) = Finite 25"
    and "vbar_length cfg (JNum (Finite 4)) (JNum (Finite 1)) = Finite 32"
    and "vbar_length cfg (JNum (Finite 2)) (number (3 / 10)) = Finite 5"
    and "vbar_length cfg (JNum (Finite 1)) (number (1 / 16)) = Finite 1"
    and "vbar_length cfg (JNum (Finite 1)) (number (- 3 / 16)) = Finite (- 1)"
proof -
  have s: "string_toNumber ''0.145'' = fl (29 / 200)"
    by (simp add: number_eval string_eval)
  have d: "fl (1 / 16) = Finite (1 / 16)" "fl (3 / 16) = Finite (3 / 16)"
    using fl_eqI [where q = "1 / 16" and k = "- 4" and m = 4503599627370496, OF _ _ refl]
      fl_eqI [where q = "3 / 16" and k = "- 3" and m = 6755399441055744, OF _ _ refl]
    by (simp_all add: pow2_def)
  have n: "fl (- (3 / 16)) = Finite (- (3 / 16))" "fl (- (3 / 2)) = Finite (- (3 / 2))"
    using fl_neg [of "3 / 16"] fl_neg [of "3 / 2"] by (simp_all add: d fl_products)
  show "hbar_length cfg (JNum (Finite 1)) (JNum (Finite 1)) = Finite 100"
    and "hbar_length cfg (JNum (Finite 1)) (JNum (Finite 0)) = Finite 0"
    and "hbar_length cfg (JNum (Finite 1)) (number (15 / 1000)) = Finite 2"
    and "hbar_length cfg (JNum (Finite 1)) (number (145 / 1000)) = Finite 14"
    and "hbar_length cfg (JNum (Finite 1)) (JStr ''0.145'') = Finite 14"
    and "hbar_length cfg (JNum (Finite 6)) (number (29 / 100)) = Finite 22"
    and "hbar_length cfg (JNum (Finite 11)) (number (1 / 2)) = Finite 25"
    and "vbar_length cfg (JNum (Finite 4)) (JNum (Finite 1)) = Finite 32"
    and "vbar_length cfg (JNum (Finite 2)) (number (3 / 10)) = Finite 5"
    and "vbar_length cfg (JNum (Finite 1)) (number (1 / 16)) = Finite 1"
    and "vbar_length cfg (JNum (Finite 1)) (number (- 3 / 16)) = Finite (- 1)"
    by (simp_all add: hbar_length_def vbar_length_def assms num_sub_def number_def s d n
        fl_literals fl_products Math_round_fractions)
qed


text \<open>
  C3. For every \<open>x\<close>, \<open>y\<close>, \<open>percent\<close> and every state of the capabilities,
  \<^verbatim>\<open>HorizontalBarWidget.set(x, y, percent)\<close> records and sends the parameters
  \<open>[x, y, round((size.width - x + 1) * cellsize.width * percent)]\<close>, and
  \<^verbatim>\<open>VerticalBarWidget.set(x, y, percent)\<close> the parameters
  \<open>[x, y, round(y * cellsize.height * percent)]\<close>, where the arithmetic is that of the
  language: every operation rounds to binary64, from left to right, and \<open>round\<close> is
  \<^verbatim>\<open>Math.round\<close>, a tie going up.

  When the geometry and the position are integers (of a size that binary64 holds
  exactly), the only operation that rounds is the product with the percentage; the
  percentage 1 gives the full length \<open>(size.width - x + 1) * cellsize.width\<close>, resp.
  \<open>y * cellsize.height\<close>, and the percentage 0 the length 0.

  On a display of 20 by 4 cells of 5 by 8 pixels: the horizontal bar's \<^verbatim>\<open>set(1, 1, 1)\<close>
  gives the length 100 and \<^verbatim>\<open>set(1, 1, 0)\<close> the length 0; \<^verbatim>\<open>set(1, 1, 0.015)\<close> gives 2 (the
  binary64 product is 1.5) and \<^verbatim>\<open>set(1, 1, 0.145)\<close> gives 14 (the binary64 product is
  below 14.5), also for the string \<^verbatim>\<open>"0.145"\<close>; \<^verbatim>\<open>set(6, 1, 0.29)\<close> gives 22 and
  \<^verbatim>\<open>set(11, 2, 0.5)\<close> gives 25. The vertical bar's \<^verbatim>\<open>set(1, 4, 1)\<close> gives 32,
  \<^verbatim>\<open>set(3, 2, 0.3)\<close> gives 5, \<^verbatim>\<open>set(1, 1, 0.0625)\<close> gives 1 and \<^verbatim>\<open>set(1, 1, -0.1875)\<close>
  gives -1.
\<close>

theorem bar_set_params:
  "HorizontalBarWidget_set w x y percent c =
     Inr (sent_params w
       [x, y,
        JNum (Math_round
          (num_mul
            (num_mul
              (num_add (num_sub (width (lcdsize (lcdprocConfig c))) (toNumber x)) (Finite 1))
              (width (cellsize (lcdprocConfig c))))
            (toNumber percent)))] c) \<and>
   VerticalBarWidget_set w x y percent c =
     Inr (sent_params w
       [x, y,
        JNum (Math_round
          (num_mul (num_mul (toNumber y) (height (cellsize (lcdprocConfig c))))
            (toNumber percent)))] c) \<and>
   (\<forall>W CW X.
      width (lcdsize (lcdprocConfig c)) = Finite (of_int W) \<and>
      width (cellsize (lcdprocConfig c)) = Finite (of_int CW) \<and>
      toNumber x = Finite (of_int X) \<and>
      \<bar>W - X\<bar> \<le> 2 ^ 53 \<and> \<bar>W - X + 1\<bar> \<le> 2 ^ 53 \<and> \<bar>(W - X + 1) * CW\<bar> \<le> 2 ^ 53 \<longrightarrow>
      HorizontalBarWidget_set w x y percent c =
        Inr (sent_params w
          [x, y,
           JNum (Math_round
             (num_mul (Finite (of_int ((W - X + 1) * CW))) (toNumber percent)))] c) \<and>
      HorizontalBarWidget_set w x y (JNum (Finite 1)) c =
        Inr (sent_params w [x, y, JNum (Finite (of_int ((W - X + 1) * CW)))] c) \<and>
      HorizontalBarWidget_set w x y (JNum (Finite 0)) c =
        Inr (sent_params w [x, y, JNum (Finite 0)] c)) \<and>
   (\<forall>CH Y.
      height (cellsize (lcdprocConfig c)) = Finite (of_int CH) \<and>
      toNumber y = Finite (of_int Y) \<and> \<bar>Y * CH\<bar> \<le> 2 ^ 53 \<longrightarrow>
      VerticalBarWidget_set w x y percent c =
        Inr (sent_params w
          [x, y, JNum (Math_round (num_mul (Finite (of_int (Y * CH))) (toNumber percent)))] c) \<and>
      VerticalBarWidget_set w x y (JNum (Finite 1)) c =
        Inr (sent_params w [x, y, JNum (Finite (of_int (Y * CH)))] c) \<and>
      VerticalBarWidget_set w x y (JNum (Finite 0)) c =
        Inr (sent_params w [x, y, JNum (Finite 0)] c)) \<and>
   (lcdsize (lcdprocConfig c) = \<lparr> width = Finite 20, height = Finite 4 \<rparr> \<and>
    cellsize (lcdprocConfig c) = \<lparr> width = Finite 5, height = Finite 8 \<rparr> \<longrightarrow>
      HorizontalBarWidget_set w (JNum (Finite 1)) (JNum (Finite 1)) (JNum (Finite 1)) c =
        Inr (sent_params w [JNum (Finite 1), JNum (Finite 1), JNum (Finite 100)] c) \<and>
      HorizontalBarWidget_set w (JNum (Finite 1)) (JNum (Finite 1)) (JNum (Finite 0)) c =
        Inr (sent_params w [JNum (Finite 1), JNum (Finite 1), JNum (Finite 0)] c) \<and>
      HorizontalBarWidget_set w (JNum (Finite 1)) (JNum (Finite 1)) (number (15 / 1000)) c =
        Inr (sent_params w [JNum (Finite 1), JNum (Finite 1), JNum (Finite 2)] c) \<and>
      HorizontalBarWidget_set w (JNum (Finite 1)) (JNum (Finite 1)) (number (145 / 1000)) c =
        Inr (sent_params w [JNum (Finite 1), JNum (Finite 1), JNum (Finite 14)] c) \<and>
      HorizontalBarWidget_set w (JNum (Finite 1)) (JNum (Finite 1)) (JStr ''0.145'') c =
        Inr (sent_params w [JNum (Finite 1), JNum (Finite 1), JNum (Finite 14)] c) \<and>
      HorizontalBarWidget_set w (JNum (Finite 6)) (JNum (Finite 1)) (number (29 / 100)) c =
        Inr (sent_params w [JNum (Finite 6), JNum (Finite 1), JNum (Finite 22)] c) \<and>
      HorizontalBarWidget_set w (JNum (Finite 11)) (JNum (Finite 2)) (number (1 / 2)) c =
        Inr (sent_params w [JNum (Finite 11), JNum (Finite 2), JNum (Finite 25)] c) \<and>
      VerticalBarWidget_set w (JNum (Finite 1)) (JNum (Finite 4)) (JNum (Finite 1)) c =
        Inr (sent_params w [JNum (Finite 1), JNum (Finite 4), JNum (Finite 32)] c) \<and>
      VerticalBarWidget_set w (JNum (Finite 3)) (JNum (Finite 2)) (number (3 / 10)) c =
        Inr (sent_params w [JNum (Finite 3), JNum (Finite 2), JNum (Finite 5)] c) \<and>
      VerticalBarWidget_set w (JNum (Finite 1)) (JNum (Finite 1)) (number (1 / 16)) c =
        Inr (sent_params w [JNum (Finite 1), JNum (Finite 1), JNum (Finite 1)] c) \<and>
      VerticalBarWidget_set w (JNum (Finite 1)) (JNum (Finite 1)) (number (- 3 / 16)) c =
        Inr (sent_params w [JNum (Finite 1), JNum (Finite 1), JNum (Finite (- 1))] c))"
proof -
  have h: "HorizontalBarWidget_set w a b d c =
      Inr (sent_params w [a, b, JNum (hbar_length (lcdprocConfig c) a d)] c)" for a b d
    by (simp add: HorizontalBarWidget_set_def Widget_setParams_sent)
  have v: "VerticalBarWidget_set w a b d c =
      Inr (sent_params w [a, b, JNum (vbar_length (lcdprocConfig c) b d)] c)" for a b d
    by (simp add: VerticalBarWidget_set_def Widget_setParams_sent)
  have general: "hbar_length (lcdprocConfig c) x percent =
      Math_round
        (num_mul
          (num_mul
            (num_add (num_sub (width (lcdsize (lcdprocConfig c))) (toNumber x)) (Finite 1))
            (width (cellsize (lcdprocConfig c))))
          (toNumber percent))"
    "vbar_length (lcdprocConfig c) y percent =
      Math_round
        (num_mul (num_mul (toNumber y) (height (cellsize (lcdprocConfig c)))) (toNumber percent))"
    by (simp_all only: hbar_length_def vbar_length_def)
  have hint: "hbar_length (lcdprocConfig c) x d =
      Math_round (num_mul (Finite (of_int ((W - X + 1) * CW))) (toNumber d))"
    "hbar_length (lcdprocConfig c) x (JNum (Finite 1)) = Finite (of_int ((W - X + 1) * CW))"
    "hbar_length (lcdprocConfig c) x (JNum (Finite 0)) = Finite 0"
    if "width (lcdsize (lcdprocConfig c)) = Finite (of_int W)"
      and "width (cellsize (lcdprocConfig c)) = Finite (of_int CW)"
      and "toNumber x = Finite (of_int X)"
      and "\<bar>W - X\<bar> \<le> 2 ^ 53" and "\<bar>W - X + 1\<bar> \<le> 2 ^ 53" and "\<bar>(W - X + 1) * CW\<bar> \<le> 2 ^ 53"
    for W CW X d
    using hbar_length_integer [OF that] full_and_empty [OF that(6)]
    by simp_all
  have vint: "vbar_length (lcdprocConfig c) y d =
      Math_round (num_mul (Finite (of_int (Y * CH))) (toNumber d))"
    "vbar_length (lcdprocConfig c) y (JNum (Finite 1)) = Finite (of_int (Y * CH))"
    "vbar_length (lcdprocConfig c) y (JNum (Finite 0)) = Finite 0"
    if "height (cellsize (lcdprocConfig c)) = Finite (of_int CH)"
      and "toNumber y = Finite (of_int Y)" and "\<bar>Y * CH\<bar> \<le> 2 ^ 53"
    for CH Y d
    using vbar_length_integer [OF that] full_and_empty [OF that(3)]
    by simp_all
  show ?thesis
    unfolding h v general [symmetric]
    by (intro conjI allI impI; (elim conjE)?)
      (simp_all only: refl hint vint bar_length_examples toNumber.simps full_and_empty)
qed


text \<open>
  On the two bars of the example, with the lines that go to the socket.
\<close>

theorem bar_set_params_witness:
  "HorizontalBarWidget_set 0 (JNum (Finite 1)) (JNum (Finite 1)) (JNum (Finite 1)) demo_client =
     Inr (sent_params 0 [JNum (Finite 1), JNum (Finite 1), JNum (Finite 100)] demo_client) \<and>
   HorizontalBarWidget_set 0 (JNum (Finite 1)) (JNum (Finite 1)) (JNum (Finite 0)) demo_client =
     Inr (sent_params 0 [JNum (Finite 1), JNum (Finite 1), JNum (Finite 0)] demo_client) \<and>
   last (trace (sent_params 0 [JNum (Finite 1), JNum (Finite 1), JNum (Finite 100)] demo_client)) =
     SocketWrite ''widget_set lcdprocjs_s0 lcdprocjs_s0_w0 1 1 100\<newline>'' \<and>
   number (145 / 1000) = JNum (Finite (5224175567749775 / 36028797018963968)) \<and>
   HorizontalBarWidget_set 0 (JNum (Finite 1)) (JNum (Finite 1)) (number (145 / 1000)) demo_client =
     Inr (sent_params 0 [JNum (Finite 1), JNum (Finite 1), JNum (Finite 14)] demo_client) \<and>
   last (trace (sent_params 0 [JNum (Finite 1), JNum (Finite 1), JNum (Finite 14)] demo_client)) =
     SocketWrite ''widget_set lcdprocjs_s0 lcdprocjs_s0_w0 1 1 14\<newline>'' \<and>
   HorizontalBarWidget_set 0 (JNum (Finite 6)) (JNum (Finite 1)) (number (29 / 100)) demo_client =
     Inr (sent_params 0 [JNum (Finite 6), JNum (Finite 1), JNum (Finite 22)] demo_client) \<and>
   last (trace (sent_params 0 [JNum (Finite 6), JNum (Finite 1), JNum (Finite 22)] demo_client)) =
     SocketWrite ''widget_set lcdprocjs_s0 lcdprocjs_s0_w0 6 1 22\<newline>'' \<and>
   number (3 / 10) = JNum (Finite (5404319552844595 / 18014398509481984)) \<and>
   VerticalBarWidget_set 1 (JNum (Finite 3)) (JNum (Finite 2)) (number (3 / 10)) demo_client =
     Inr (sent_params 1 [JNum (Finite 3), JNum (Finite 2), JNum (Finite 5)] demo_client) \<and>
   last (trace (sent_params 1 [JNum (Finite 3), JNum (Finite 2), JNum (Finite 5)] demo_client)) =
     SocketWrite ''widget_set lcdprocjs_s0 lcdprocjs_s0_w1 3 2 5\<newline>'' \<and>
   VerticalBarWidget_set 1 (JNum (Finite 1)) (JNum (Finite 1)) (number (1 / 16)) demo_client =
     Inr (sent_params 1 [JNum (Finite 1), JNum (Finite 1), JNum (Finite 1)] demo_client) \<and>
   VerticalBarWidget_set 1 (JNum (Finite 1)) (JNum (Finite 4)) (JNum (Finite 1)) demo_client =
     Inr (sent_params 1 [JNum (Finite 1), JNum (Finite 4), JNum (Finite 32)] demo_client) \<and>
   HorizontalBarWidget_set 0 (JNum (Finite 6)) (JNum (Finite 1)) (JNum (Finite 1)) demo_client =
     Inr (sent_params 0 [JNum (Finite 6), JNum (Finite 1), JNum (Finite 75)] demo_client) \<and>
   VerticalBarWidget_set 1 (JNum (Finite 1)) (JNum (Finite 3)) (JNum (Finite 1)) demo_client =
     Inr (sent_params 1 [JNum (Finite 1), JNum (Finite 3), JNum (Finite 24)] demo_client)"
proof -
  note six = bar_set_params [of 0 "JNum (Finite 6)" "JNum (Finite 1)" "JNum (Finite 1)" demo_client]
  note three = bar_set_params [of 1 "JNum (Finite 1)" "JNum (Finite 3)" "JNum (Finite 1)" demo_client]
  have full:
    "HorizontalBarWidget_set 0 (JNum (Finite 6)) (JNum (Finite 1)) (JNum (Finite 1)) demo_client =
       Inr (sent_params 0 [JNum (Finite 6), JNum (Finite 1), JNum (Finite 75)] demo_client)"
    "VerticalBarWidget_set 1 (JNum (Finite 1)) (JNum (Finite 3)) (JNum (Finite 1)) demo_client =
       Inr (sent_params 1 [JNum (Finite 1), JNum (Finite 3), JNum (Finite 24)] demo_client)"
    using six [THEN conjunct2, THEN conjunct2, THEN conjunct1, rule_format, of 20 5 6]
      three [THEN conjunct2, THEN conjunct2, THEN conjunct2, THEN conjunct1, rule_format, of 8 3]
    by (simp_all add: demo_client_def)
  have caps: "lcdsize (lcdprocConfig demo_client) = \<lparr> width = Finite 20, height = Finite 4 \<rparr> \<and>
      cellsize (lcdprocConfig demo_client) = \<lparr> width = Finite 5, height = Finite 8 \<rparr>"
    by (simp add: demo_client_def)
  have wire:
    "last (trace (sent_params 0 [JNum (Finite 1), JNum (Finite 1), JNum (Finite 100)] demo_client)) =
       SocketWrite ''widget_set lcdprocjs_s0 lcdprocjs_s0_w0 1 1 100\<newline>''"
    "last (trace (sent_params 0 [JNum (Finite 1), JNum (Finite 1), JNum (Finite 14)] demo_client)) =
       SocketWrite ''widget_set lcdprocjs_s0 lcdprocjs_s0_w0 1 1 14\<newline>''"
    "last (trace (sent_params 0 [JNum (Finite 6), JNum (Finite 1), JNum (Finite 22)] demo_client)) =
       SocketWrite ''widget_set lcdprocjs_s0 lcdprocjs_s0_w0 6 1 22\<newline>''"
    "last (trace (sent_params 1 [JNum (Finite 3), JNum (Finite 2), JNum (Finite 5)] demo_client)) =
       SocketWrite ''widget_set lcdprocjs_s0 lcdprocjs_s0_w1 3 2 5\<newline>''"
    by (simp_all add: sent_params_def demo_client_def pos_toString_small line_feed_def)
  have lit: "number (145 / 1000) = JNum (Finite (5224175567749775 / 36028797018963968))"
    "number (3 / 10) = JNum (Finite (5404319552844595 / 18014398509481984))"
    by (simp_all add: number_def fl_literals)
  from bar_set_params [of 0 "JNum (Finite 1)" "JNum (Finite 1)" "JNum (Finite 1)" demo_client] caps
  have "HorizontalBarWidget_set 0 (JNum (Finite 1)) (JNum (Finite 1)) (JNum (Finite 1)) demo_client =
      Inr (sent_params 0 [JNum (Finite 1), JNum (Finite 1), JNum (Finite 100)] demo_client)"
    and "HorizontalBarWidget_set 0 (JNum (Finite 1)) (JNum (Finite 1)) (JNum (Finite 0)) demo_client =
      Inr (sent_params 0 [JNum (Finite 1), JNum (Finite 1), JNum (Finite 0)] demo_client)"
    and "HorizontalBarWidget_set 0 (JNum (Finite 1)) (JNum (Finite 1)) (number (145 / 1000))
        demo_client =
      Inr (sent_params 0 [JNum (Finite 1), JNum (Finite 1), JNum (Finite 14)] demo_client)"
    and "HorizontalBarWidget_set 0 (JNum (Finite 6)) (JNum (Finite 1)) (number (29 / 100))
        demo_client =
      Inr (sent_params 0 [JNum (Finite 6), JNum (Finite 1), JNum (Finite 22)] demo_client)"
    by blast+
  moreover
  from bar_set_params [of 1 "JNum (Finite 1)" "JNum (Finite 1)" "JNum (Finite 1)" demo_client] caps
  have "VerticalBarWidget_set 1 (JNum (Finite 3)) (JNum (Finite 2)) (number (3 / 10)) demo_client =
      Inr (sent_params 1 [JNum (Finite 3), JNum (Finite 2), JNum (Finite 5)] demo_client)"
    and "VerticalBarWidget_set 1 (JNum (Finite 1)) (JNum (Finite 1)) (number (1 / 16)) demo_client =
      Inr (sent_params 1 [JNum (Finite 1), JNum (Finite 1), JNum (Finite 1)] demo_client)"
    and "VerticalBarWidget_set 1 (JNum (Finite 1)) (JNum (Finite 4)) (JNum (Finite 1)) demo_client =
      Inr (sent_params 1 [JNum (Finite 1), JNum (Finite 4), JNum (Finite 32)] demo_client)"
    by blast+
  ultimately show ?thesis
    using wire lit full by (intro conjI) assumption+
qed

subsection \<open>Partial updates\<close>

text \<open>
  C5. A string widget that has no parameters yet sends \<open>[x, y, 0]\<close> on \<^verbatim>\<open>setPos(x, y)\<close>
  and \<open>[1, 1, {text}]\<close> on \<^verbatim>\<open>setText(text)\<close>. After \<^verbatim>\<open>set(xa, ya, ta)\<close>,
  \<^verbatim>\<open>setPos(x, y)\<close> sends the new position with the text of that \<^verbatim>\<open>set\<close>, and
  \<^verbatim>\<open>setText(text)\<close> sends the new text at the position of that \<^verbatim>\<open>set\<close>.
\<close>

theorem string_widget_partial:
  "(params (widget_store c ! w) = None \<longrightarrow>
      StringWidget_setPos w x y c = Inr (sent_params w [x, y, JNum (Finite 0)] c) \<and>
      StringWidget_setText w tx c =
        Inr (sent_params w
               [JNum (Finite 1), JNum (Finite 1), JStr (''{'' @ toString tx @ ''}'')] c)) \<and>
   StringWidget_set w xa ya ta c =
     Inr (sent_params w [xa, ya, JStr (''{'' @ toString ta @ ''}'')] c) \<and>
   (w < length (widget_store c) \<longrightarrow>
      StringWidget_setPos w x y
          (sent_params w [xa, ya, JStr (''{'' @ toString ta @ ''}'')] c) =
        Inr (sent_params w [x, y, JStr (''{'' @ toString ta @ ''}'')]
               (sent_params w [xa, ya, JStr (''{'' @ toString ta @ ''}'')] c)) \<and>
      StringWidget_setText w tx
          (sent_params w [xa, ya, JStr (''{'' @ toString ta @ ''}'')] c) =
        Inr (sent_params w [xa, ya, JStr (''{'' @ toString tx @ ''}'')]
               (sent_params w [xa, ya, JStr (''{'' @ toString ta @ ''}'')] c)))"
  by (simp add: StringWidget_setPos_def StringWidget_setText_def StringWidget_set_def
      Widget_setParams_sent sent_params_params quoteString_def elem_def)

text \<open>
  On the string widget of the example: \<^verbatim>\<open>setPos(3, 4)\<close> sends \<open>[3, 4, 0]\<close> and
  \<^verbatim>\<open>setText("hi")\<close> sends \<open>[1, 1, {hi}]\<close>.
\<close>

theorem string_widget_partial_witness:
  "StringWidget_setPos 2 (JNum (Finite 3)) (JNum (Finite 4)) demo_client =
     Inr (sent_params 2 [JNum (Finite 3), JNum (Finite 4), JNum (Finite 0)] demo_client) \<and>
   StringWidget_setText 2 (JStr ''hi'') demo_client =
     Inr (sent_params 2 [JNum (Finite 1), JNum (Finite 1), JStr ''{hi}''] demo_client) \<and>
   StringWidget_setPos 2 (JNum (Finite 3)) (JNum (Finite 4))
       (sent_params 2 [JNum (Finite 1), JNum (Finite 1), JStr ''{hi}''] demo_client) =
     Inr (sent_params 2 [JNum (Finite 3), JNum (Finite 4), JStr ''{hi}'']
            (sent_params 2 [JNum (Finite 1), JNum (Finite 1), JStr ''{hi}''] demo_client)) \<and>
   last (trace (sent_params 2 [JNum (Finite 3), JNum (Finite 4), JNum (Finite 0)] demo_client)) =
     SocketWrite ''widget_set lcdprocjs_s0 lcdprocjs_s0_w2 3 4 0\<newline>'' \<and>
   last (trace (sent_params 2 [JNum (Finite 1), JNum (Finite 1), JStr ''{hi}''] demo_client)) =
     SocketWrite ''widget_set lcdprocjs_s0 lcdprocjs_s0_w2 1 1 {hi}\<newline>''"
proof -
  have fresh: "params (widget_store demo_client ! 2) = None"
    by (simp add: demo_client_def)
  have held: "2 < length (widget_store demo_client)"
    by (simp add: demo_client_def)
  have wire: "last (trace
        (sent_params 2 [JNum (Finite 3), JNum (Finite 4), JNum (Finite 0)] demo_client)) =
      SocketWrite ''widget_set lcdprocjs_s0 lcdprocjs_s0_w2 3 4 0\<newline>''"
    "last (trace (sent_params 2 [JNum (Finite 1), JNum (Finite 1), JStr ''{hi}''] demo_client)) =
      SocketWrite ''widget_set lcdprocjs_s0 lcdprocjs_s0_w2 1 1 {hi}\<newline>''"
    by (simp_all add: sent_params_def demo_client_def pos_toString_small line_feed_def)
  show ?thesis
    using string_widget_partial [of demo_client 2 "JNum (Finite 3)" "JNum (Finite 4)"
        "JStr ''hi''" "JNum (Finite 1)" "JNum (Finite 1)" "JStr ''hi''"]
      fresh held wire
    by simp
qed

text \<open>
  C4, as stated, fails for \<^verbatim>\<open>setPos\<close> on a bar: the bar widgets take their \<^verbatim>\<open>setPos\<close>
  from the string widget, which sends the cached third parameter as it is. After
  \<^verbatim>\<open>set(1, 1, 1)\<close> on a display 20 cells wide the length is 100; \<^verbatim>\<open>setPos(11, 1)\<close>
  then sends \<open>[11, 1, 100]\<close>, where \<^verbatim>\<open>set(11, 1, 1)\<close> sends \<open>[11, 1, 50]\<close>.
\<close>

theorem bar_setPos_counterexample:
  "run [SocketData connect_line, AddScreen None, AddHorizontalBar 0,
        SetXY 0 (JNum (Finite 1)) (JNum (Finite 1)) (JNum (Finite 1)),
        SetPos 0 (JNum (Finite 11)) (JNum (Finite 1))] (Client no_options) =
     Inr ([Done, ScreenRef 0, WidgetRef 0, Done, Done],
       \<lparr> config = \<lparr> host = ''localhost'', port = 13666, name = ''lcdprocjs'' \<rparr>,
         lcdprocConfig =
           \<lparr> version = JStr ''0.5.7'', protocol = JStr ''0.3'',
             lcdsize = \<lparr> width = Finite 20, height = Finite 4 \<rparr>,
             cellsize = \<lparr> width = Finite 5, height = Finite 8 \<rparr> \<rparr>,
         screens = [(''lcdprocjs_s0'', 0)],
         screenCnt = 1,
         screen_store =
           [\<lparr> screenId = ''lcdprocjs_s0'', screen_config = [],
              widgets = [(''lcdprocjs_s0_w0'', 0)], widgetCnt = 1 \<rparr>],
         widget_store =
           [\<lparr> screen = 0, widgetId = ''lcdprocjs_s0_w0'', widgetType = JStr ''hbar'',
              params = Some [JNum (Finite 11), JNum (Finite 1), JNum (Finite 100)],
              proto = HorizontalBarWidget \<rparr>],
         trace =
           [SocketWrite ''client_set -name {lcdprocjs}\<newline>'',
            ClientEmit ''ready'',
            SocketWrite ''screen_add lcdprocjs_s0\<newline>'',
            SocketWrite ''widget_add lcdprocjs_s0 lcdprocjs_s0_w0 hbar\<newline>'',
            SocketWrite ''widget_set lcdprocjs_s0 lcdprocjs_s0_w0 1 1 100\<newline>'',
            SocketWrite ''widget_set lcdprocjs_s0 lcdprocjs_s0_w0 11 1 100\<newline>''] \<rparr>) \<and>
   run [SocketData connect_line, AddScreen None, AddHorizontalBar 0,
        SetXY 0 (JNum (Finite 11)) (JNum (Finite 1)) (JNum (Finite 1))] (Client no_options) =
     Inr ([Done, ScreenRef 0, WidgetRef 0, Done],
       \<lparr> config = \<lparr> host = ''localhost'', port = 13666, name = ''lcdprocjs'' \<rparr>,
         lcdprocConfig =
           \<lparr> version = JStr ''0.5.7'', protocol = JStr ''0.3'',
             lcdsize = \<lparr> width = Finite 20, height = Finite 4 \<rparr>,
             cellsize = \<lparr> width = Finite 5, height = Finite 8 \<rparr> \<rparr>,
         screens = [(''lcdprocjs_s0'', 0)],
         screenCnt = 1,
         screen_store =
           [\<lparr> screenId = ''lcdprocjs_s0'', screen_config = [],
              widgets = [(''lcdprocjs_s0_w0'', 0)], widgetCnt = 1 \<rparr>],
         widget_store =
           [\<lparr> screen = 0, widgetId = ''lcdprocjs_s0_w0'', widgetType = JStr ''hbar'',
              params = Some [JNum (Finite 11), JNum (Finite 1), JNum (Finite 50)],
              proto = HorizontalBarWidget \<rparr>],
         trace =
           [SocketWrite ''client_set -name {lcdprocjs}\<newline>'',
            ClientEmit ''ready'',
            SocketWrite ''screen_add lcdprocjs_s0\<newline>'',
            SocketWrite ''widget_add lcdprocjs_s0 lcdprocjs_s0_w0 hbar\<newline>'',
            SocketWrite ''widget_set lcdprocjs_s0 lcdprocjs_s0_w0 11 1 50\<newline>''] \<rparr>)"
  by (simp add: on_data_connect_line on_connect_line_connect_line client_eval dec_small
      pos_toString_small)

text \<open>
  C4, amended. On a widget with cached parameters \<open>ps\<close>, \<^verbatim>\<open>setText\<close>, \<^verbatim>\<open>setValue\<close>
  and \<^verbatim>\<open>setIcon\<close> are the widget's full \<^verbatim>\<open>set\<close> at the cached position
  \<open>(ps[0], ps[1])\<close> with the new argument: for a bar widget \<^verbatim>\<open>setValue\<close> yields the
  length that the full-set formula gives for the cached position and the new value.
  \<^verbatim>\<open>setPos(x, y)\<close> sends the new position and the cached third parameter \<open>ps[2]\<close>
  unchanged: for a bar widget the length stays the one of the last full \<^verbatim>\<open>set\<close> and is
  not recomputed for the new position.
\<close>

theorem partial_updates:
  "(params (widget_store c ! w) = Some ps \<longrightarrow>
      StringWidget_setPos w x y c = Inr (sent_params w [x, y, elem ps 2] c) \<and>
      HorizontalBarWidget_setPos w x y c = Inr (sent_params w [x, y, elem ps 2] c) \<and>
      VerticalBarWidget_setPos w x y c = Inr (sent_params w [x, y, elem ps 2] c) \<and>
      StringWidget_setText w tx c = StringWidget_set w (elem ps 0) (elem ps 1) tx c \<and>
      IconWidget_setIcon w iconname c = IconWidget_set w (elem ps 0) (elem ps 1) iconname c \<and>
      (proto (widget_store c ! w) = HorizontalBarWidget \<longrightarrow>
         HorizontalBarWidget_setValue w percent c =
           HorizontalBarWidget_set w (elem ps 0) (elem ps 1) percent c) \<and>
      (proto (widget_store c ! w) = VerticalBarWidget \<longrightarrow>
         VerticalBarWidget_setValue w percent c =
           VerticalBarWidget_set w (elem ps 0) (elem ps 1) percent c)) \<and>
   (w < length (widget_store c) \<and> proto (widget_store c ! w) = HorizontalBarWidget \<longrightarrow>
      HorizontalBarWidget_set w xa ya pa c =
        Inr (sent_params w [xa, ya, JNum (hbar_length (lcdprocConfig c) xa pa)] c) \<and>
      HorizontalBarWidget_setValue w percent
          (sent_params w [xa, ya, JNum (hbar_length (lcdprocConfig c) xa pa)] c) =
        Inr (sent_params w [xa, ya, JNum (hbar_length (lcdprocConfig c) xa percent)]
               (sent_params w [xa, ya, JNum (hbar_length (lcdprocConfig c) xa pa)] c)) \<and>
      HorizontalBarWidget_setPos w x y
          (sent_params w [xa, ya, JNum (hbar_length (lcdprocConfig c) xa pa)] c) =
        Inr (sent_params w [x, y, JNum (hbar_length (lcdprocConfig c) xa pa)]
               (sent_params w [xa, ya, JNum (hbar_length (lcdprocConfig c) xa pa)] c))) \<and>
   (w < length (widget_store c) \<and> proto (widget_store c ! w) = VerticalBarWidget \<longrightarrow>
      VerticalBarWidget_set w xa ya pa c =
        Inr (sent_params w [xa, ya, JNum (vbar_length (lcdprocConfig c) ya pa)] c) \<and>
      VerticalBarWidget_setValue w percent
          (sent_params w [xa, ya, JNum (vbar_length (lcdprocConfig c) ya pa)] c) =
        Inr (sent_params w [xa, ya, JNum (vbar_length (lcdprocConfig c) ya percent)]
               (sent_params w [xa, ya, JNum (vbar_length (lcdprocConfig c) ya pa)] c)) \<and>
      VerticalBarWidget_setPos w x y
          (sent_params w [xa, ya, JNum (vbar_length (lcdprocConfig c) ya pa)] c) =
        Inr (sent_params w [x, y, JNum (vbar_length (lcdprocConfig c) ya pa)]
               (sent_params w [xa, ya, JNum (vbar_length (lcdprocConfig c) ya pa)] c)))"
  by (simp add: StringWidget_setPos_def StringWidget_setText_def StringWidget_set_def
      HorizontalBarWidget_setPos_def VerticalBarWidget_setPos_def IconWidget_setIcon_def
      HorizontalBarWidget_setValue_def VerticalBarWidget_setValue_def this_set_def
      HorizontalBarWidget_set_def VerticalBarWidget_set_def
      Widget_setParams_sent sent_params_params sent_params_proto elem_def)

text \<open>On the two bars of the example.\<close>

theorem partial_updates_witness:
  "HorizontalBarWidget_setPos 0 (JNum (Finite 11)) (JNum (Finite 1))
      (sent_params 0 [JNum (Finite 1), JNum (Finite 1), JNum (Finite 100)] demo_client) =
     Inr (sent_params 0 [JNum (Finite 11), JNum (Finite 1), JNum (Finite 100)]
            (sent_params 0 [JNum (Finite 1), JNum (Finite 1), JNum (Finite 100)] demo_client)) \<and>
   HorizontalBarWidget_setValue 0 (JNum (Finite (1 / 2)))
      (sent_params 0 [JNum (Finite 1), JNum (Finite 1), JNum (Finite 100)] demo_client) =
     HorizontalBarWidget_set 0 (JNum (Finite 1)) (JNum (Finite 1)) (JNum (Finite (1 / 2)))
      (sent_params 0 [JNum (Finite 1), JNum (Finite 1), JNum (Finite 100)] demo_client) \<and>
   VerticalBarWidget_setValue 1 (JNum (Finite (1 / 2)))
      (sent_params 1 [JNum (Finite 1), JNum (Finite 2), JNum (Finite 16)] demo_client) =
     VerticalBarWidget_set 1 (JNum (Finite 1)) (JNum (Finite 2)) (JNum (Finite (1 / 2)))
      (sent_params 1 [JNum (Finite 1), JNum (Finite 2), JNum (Finite 16)] demo_client) \<and>
   HorizontalBarWidget_set 0 (JNum (Finite 1)) (JNum (Finite 1)) (JNum (Finite 1)) demo_client =
     Inr (sent_params 0 [JNum (Finite 1), JNum (Finite 1), JNum (Finite 100)] demo_client) \<and>
   VerticalBarWidget_set 1 (JNum (Finite 1)) (JNum (Finite 2)) (JNum (Finite 1)) demo_client =
     Inr (sent_params 1 [JNum (Finite 1), JNum (Finite 2), JNum (Finite 16)] demo_client)"
proof -
  let ?one = "JNum (Finite 1)"
  let ?h = "sent_params 0 [?one, ?one, JNum (Finite 100)] demo_client"
  let ?v = "sent_params 1 [?one, JNum (Finite 2), JNum (Finite 16)] demo_client"
  have held: "0 < length (widget_store demo_client)" "1 < length (widget_store demo_client)"
    by (simp_all add: demo_client_def)
  have kinds: "proto (widget_store demo_client ! 0) = HorizontalBarWidget"
    "proto (widget_store demo_client ! 1) = VerticalBarWidget"
    by (simp_all add: demo_client_def)
  have lengths: "hbar_length (lcdprocConfig demo_client) ?one ?one = Finite 100"
    "vbar_length (lcdprocConfig demo_client) (JNum (Finite 2)) ?one = Finite 16"
    by (simp_all add: demo_client_def hbar_length_def vbar_length_def num_sub_def)
  have cached: "params (widget_store ?h ! 0) = Some [?one, ?one, JNum (Finite 100)]"
    "params (widget_store ?v ! 1) = Some [?one, JNum (Finite 2), JNum (Finite 16)]"
    using held by (simp_all add: sent_params_params)
  have kinds': "proto (widget_store ?h ! 0) = HorizontalBarWidget"
    "proto (widget_store ?v ! 1) = VerticalBarWidget"
    using kinds by (simp_all add: sent_params_proto)
  note a = partial_updates [where c = ?h and w = 0 and ps = "[?one, ?one, JNum (Finite 100)]"
      and x = "JNum (Finite 11)" and y = ?one and percent = "JNum (Finite (1 / 2))"
      and tx = JUndefined and iconname = JUndefined
      and xa = ?one and ya = ?one and pa = ?one]
  note b = partial_updates [where c = ?v and w = 1
      and ps = "[?one, JNum (Finite 2), JNum (Finite 16)]"
      and x = "JNum (Finite 11)" and y = ?one and percent = "JNum (Finite (1 / 2))"
      and tx = JUndefined and iconname = JUndefined
      and xa = ?one and ya = ?one and pa = ?one]
  note d = partial_updates [where c = demo_client and w = 0 and ps = "[]"
      and x = "JNum (Finite 11)" and y = ?one and percent = "JNum (Finite (1 / 2))"
      and tx = JUndefined and iconname = JUndefined
      and xa = ?one and ya = ?one and pa = ?one]
  note e = partial_updates [where c = demo_client and w = 1 and ps = "[]"
      and x = "JNum (Finite 11)" and y = ?one and percent = "JNum (Finite (1 / 2))"
      and tx = JUndefined and iconname = JUndefined
      and xa = ?one and ya = "JNum (Finite 2)" and pa = ?one]
  from a cached(1) kinds'(1) have
    "HorizontalBarWidget_setPos 0 (JNum (Finite 11)) ?one ?h =
       Inr (sent_params 0 [JNum (Finite 11), ?one, JNum (Finite 100)] ?h)"
    "HorizontalBarWidget_setValue 0 (JNum (Finite (1 / 2))) ?h =
       HorizontalBarWidget_set 0 ?one ?one (JNum (Finite (1 / 2))) ?h"
    by (simp_all add: elem_def)
  moreover from b cached(2) kinds'(2) have
    "VerticalBarWidget_setValue 1 (JNum (Finite (1 / 2))) ?v =
       VerticalBarWidget_set 1 ?one (JNum (Finite 2)) (JNum (Finite (1 / 2))) ?v"
    by (simp add: elem_def)
  moreover from d held(1) kinds(1) lengths(1) have
    "HorizontalBarWidget_set 0 ?one ?one ?one demo_client = Inr ?h"
    by simp
  moreover from e held(2) kinds(2) lengths(2) have
    "VerticalBarWidget_set 1 ?one (JNum (Finite 2)) ?one demo_client = Inr ?v"
    by simp
  ultimately show ?thesis
    by simp
qed

section \<open>The serializer, and the order of an object's keys\<close>

lemma own_entries_no_index:
  "\<forall>p \<in> set obj. \<not> is_array_index (fst p) \<Longrightarrow> own_entries obj = obj"
  by (simp add: own_entries_def filter_id_conv)

lemma set_own_entries: "set (own_entries obj) = set obj"
  by (auto simp: own_entries_def)

lemma length_own_entries: "length (own_entries obj) = length obj"
  using sum_length_filter_compl [of "\<lambda>p. is_array_index (fst p)" obj]
  by (simp add: own_entries_def)

lemma filter_sort_key: "filter P (sort_key f xs) = sort_key f (filter P xs)"
  by (induction xs) (simp_all add: filter_insort_triv filter_insort)

lemma own_entries_index_part:
  "filter (\<lambda>p. is_array_index (fst p)) (own_entries obj) =
     sort_key (\<lambda>p. the (array_index (fst p))) (filter (\<lambda>p. is_array_index (fst p)) obj)"
  by (simp add: own_entries_def filter_sort_key)

lemma own_entries_other_part:
  "filter (\<lambda>p. \<not> is_array_index (fst p)) (own_entries obj) =
     filter (\<lambda>p. \<not> is_array_index (fst p)) obj"
  by (simp add: own_entries_def filter_sort_key)

lemma own_entries_split:
  "own_entries obj =
     filter (\<lambda>p. is_array_index (fst p)) (own_entries obj) @
     filter (\<lambda>p. \<not> is_array_index (fst p)) obj"
  by (simp add: own_entries_index_part) (simp add: own_entries_def)

lemma own_entries_sorted:
  "sorted (map (\<lambda>p. the (array_index (fst p)))
     (filter (\<lambda>p. is_array_index (fst p)) (own_entries obj)))"
  by (simp add: own_entries_index_part)

lemma array_index_letters: "\<not> is_array_index ''a''" "\<not> is_array_index ''b''"
  by (simp_all add: is_array_index_def array_index_def is_digit_def)

lemma array_index_1: "array_index ''1'' = Some 1" "is_array_index ''1''"
  by (simp_all add: is_array_index_def array_index_def is_digit_def undec_def digit_val_def
      dec_small)

text \<open>
  C9, as stated, fails for the order: a key that is an array index is enumerated before
  the keys created earlier. \<^verbatim>\<open>flattenObj({b: 1, "1": 2})\<close> is \<open>[-1, 2, -b, 1]\<close>.
\<close>

theorem flatten_counterexample:
  "flattenObj [(''b'', JNum (Finite 1)), (''1'', JNum (Finite 2))] False =
     [JStr ''-1'', JNum (Finite 2), JStr ''-b'', JNum (Finite 1)] \<and>
   flattenObj [(''b'', JNum (Finite 1)), (''1'', JNum (Finite 2))] False \<noteq>
     [JStr ''-b'', JNum (Finite 1), JStr ''-1'', JNum (Finite 2)]"
  by (simp add: flattenObj_def own_entries_def array_index_letters array_index_1)

text \<open>
  C9, amended. \<^verbatim>\<open>flattenObj({a: 1, b: 2})\<close> is \<open>[-a, 1, -b, 2]\<close> and
  \<^verbatim>\<open>quoteString("hi there")\<close> is \<open>{hi there}\<close>. For every object, \<^verbatim>\<open>flattenObj\<close>
  yields \<open>prefix + key, value\<close> for each own key in the order in which the object
  enumerates its keys, with the prefix \<open>-\<close> unless \<open>donotdashkeys\<close> is set: the keys that
  are array indices first, in ascending numeric order, then the other keys in insertion
  order; this is the insertion order whenever no key is an array index. For every string
  \<open>s\<close>, \<^verbatim>\<open>quoteString(s)\<close> is \<open>{\<close>, \<open>s\<close>, \<open>}\<close> concatenated, no character of \<open>s\<close>
  escaped or checked. Both are functions of their arguments alone.
\<close>

theorem flatten_and_quote:
  "flattenObj [(''a'', JNum (Finite 1)), (''b'', JNum (Finite 2))] False =
     [JStr ''-a'', JNum (Finite 1), JStr ''-b'', JNum (Finite 2)] \<and>
   quoteString (JStr ''hi there'') = ''{hi there}'' \<and>
   flattenObj obj donotdashkeys =
     concat (map (\<lambda>p. [JStr ((if donotdashkeys then [] else ''-'') @ fst p), snd p])
       (own_entries obj)) \<and>
   own_entries obj =
     filter (\<lambda>p. is_array_index (fst p)) (own_entries obj) @
     filter (\<lambda>p. \<not> is_array_index (fst p)) obj \<and>
   sorted (map (\<lambda>p. the (array_index (fst p)))
     (filter (\<lambda>p. is_array_index (fst p)) (own_entries obj))) \<and>
   set (own_entries obj) = set obj \<and>
   length (own_entries obj) = length obj \<and>
   ((\<forall>p \<in> set obj. \<not> is_array_index (fst p)) \<longrightarrow>
      flattenObj obj donotdashkeys =
        concat (map (\<lambda>p. [JStr ((if donotdashkeys then [] else ''-'') @ fst p), snd p]) obj)) \<and>
   quoteString (JStr s) = ''{'' @ s @ ''}''"
proof -
  have "flattenObj [(''a'', JNum (Finite 1)), (''b'', JNum (Finite 2))] False =
     [JStr ''-a'', JNum (Finite 1), JStr ''-b'', JNum (Finite 2)]"
    by (simp add: flattenObj_def own_entries_def array_index_letters)
  moreover have "own_entries obj =
     filter (\<lambda>p. is_array_index (fst p)) (own_entries obj) @
     filter (\<lambda>p. \<not> is_array_index (fst p)) obj"
    by (rule own_entries_split)
  moreover have "(\<forall>p \<in> set obj. \<not> is_array_index (fst p)) \<longrightarrow>
      flattenObj obj donotdashkeys =
        concat (map (\<lambda>p. [JStr ((if donotdashkeys then [] else ''-'') @ fst p), snd p]) obj)"
    by (simp add: flattenObj_def own_entries_no_index)
  ultimately show ?thesis
    using own_entries_sorted [of obj]
    by (simp add: quoteString_def set_own_entries length_own_entries) (simp add: flattenObj_def)
qed

text \<open>With \<open>donotdashkeys\<close> set, and a string with braces in it.\<close>

theorem flatten_and_quote_witness:
  "\<not> is_array_index ''a'' \<and> \<not> is_array_index ''b'' \<and>
   flattenObj [(''a'', JNum (Finite 1)), (''b'', JNum (Finite 2))] True =
     [JStr ''a'', JNum (Finite 1), JStr ''b'', JNum (Finite 2)] \<and>
   quoteString (JStr ''a{b}c'') = ''{a{b}c}''"
proof -
  from flatten_and_quote
    [of "[(''a'', JNum (Finite 1)), (''b'', JNum (Finite 2))]" True "''a{b}c''"]
  have "(\<forall>p \<in> set [(''a'', JNum (Finite 1)), (''b'', JNum (Finite 2))].
           \<not> is_array_index (fst p)) \<longrightarrow>
        flattenObj [(''a'', JNum (Finite 1)), (''b'', JNum (Finite 2))] True =
          concat (map (\<lambda>p. [JStr ((if True then [] else ''-'') @ fst p), snd p])
            [(''a'', JNum (Finite 1)), (''b'', JNum (Finite 2))])"
    and "quoteString (JStr ''a{b}c'') = ''{'' @ ''a{b}c'' @ ''}''"
    by blast+
  then show ?thesis
    by (simp add: array_index_letters)
qed

section \<open>The objects of a client\<close>

subsection \<open>Calls that create and unregister nothing\<close>

lemma map_update_same: "f y = f (xs ! i) \<Longrightarrow> map f (xs[i := y]) = map f xs"
  by (induction xs arbitrary: i) (auto simp: nth_Cons split: nat.splits)

lemma skeleton_effect [simp]: "skeleton (effect e c) = skeleton c"
  by (simp add: skeleton_def effect_def)

lemma skeleton_write [simp]: "skeleton (Client_write args c) = skeleton c"
  by (simp add: Client_write_def Let_def)

lemma skeleton_caps [simp]: "skeleton (c\<lparr>lcdprocConfig := cfg\<rparr>) = skeleton c"
  by (simp add: skeleton_def)

lemma skeleton_params [simp]:
  "skeleton (c\<lparr>widget_store := (widget_store c)[w := (widget_store c ! w)\<lparr>params := ps\<rparr>]\<rparr>) =
     skeleton c"
  by (simp add: skeleton_def map_update_same widget_key_def)

lemma skeleton_screen_config [simp]:
  "skeleton (c\<lparr>screen_store := (screen_store c)[r := (screen_store c ! r)\<lparr>screen_config := cfg\<rparr>]\<rparr>) =
     skeleton c"
  by (simp add: skeleton_def map_update_same screen_key_def)

lemma skeleton_setParams: "Widget_setParams w args c = Inr c1 \<Longrightarrow> skeleton c1 = skeleton c"
  by (auto simp: Widget_setParams_def Let_def split: sum.splits)

lemma skeleton_screen_emit: "screen_emit sid event c = Inr c1 \<Longrightarrow> skeleton c1 = skeleton c"
  by (auto simp: screen_emit_def split: property.splits)

lemma skeleton_on_message: "on_message msg c = Inr c1 \<Longrightarrow> skeleton c1 = skeleton c"
  by (auto simp: on_message_def Let_def skeleton_screen_emit split: if_splits)

lemma skeleton_on_messages: "on_messages msgs c = Inr c1 \<Longrightarrow> skeleton c1 = skeleton c"
  by (induction msgs arbitrary: c) (auto split: sum.splits dest: skeleton_on_message)

lemma skeleton_on_data: "on_data buf c = Inr c1 \<Longrightarrow> skeleton c1 = skeleton c"
  by (auto simp: on_data_def Let_def on_connect_line_def skeleton_on_messages split: if_splits)

lemma skeleton_setConfig [simp]: "skeleton (Screen_setConfig r cfg c) = skeleton c"
  by (simp add: Screen_setConfig_def Let_def split: option.splits)

lemmas widget_ops = TitleWidget_setTitle_def StringWidget_set_def StringWidget_setPos_def
  StringWidget_setText_def HorizontalBarWidget_set_def VerticalBarWidget_set_def
  HorizontalBarWidget_setPos_def VerticalBarWidget_setPos_def this_set_def
  HorizontalBarWidget_setValue_def VerticalBarWidget_setValue_def IconWidget_set_def
  IconWidget_setIcon_def BigNumberWidget_set_def widget_set_def widget_setPos_def
  widget_setValue_def

lemma exec_skeleton:
  "exec k c = Inr (v, c1) \<Longrightarrow> \<not> structural k \<Longrightarrow> skeleton c1 = skeleton c"
  by (cases k)
    (auto simp: returning_def finished_def on_screen_def on_widget_def widget_ops
      Client_connect_def Client_close_def on_connect_def on_error_def
      split: sum.splits if_splits option.splits widget_proto.splits
      dest: skeleton_setParams skeleton_on_data)


lemma map_eq_nth: "map f xs = map f ys \<Longrightarrow> i < length ys \<Longrightarrow> f (xs ! i) = f (ys ! i)"
  by (metis length_map nth_map)

lemma numbered_keys:
  "numbered r c =
     map (\<lambda>k. fst (snd k))
       (filter (\<lambda>k. fst k = r \<and> snd (snd k) \<noteq> TitleWidget) (map widget_key (widget_store c)))"
  by (simp add: numbered_def filter_map comp_def widget_key_def)

lemma skeletonD:
  assumes "skeleton c1 = skeleton c"
  shows "config c1 = config c" and "screens c1 = screens c" and "screenCnt c1 = screenCnt c"
    and "length (screen_store c1) = length (screen_store c)"
    and "length (widget_store c1) = length (widget_store c)"
    and "r < length (screen_store c) \<Longrightarrow> screenId (screen_store c1 ! r) = screenId (screen_store c ! r)"
    and "r < length (screen_store c) \<Longrightarrow> widgets (screen_store c1 ! r) = widgets (screen_store c ! r)"
    and "r < length (screen_store c) \<Longrightarrow> widgetCnt (screen_store c1 ! r) = widgetCnt (screen_store c ! r)"
    and "w < length (widget_store c) \<Longrightarrow> screen (widget_store c1 ! w) = screen (widget_store c ! w)"
    and "w < length (widget_store c) \<Longrightarrow> widgetId (widget_store c1 ! w) = widgetId (widget_store c ! w)"
    and "w < length (widget_store c) \<Longrightarrow> proto (widget_store c1 ! w) = proto (widget_store c ! w)"
    and "numbered r c1 = numbered r c"
proof -
  from assms have s: "map screen_key (screen_store c1) = map screen_key (screen_store c)"
    and w: "map widget_key (widget_store c1) = map widget_key (widget_store c)"
    by (simp_all add: skeleton_def)
  from assms show "config c1 = config c" "screens c1 = screens c" "screenCnt c1 = screenCnt c"
    by (simp_all add: skeleton_def)
  from s show "length (screen_store c1) = length (screen_store c)"
    by (rule map_eq_imp_length_eq)
  from w show "length (widget_store c1) = length (widget_store c)"
    by (rule map_eq_imp_length_eq)
  from w show "numbered r c1 = numbered r c"
    by (simp add: numbered_keys)
  {
    assume "r < length (screen_store c)"
    with s have "screen_key (screen_store c1 ! r) = screen_key (screen_store c ! r)"
      by (rule map_eq_nth)
    then show "screenId (screen_store c1 ! r) = screenId (screen_store c ! r)"
      "widgets (screen_store c1 ! r) = widgets (screen_store c ! r)"
      "widgetCnt (screen_store c1 ! r) = widgetCnt (screen_store c ! r)"
      by (simp_all add: screen_key_def)
  }
  {
    assume "w < length (widget_store c)"
    with w have "widget_key (widget_store c1 ! w) = widget_key (widget_store c ! w)"
      by (rule map_eq_nth)
    then show "screen (widget_store c1 ! w) = screen (widget_store c ! w)"
      "widgetId (widget_store c1 ! w) = widgetId (widget_store c ! w)"
      "proto (widget_store c1 ! w) = proto (widget_store c ! w)"
      by (simp_all add: widget_key_def)
  }
qed


lemma consistent_skeleton:
  assumes "skeleton c1 = skeleton c"
  shows "consistent c1 = consistent c"
  by (simp add: consistent_def skeletonD [OF assms] cong: conj_cong)


lemma isEmpty_iff: "isEmpty cfg \<longleftrightarrow> cfg = None \<or> cfg = Some []"
proof (cases cfg)
  case None
  then show ?thesis by simp
next
  case (Some obj)
  have "own_entries obj = [] \<longleftrightarrow> obj = []"
    using length_own_entries [of obj] by (metis length_0_conv)
  with Some show ?thesis by simp
qed

lemma assign_empty: "isEmpty cfg \<Longrightarrow> assign target cfg = target"
  by (auto simp: isEmpty_iff assign_def own_entries_def)

subsection \<open>What the factory methods and the delete methods do to the state\<close>

lemma Screen_setConfig_eq:
  "Screen_setConfig r cfg c =
     (if isEmpty cfg then c
      else c\<lparr> screen_store := (screen_store c)
                 [r := (screen_store c ! r)
                    \<lparr>screen_config := assign (screen_config (screen_store c ! r)) cfg\<rparr>],
              trace := trace c @
                [SocketWrite
                   (join '' '' ([JStr ''screen_set'', JStr (screenId (screen_store c ! r))] @
                      flattenObj (the cfg) False) @ [line_feed])] \<rparr>)"
  by (cases cfg) (simp_all add: Screen_setConfig_def Client_write_def effect_def Let_def)

lemma Client_addScreen_eq:
  "Client_addScreen cfg c =
     (length (screen_store c),
      c\<lparr> screenCnt := Suc (screenCnt c),
         screen_store := screen_store c @
           [\<lparr> screenId = name (config c) @ ''_s'' @ dec (screenCnt c),
              screen_config = assign [] cfg, widgets = [], widgetCnt = 0 \<rparr>],
         screens := obj_put (screens c) (name (config c) @ ''_s'' @ dec (screenCnt c))
           (length (screen_store c)),
         trace := trace c @
           SocketWrite (''screen_add '' @ name (config c) @ ''_s'' @ dec (screenCnt c) @
             [line_feed]) #
           (if isEmpty cfg then []
            else [SocketWrite
                    (join '' ''
                       ([JStr ''screen_set'',
                         JStr (name (config c) @ ''_s'' @ dec (screenCnt c))] @
                        flattenObj (the cfg) False) @ [line_feed])]) \<rparr>)"
  by (simp add: Client_addScreen_def Client_newScreenId_def Screen_def Screen_setConfig_eq
      Client_write_def effect_def Let_def assign_empty)

lemma Screen_delete_eq:
  "Screen_delete r c =
     c\<lparr> screens := obj_delete (screens c) (screenId (screen_store c ! r)),
        trace := trace c @
          [SocketWrite (''screen_del '' @ screenId (screen_store c ! r) @ [line_feed])] \<rparr>"
  by (simp add: Screen_delete_def Client_unrefScreen_def Client_write_def effect_def Let_def)

lemma add_numbered_eq:
  "r < length (screen_store c) \<Longrightarrow>
   add_numbered pr wtype r c =
     (length (widget_store c),
      c\<lparr> screen_store := (screen_store c)
           [r := (screen_store c ! r)
              \<lparr> widgetCnt := Suc (widgetCnt (screen_store c ! r)),
                widgets :=
                  obj_put (widgets (screen_store c ! r))
                    (screenId (screen_store c ! r) @ ''_w'' @ dec (widgetCnt (screen_store c ! r)))
                    (length (widget_store c)) \<rparr>],
         widget_store := widget_store c @
           [\<lparr> screen = r,
              widgetId = screenId (screen_store c ! r) @ ''_w'' @ dec (widgetCnt (screen_store c ! r)),
              widgetType = wtype, params = None, proto = pr \<rparr>],
         trace := trace c @
           [SocketWrite
              (join '' ''
                 [JStr ''widget_add'', JStr (screenId (screen_store c ! r)),
                  JStr (screenId (screen_store c ! r) @ ''_w'' @
                        dec (widgetCnt (screen_store c ! r))), wtype] @ [line_feed])] \<rparr>)"
  by (simp add: add_numbered_def Screen_newWidgetId_def new_Widget_def set_widget_def
      Client_write_def effect_def Let_def)

lemma Screen_addTitle_old:
  "map_of (widgets (screen_store c ! r)) (screenId (screen_store c ! r) @ ''_wTITLE'') = Some w \<Longrightarrow>
   Screen_addTitle r c = (w, c)"
  by (simp add: Screen_addTitle_def Let_def)

lemma Screen_addTitle_new:
  "map_of (widgets (screen_store c ! r)) (screenId (screen_store c ! r) @ ''_wTITLE'') = None \<Longrightarrow>
   Screen_addTitle r c =
     (length (widget_store c),
      c\<lparr> screen_store := (screen_store c)
           [r := (screen_store c ! r)
              \<lparr> widgets :=
                  obj_put (widgets (screen_store c ! r))
                    (screenId (screen_store c ! r) @ ''_wTITLE'') (length (widget_store c)) \<rparr>],
         widget_store := widget_store c @
           [\<lparr> screen = r, widgetId = screenId (screen_store c ! r) @ ''_wTITLE'',
              widgetType = JStr ''title'', params = None, proto = TitleWidget \<rparr>],
         trace := trace c @
           [SocketWrite
              (''widget_add '' @ screenId (screen_store c ! r) @ '' '' @
               screenId (screen_store c ! r) @ ''_wTITLE title'' @ [line_feed])] \<rparr>)"
  by (simp add: Screen_addTitle_def new_Widget_def set_widget_def Client_write_def effect_def
      Let_def)

lemma Widget_delete_eq:
  "Widget_delete w c =
     c\<lparr> screen_store := (screen_store c)
          [screen (widget_store c ! w) :=
             (screen_store c ! screen (widget_store c ! w))
               \<lparr> widgets :=
                   obj_delete (widgets (screen_store c ! screen (widget_store c ! w)))
                     (widgetId (widget_store c ! w)) \<rparr>],
        trace := trace c @
          [SocketWrite
             (''widget_del '' @ screenId (screen_store c ! screen (widget_store c ! w)) @ '' '' @
              widgetId (widget_store c ! w) @ [line_feed])] \<rparr>"
  by (simp add: Widget_delete_def Screen_unrefWidget_def Client_write_def effect_def Let_def)


subsection \<open>The invariant holds of a new client and is kept by every call\<close>

lemma consistent_Client: "consistent (Client opts)"
  by (simp add: consistent_def Client_def numbered_def)

lemma no_widget_of_new_screen:
  "\<forall>w < length ws. screen (ws ! w) < n \<Longrightarrow>
   filter (\<lambda>wd. screen wd = n \<and> proto wd \<noteq> TitleWidget) ws = []"
  by (auto simp: filter_empty_conv in_set_conv_nth)

lemma consistent_addScreen:
  assumes "consistent c"
  shows "consistent (snd (Client_addScreen cfg c))"
proof -
  from assms have len: "length (screen_store c) = screenCnt c"
    and ws: "\<forall>w < length (widget_store c). screen (widget_store c ! w) < length (screen_store c)"
    unfolding consistent_def by blast+
  from ws have "filter (\<lambda>wd. screen wd = length (screen_store c) \<and> proto wd \<noteq> TitleWidget)
      (widget_store c) = []"
    by (rule no_widget_of_new_screen)
  with len have none: "filter (\<lambda>wd. screen wd = screenCnt c \<and> proto wd \<noteq> TitleWidget)
      (widget_store c) = []"
    by simp
  from assms none show ?thesis
    unfolding Client_addScreen_eq consistent_def
    by (auto simp: nth_append less_Suc_eq numbered_def)
qed

lemma consistent_Screen_delete: "consistent c \<Longrightarrow> consistent (Screen_delete r c)"
  unfolding Screen_delete_eq consistent_def by (auto simp: numbered_def)

lemma consistent_add_numbered:
  assumes "consistent c" and "r < length (screen_store c)" and "pr \<noteq> TitleWidget"
  shows "consistent (snd (add_numbered pr wtype r c))"
  using assms
  unfolding add_numbered_eq [OF assms(2)] consistent_def
  by (auto simp: nth_append nth_list_update less_Suc_eq numbered_def map_of_obj_put
      split: if_splits)

lemma consistent_addTitle:
  assumes "consistent c" and "r < length (screen_store c)"
  shows "consistent (snd (Screen_addTitle r c))"
proof (cases "map_of (widgets (screen_store c ! r)) (screenId (screen_store c ! r) @ ''_wTITLE'')")
  case None
  with assms show ?thesis
    unfolding Screen_addTitle_new [OF None] consistent_def
    by (auto simp: nth_append nth_list_update less_Suc_eq numbered_def map_of_obj_put
        split: if_splits)
next
  case (Some w)
  with assms show ?thesis
    by (simp add: Screen_addTitle_old)
qed

lemma consistent_Widget_delete:
  assumes "consistent c"
  shows "consistent (Widget_delete w c)"
proof (cases "screen (widget_store c ! w) < length (screen_store c)")
  case True
  with assms show ?thesis
    unfolding Widget_delete_eq consistent_def
    by (auto simp: nth_list_update numbered_def map_of_obj_delete split: if_splits)
next
  case False
  with assms show ?thesis
    unfolding Widget_delete_eq consistent_def
    by (auto simp: list_update_beyond numbered_def)
qed

lemma exec_consistent:
  assumes "exec k c = Inr (v, c1)" and "consistent c"
  shows "consistent c1"
proof (cases "structural k")
  case False
  with assms show ?thesis
    by (simp add: consistent_skeleton [OF exec_skeleton])
next
  case True
  with assms show ?thesis
    by (cases k)
      (auto simp: new_screen_def new_widget_def returning_def on_screen_def on_widget_def
        Screen_addWidget_def Screen_addString_def Screen_addHorizontalBar_def
        Screen_addVerticalBar_def Screen_addIcon_def Screen_addBigNumber_def
        consistent_addScreen consistent_Screen_delete consistent_add_numbered
        consistent_addTitle consistent_Widget_delete
        split: if_splits)
qed

lemma run_consistent: "run ks c = Inr (vs, c1) \<Longrightarrow> consistent c \<Longrightarrow> consistent c1"
proof (induction ks arbitrary: c vs)
  case Nil
  then show ?case by simp
next
  case (Cons k ks)
  then show ?case
    by (auto split: sum.splits prod.splits dest: exec_consistent)
qed

section \<open>Ids of screens and widgets\<close>

lemma exec_Done: "exec k c = Inr (v, c1) \<Longrightarrow> \<not> structural k \<Longrightarrow> v = Done"
  by (cases k)
    (auto simp: returning_def finished_def on_screen_def on_widget_def
      split: sum.splits if_splits)

lemmas factory_defs = Screen_addWidget_def Screen_addString_def Screen_addHorizontalBar_def
  Screen_addVerticalBar_def Screen_addIcon_def Screen_addBigNumber_def

lemma Screen_addTitle_cases:
  obtains w where "Screen_addTitle r c = (w, c)"
  | t where "Screen_addTitle r c =
      (length (widget_store c),
       c\<lparr> screen_store := (screen_store c)
            [r := (screen_store c ! r)
               \<lparr> widgets :=
                   obj_put (widgets (screen_store c ! r))
                     (screenId (screen_store c ! r) @ ''_wTITLE'') (length (widget_store c)) \<rparr>],
          widget_store := widget_store c @
            [\<lparr> screen = r, widgetId = screenId (screen_store c ! r) @ ''_wTITLE'',
               widgetType = JStr ''title'', params = None, proto = TitleWidget \<rparr>],
          trace := t \<rparr>)"
  by (cases "map_of (widgets (screen_store c ! r)) (screenId (screen_store c ! r) @ ''_wTITLE'')")
    (auto simp: Screen_addTitle_old Screen_addTitle_new)

lemma addTitle_frame:
  "config (snd (Screen_addTitle r c)) = config c"
  "screens (snd (Screen_addTitle r c)) = screens c"
  "screenCnt (snd (Screen_addTitle r c)) = screenCnt c"
  "lcdprocConfig (snd (Screen_addTitle r c)) = lcdprocConfig c"
  "length (screen_store (snd (Screen_addTitle r c))) = length (screen_store c)"
  "length (widget_store c) \<le> length (widget_store (snd (Screen_addTitle r c)))"
  "w < length (widget_store c) \<Longrightarrow>
     widget_key (widget_store (snd (Screen_addTitle r c)) ! w) = widget_key (widget_store c ! w)"
  by (cases rule: Screen_addTitle_cases [of r c]; simp add: nth_append)+

text \<open>What a call does to the configuration, the counter and the stores.\<close>

lemma exec_frame:
  assumes "exec k c = Inr (v, c1)"
  shows "config c1 = config c"
    and "screens_of [v] = [length (screen_store c)..<length (screen_store c1)]"
    and "length (widget_store c) \<le> length (widget_store c1)"
    and "w < length (widget_store c) \<Longrightarrow>
          widget_key (widget_store c1 ! w) = widget_key (widget_store c ! w)"
    and "screenCnt c \<le> screenCnt c1"
    and "length (screen_store c) \<le> length (screen_store c1)"
proof -
  show "config c1 = config c"
  proof (cases "structural k")
    case False
    with assms show ?thesis
      by (simp add: skeletonD [OF exec_skeleton])
  next
    case True
    with assms show ?thesis
      by (cases k)
        (auto simp: addTitle_frame new_screen_def new_widget_def returning_def on_screen_def on_widget_def
          factory_defs Client_addScreen_eq Screen_delete_eq add_numbered_eq Widget_delete_eq
          split: if_splits)
  qed
  show "screens_of [v] = [length (screen_store c)..<length (screen_store c1)]"
  proof (cases "structural k")
    case False
    with assms show ?thesis
      by (simp add: skeletonD [OF exec_skeleton] exec_Done [OF assms])
  next
    case True
    with assms show ?thesis
      by (cases k)
        (auto simp: addTitle_frame new_screen_def new_widget_def returning_def on_screen_def on_widget_def
          factory_defs Client_addScreen_eq Screen_delete_eq add_numbered_eq Widget_delete_eq
          split: if_splits)
  qed
  show "length (widget_store c) \<le> length (widget_store c1)"
  proof (cases "structural k")
    case False
    with assms show ?thesis
      by (simp add: skeletonD [OF exec_skeleton])
  next
    case True
    with assms show ?thesis
      by (cases k)
        (auto simp: addTitle_frame new_screen_def new_widget_def returning_def on_screen_def on_widget_def
          factory_defs Client_addScreen_eq Screen_delete_eq add_numbered_eq Widget_delete_eq
          split: if_splits)
  qed
  show "screenCnt c \<le> screenCnt c1"
  proof (cases "structural k")
    case False
    with assms show ?thesis
      by (simp add: skeletonD [OF exec_skeleton])
  next
    case True
    with assms show ?thesis
      by (cases k)
        (auto simp: addTitle_frame new_screen_def new_widget_def returning_def on_screen_def on_widget_def
          factory_defs Client_addScreen_eq Screen_delete_eq add_numbered_eq Widget_delete_eq
          split: if_splits)
  qed
  show "length (screen_store c) \<le> length (screen_store c1)"
  proof (cases "structural k")
    case False
    with assms show ?thesis
      by (simp add: skeletonD [OF exec_skeleton])
  next
    case True
    with assms show ?thesis
      by (cases k)
        (auto simp: addTitle_frame new_screen_def new_widget_def returning_def on_screen_def on_widget_def
          factory_defs Client_addScreen_eq Screen_delete_eq add_numbered_eq Widget_delete_eq
          split: if_splits)
  qed
  show "widget_key (widget_store c1 ! w) = widget_key (widget_store c ! w)"
    if "w < length (widget_store c)"
  proof (cases "structural k")
    case False
    with assms that show ?thesis
      by (simp add: skeletonD [OF exec_skeleton] widget_key_def)
  next
    case True
    with assms that show ?thesis
      by (cases k)
        (auto simp: addTitle_frame new_screen_def new_widget_def returning_def on_screen_def on_widget_def
          factory_defs Client_addScreen_eq Screen_delete_eq add_numbered_eq Widget_delete_eq
          nth_append split: if_splits)
  qed
qed


lemma screens_of_Cons: "screens_of (v # vs) = screens_of [v] @ screens_of vs"
  by (cases v) simp_all

lemma run_frame:
  assumes "run ks c = Inr (vs, c1)"
  shows "config c1 = config c"
    and "screens_of vs = [length (screen_store c)..<length (screen_store c1)]"
    and "length (screen_store c) \<le> length (screen_store c1)"
    and "length (widget_store c) \<le> length (widget_store c1)"
    and "screenCnt c \<le> screenCnt c1"
    and "w < length (widget_store c) \<Longrightarrow>
          widget_key (widget_store c1 ! w) = widget_key (widget_store c ! w)"
  using assms
proof (induction ks arbitrary: c vs)
  case Nil
  {
    case 1 then show ?case by simp
  next
    case 2 then show ?case by simp
  next
    case 3 then show ?case by simp
  next
    case 4 then show ?case by simp
  next
    case 5 then show ?case by simp
  next
    case 6 then show ?case by simp
  }
next
  case (Cons k ks)
  {
    case 1
    then obtain v c' vs' where e: "exec k c = Inr (v, c')" and r: "run ks c' = Inr (vs', c1)"
      by (auto split: sum.splits prod.splits)
    with Cons.IH(1) [OF r] exec_frame(1) [OF e] show ?case by simp
  next
    case 2
    then obtain v c' vs' where e: "exec k c = Inr (v, c')" and r: "run ks c' = Inr (vs', c1)"
      and vs: "vs = v # vs'"
      by (auto split: sum.splits prod.splits)
    have "screens_of vs = [length (screen_store c)..<length (screen_store c')] @
        [length (screen_store c')..<length (screen_store c1)]"
      using Cons.IH(2) [OF r] exec_frame(2) [OF e] vs by (simp add: screens_of_Cons [of v vs'])
    also have "\<dots> = [length (screen_store c)..<length (screen_store c1)]"
      using Cons.IH(3) [OF r] exec_frame(6) [OF e] by (metis le_Suc_ex upt_add_eq_append)
    finally show ?case .
  next
    case 3
    then obtain v c' vs' where e: "exec k c = Inr (v, c')" and r: "run ks c' = Inr (vs', c1)"
      by (auto split: sum.splits prod.splits)
    with Cons.IH(3) [OF r] exec_frame(6) [OF e] show ?case by simp
  next
    case 4
    then obtain v c' vs' where e: "exec k c = Inr (v, c')" and r: "run ks c' = Inr (vs', c1)"
      by (auto split: sum.splits prod.splits)
    with Cons.IH(4) [OF r] exec_frame(3) [OF e] show ?case by simp
  next
    case 5
    then obtain v c' vs' where e: "exec k c = Inr (v, c')" and r: "run ks c' = Inr (vs', c1)"
      by (auto split: sum.splits prod.splits)
    with Cons.IH(5) [OF r] exec_frame(5) [OF e] show ?case by simp
  next
    case 6
    then obtain v c' vs' where e: "exec k c = Inr (v, c')" and r: "run ks c' = Inr (vs', c1)"
      by (auto split: sum.splits prod.splits)
    from 6(1) exec_frame(3) [OF e] have "w < length (widget_store c')" by simp
    with Cons.IH(6) [OF _ r] exec_frame(4) [OF e 6(1)] show ?case by simp
  }
qed

subsection \<open>Screen ids and widget ids\<close>


lemma title_not_numbered: "s @ ''_wTITLE'' \<noteq> s @ ''_w'' @ dec n"
proof
  assume "s @ ''_wTITLE'' = s @ ''_w'' @ dec n"
  then have "dec n = ''TITLE''" by simp
  with dec_digits [of "CHR ''T''" n] show False
    by (simp add: is_digit_def)
qed

lemma addTitle_twice:
  assumes "consistent c" and "r < length (screen_store c)"
  shows "Screen_addTitle r (snd (Screen_addTitle r c)) = Screen_addTitle r c \<and>
    widgetId (widget_store (snd (Screen_addTitle r c)) ! fst (Screen_addTitle r c)) =
      screenId (screen_store c ! r) @ ''_wTITLE'' \<and>
    map_of (widgets (screen_store (snd (Screen_addTitle r c)) ! r))
        (screenId (screen_store c ! r) @ ''_wTITLE'') = Some (fst (Screen_addTitle r c)) \<and>
    widgetCnt (screen_store (snd (Screen_addTitle r c)) ! r) = widgetCnt (screen_store c ! r) \<and>
    screenId (screen_store (snd (Screen_addTitle r c)) ! r) = screenId (screen_store c ! r)"
proof (cases "map_of (widgets (screen_store c ! r)) (screenId (screen_store c ! r) @ ''_wTITLE'')")
  case None
  let ?c1 = "snd (Screen_addTitle r c)"
  have old: "map_of (widgets (screen_store ?c1 ! r)) (screenId (screen_store ?c1 ! r) @ ''_wTITLE'') =
      Some (length (widget_store c))"
    using assms(2) by (simp add: Screen_addTitle_new [OF None] map_of_obj_put)
  have "Screen_addTitle r ?c1 = (length (widget_store c), ?c1)"
    by (rule Screen_addTitle_old [OF old])
  then show ?thesis
    using assms(2) by (simp add: Screen_addTitle_new [OF None] map_of_obj_put)
next
  case (Some w)
  with assms have "widgetId (widget_store c ! w) = screenId (screen_store c ! r) @ ''_wTITLE''"
    unfolding consistent_def by blast
  with Some show ?thesis
    by (simp add: Screen_addTitle_old [OF Some])
qed

subsection \<open>The title widget stays\<close>







subsection \<open>The title and the counter\<close>

lemma add_numbered_result:
  assumes "consistent c" and "r < length (screen_store c)" and "pr \<noteq> TitleWidget"
  shows "\<exists>w c1. add_numbered pr wtype r c = (w, c1) \<and> consistent c1 \<and>
    length (screen_store c1) = length (screen_store c) \<and>
    screenId (screen_store c1 ! r) = screenId (screen_store c ! r) \<and>
    w < length (widget_store c1) \<and>
    widgetId (widget_store c1 ! w) =
      screenId (screen_store c ! r) @ ''_w'' @ dec (widgetCnt (screen_store c ! r)) \<and>
    widgetCnt (screen_store c1 ! r) = Suc (widgetCnt (screen_store c ! r)) \<and>
    (map_of (widgets (screen_store c ! r)) (screenId (screen_store c ! r) @ ''_wTITLE'') \<noteq> None
      \<longrightarrow> map_of (widgets (screen_store c1 ! r)) (screenId (screen_store c ! r) @ ''_wTITLE'')
        \<noteq> None)"
  using consistent_add_numbered [OF assms, of wtype] assms(2)
  by (simp add: add_numbered_eq map_of_obj_put)

lemma addTitle_result:
  assumes "consistent c" and "r < length (screen_store c)"
  shows "\<exists>w c1. Screen_addTitle r c = (w, c1) \<and> consistent c1 \<and>
    length (screen_store c1) = length (screen_store c) \<and>
    screenId (screen_store c1 ! r) = screenId (screen_store c ! r) \<and>
    w < length (widget_store c1) \<and>
    widgetId (widget_store c1 ! w) = screenId (screen_store c ! r) @ ''_wTITLE'' \<and>
    widgetCnt (screen_store c1 ! r) = widgetCnt (screen_store c ! r) \<and>
    map_of (widgets (screen_store c1 ! r)) (screenId (screen_store c ! r) @ ''_wTITLE'') = Some w"
proof -
  obtain w c1 where e: "Screen_addTitle r c = (w, c1)"
    by (cases "Screen_addTitle r c")
  from consistent_addTitle [OF assms] e have inv: "consistent c1"
    by simp
  from addTitle_twice [OF assms] e
  have t: "widgetId (widget_store c1 ! w) = screenId (screen_store c ! r) @ ''_wTITLE''"
    "map_of (widgets (screen_store c1 ! r)) (screenId (screen_store c ! r) @ ''_wTITLE'') = Some w"
    "widgetCnt (screen_store c1 ! r) = widgetCnt (screen_store c ! r)"
    "screenId (screen_store c1 ! r) = screenId (screen_store c ! r)"
    by simp_all
  from addTitle_frame(5) [of r c] e have l: "length (screen_store c1) = length (screen_store c)"
    by simp
  from inv t(2) l assms(2) have "w < length (widget_store c1)"
    unfolding consistent_def by metis
  with e inv t l show ?thesis by simp
qed

lemma exec_factory:
  assumes "consistent c" and "r < length (screen_store c)" and "factory_on r k"
  shows "\<exists>w c1. exec k c = Inr (WidgetRef w, c1) \<and> consistent c1 \<and>
    length (screen_store c1) = length (screen_store c) \<and>
    screenId (screen_store c1 ! r) = screenId (screen_store c ! r) \<and>
    w < length (widget_store c1) \<and>
    [widgetId (widget_store c1 ! w)] =
      take 1 (expected_ids (screenId (screen_store c ! r)) (widgetCnt (screen_store c ! r)) [k]) \<and>
    widgetCnt (screen_store c1 ! r) =
      widgetCnt (screen_store c ! r) + (if k = AddTitle r then 0 else 1) \<and>
    (k = AddTitle r \<or>
     map_of (widgets (screen_store c ! r)) (screenId (screen_store c ! r) @ ''_wTITLE'') \<noteq> None
      \<longrightarrow> map_of (widgets (screen_store c1 ! r)) (screenId (screen_store c ! r) @ ''_wTITLE'')
        \<noteq> None)"
proof (cases "k = AddTitle r")
  case True
  with addTitle_result [OF assms(1,2)] assms(2) show ?thesis
    by (auto simp: on_screen_def new_widget_def)
next
  case False
  with assms(3) obtain pr wtype where k: "exec k c = on_screen r c (new_widget (add_numbered pr wtype r c))"
    and pr: "pr \<noteq> TitleWidget"
    and ex: "expected_ids (screenId (screen_store c ! r)) (widgetCnt (screen_store c ! r)) [k] =
      [screenId (screen_store c ! r) @ ''_w'' @ dec (widgetCnt (screen_store c ! r))]"
    by (cases k) (auto simp: factory_defs)
  with add_numbered_result [OF assms(1,2) pr, of wtype] assms(2) False show ?thesis
    by (auto simp: on_screen_def new_widget_def)
qed


lemma expected_ids_Cons:
  "factory_on r k \<Longrightarrow>
   expected_ids sid n (k # ks) =
     take 1 (expected_ids sid n [k]) @
     expected_ids sid (n + (if k = AddTitle r then 0 else 1)) ks"
  by (cases k) auto

lemma run_factories:
  assumes "consistent c" and "r < length (screen_store c)" and "list_all (factory_on r) ks"
  shows "\<exists>vs c1. run ks c = Inr (vs, c1) \<and> consistent c1 \<and>
    length (screen_store c1) = length (screen_store c) \<and>
    screenId (screen_store c1 ! r) = screenId (screen_store c ! r) \<and>
    (\<forall>w \<in> set (widgets_of vs). w < length (widget_store c1)) \<and>
    map (\<lambda>w. widgetId (widget_store c1 ! w)) (widgets_of vs) =
      expected_ids (screenId (screen_store c ! r)) (widgetCnt (screen_store c ! r)) ks \<and>
    widgetCnt (screen_store c1 ! r) =
      widgetCnt (screen_store c ! r) + length (filter (\<lambda>k. k \<noteq> AddTitle r) ks) \<and>
    (AddTitle r \<in> set ks \<or>
     map_of (widgets (screen_store c ! r)) (screenId (screen_store c ! r) @ ''_wTITLE'') \<noteq> None
      \<longrightarrow> map_of (widgets (screen_store c1 ! r)) (screenId (screen_store c ! r) @ ''_wTITLE'')
        \<noteq> None)"
  using assms
proof (induction ks arbitrary: c)
  case Nil
  then show ?case by simp
next
  case (Cons k ks)
  from Cons.prems have fk: "factory_on r k" and fks: "list_all (factory_on r) ks"
    by simp_all
  let ?sid = "screenId (screen_store c ! r)"
  let ?n = "widgetCnt (screen_store c ! r)"
  from exec_factory [OF Cons.prems(1,2) fk]
  obtain w c' where e: "exec k c = Inr (WidgetRef w, c')" and inv: "consistent c'"
    and len: "length (screen_store c') = length (screen_store c)"
    and sid: "screenId (screen_store c' ! r) = ?sid"
    and w: "w < length (widget_store c')"
    and wid: "[widgetId (widget_store c' ! w)] = take 1 (expected_ids ?sid ?n [k])"
    and cnt: "widgetCnt (screen_store c' ! r) = ?n + (if k = AddTitle r then 0 else 1)"
    and title: "k = AddTitle r \<or> map_of (widgets (screen_store c ! r)) (?sid @ ''_wTITLE'') \<noteq> None
      \<longrightarrow> map_of (widgets (screen_store c' ! r)) (?sid @ ''_wTITLE'') \<noteq> None"
    by blast
  from Cons.prems(2) len have r': "r < length (screen_store c')"
    by simp
  from Cons.IH [OF inv r' fks]
  obtain vs c1 where run: "run ks c' = Inr (vs, c1)" and inv1: "consistent c1"
    and len1: "length (screen_store c1) = length (screen_store c')"
    and sid1: "screenId (screen_store c1 ! r) = screenId (screen_store c' ! r)"
    and ws1: "\<forall>w \<in> set (widgets_of vs). w < length (widget_store c1)"
    and ids1: "map (\<lambda>w. widgetId (widget_store c1 ! w)) (widgets_of vs) =
      expected_ids (screenId (screen_store c' ! r)) (widgetCnt (screen_store c' ! r)) ks"
    and cnt1: "widgetCnt (screen_store c1 ! r) =
      widgetCnt (screen_store c' ! r) + length (filter (\<lambda>k. k \<noteq> AddTitle r) ks)"
    and title1: "AddTitle r \<in> set ks \<or>
       map_of (widgets (screen_store c' ! r)) (screenId (screen_store c' ! r) @ ''_wTITLE'') \<noteq> None
      \<longrightarrow> map_of (widgets (screen_store c1 ! r)) (screenId (screen_store c' ! r) @ ''_wTITLE'')
        \<noteq> None"
    by blast
  from run_frame(6) [OF run w] have "widgetId (widget_store c1 ! w) = widgetId (widget_store c' ! w)"
    by (simp add: widget_key_def)
  with wid have wid1: "[widgetId (widget_store c1 ! w)] = take 1 (expected_ids ?sid ?n [k])"
    by simp
  from run_frame(4) [OF run] w have w1: "w < length (widget_store c1)"
    by simp
  have 1: "run (k # ks) c = Inr (WidgetRef w # vs, c1)"
    using e run by simp
  have 2: "map (\<lambda>w. widgetId (widget_store c1 ! w)) (widgets_of (WidgetRef w # vs)) =
      expected_ids ?sid ?n (k # ks)"
  proof -
    have "expected_ids ?sid ?n (k # ks) =
        take 1 (expected_ids ?sid ?n [k]) @
        expected_ids ?sid (widgetCnt (screen_store c' ! r)) ks"
      using expected_ids_Cons [OF fk, of ?sid ?n ks] cnt by simp
    then show ?thesis
      using wid1 ids1 sid by simp
  qed
  have 3: "widgetCnt (screen_store c1 ! r) =
      ?n + length (filter (\<lambda>k. k \<noteq> AddTitle r) (k # ks))"
    using cnt cnt1 by simp
  have 4: "AddTitle r \<in> set (k # ks) \<or>
      map_of (widgets (screen_store c ! r)) (?sid @ ''_wTITLE'') \<noteq> None
      \<longrightarrow> map_of (widgets (screen_store c1 ! r)) (?sid @ ''_wTITLE'') \<noteq> None"
    using title title1 sid by auto
  have 5: "\<forall>w \<in> set (widgets_of (WidgetRef w # vs)). w < length (widget_store c1)"
    using ws1 w1 by simp
  have 6: "length (screen_store c1) = length (screen_store c)"
    using len len1 by simp
  have 7: "screenId (screen_store c1 ! r) = ?sid"
    using sid sid1 by simp
  from 1 inv1 6 7 5 2 3 4 show ?case
    by blast
qed

lemma expected_ids_numbered:
  "list_all (factory_on r) ks \<Longrightarrow>
   filter (\<lambda>i. i \<noteq> sid @ ''_wTITLE'') (expected_ids sid n ks) =
     map (\<lambda>i. sid @ ''_w'' @ dec i) [n..<n + length (filter (\<lambda>k. k \<noteq> AddTitle r) ks)]"
proof (induction ks arbitrary: n)
  case Nil
  then show ?case by simp
next
  case (Cons k ks)
  then have fk: "factory_on r k" and fks: "list_all (factory_on r) ks"
    by simp_all
  show ?case
  proof (cases "k = AddTitle r")
    case True
    with Cons.IH [OF fks, of n] show ?thesis by simp
  next
    case False
    with fk have "expected_ids sid n (k # ks) = (sid @ ''_w'' @ dec n) # expected_ids sid (Suc n) ks"
      by (cases k) auto
    moreover have "[n..<n + Suc (length (filter (\<lambda>k. k \<noteq> AddTitle r) ks))] =
        n # [Suc n..<Suc n + length (filter (\<lambda>k. k \<noteq> AddTitle r) ks)]"
      using upt_rec [of n "n + Suc (length (filter (\<lambda>k. k \<noteq> AddTitle r) ks))"] by simp
    ultimately show ?thesis
      using False Cons.IH [OF fks, of "Suc n"] title_not_numbered [of sid n]
      by (simp del: upt_Suc)
  qed
qed

text \<open>
  C10. In a state that a program has reached, any sequence of factory calls on a screen
  runs without an exception, and each call returns a widget with the id that
  \<open>expected_ids\<close> lists: \<open><screenId>_wTITLE\<close> for \<^verbatim>\<open>addTitle\<close>, and for a numbered
  factory method \<open><screenId>_w<N>\<close> where \<open>N\<close> is the counter before the sequence plus
  the number of numbered calls before this one. The ids of the numbered calls are
  therefore those of the sequence with every \<^verbatim>\<open>addTitle\<close> removed, and the counter
  grows by the number of numbered calls only. \<^verbatim>\<open>addTitle\<close> leaves the counter as it is
  and stores the title in the screen's \<^verbatim>\<open>widgets\<close> under \<open><screenId>_wTITLE\<close>, where it
  stays.
\<close>

theorem title_not_counted:
  assumes "run ks0 (Client opts) = Inr (vs0, c)" and "r < length (screen_store c)"
    and "list_all (factory_on r) ks"
  shows "(\<exists>vs c1. run ks c = Inr (vs, c1) \<and>
      map (\<lambda>w. widgetId (widget_store c1 ! w)) (widgets_of vs) =
        expected_ids (screenId (screen_store c ! r)) (widgetCnt (screen_store c ! r)) ks \<and>
      widgetCnt (screen_store c1 ! r) =
        widgetCnt (screen_store c ! r) + length (filter (\<lambda>k. k \<noteq> AddTitle r) ks) \<and>
      (AddTitle r \<in> set ks \<longrightarrow>
         (\<exists>w < length (widget_store c1).
            map_of (widgets (screen_store c1 ! r)) (screenId (screen_store c ! r) @ ''_wTITLE'') =
              Some w \<and>
            widgetId (widget_store c1 ! w) = screenId (screen_store c ! r) @ ''_wTITLE''))) \<and>
    filter (\<lambda>i. i \<noteq> screenId (screen_store c ! r) @ ''_wTITLE'')
        (expected_ids (screenId (screen_store c ! r)) (widgetCnt (screen_store c ! r)) ks) =
      map (\<lambda>n. screenId (screen_store c ! r) @ ''_w'' @ dec n)
        [widgetCnt (screen_store c ! r)..<
         widgetCnt (screen_store c ! r) + length (filter (\<lambda>k. k \<noteq> AddTitle r) ks)] \<and>
    widgetCnt (screen_store (snd (Screen_addTitle r c)) ! r) = widgetCnt (screen_store c ! r) \<and>
    map_of (widgets (screen_store (snd (Screen_addTitle r c)) ! r))
        (screenId (screen_store c ! r) @ ''_wTITLE'') = Some (fst (Screen_addTitle r c))"
proof -
  let ?sid = "screenId (screen_store c ! r)"
  have inv: "consistent c"
    using run_consistent [OF assms(1) consistent_Client] .
  from run_factories [OF inv assms(2,3)]
  obtain vs c1 where run: "run ks c = Inr (vs, c1)" and inv1: "consistent c1"
    and len: "length (screen_store c1) = length (screen_store c)"
    and ids: "map (\<lambda>w. widgetId (widget_store c1 ! w)) (widgets_of vs) =
      expected_ids ?sid (widgetCnt (screen_store c ! r)) ks"
    and cnt: "widgetCnt (screen_store c1 ! r) =
      widgetCnt (screen_store c ! r) + length (filter (\<lambda>k. k \<noteq> AddTitle r) ks)"
    and title: "AddTitle r \<in> set ks \<or> map_of (widgets (screen_store c ! r)) (?sid @ ''_wTITLE'') \<noteq> None
      \<longrightarrow> map_of (widgets (screen_store c1 ! r)) (?sid @ ''_wTITLE'') \<noteq> None"
    by blast
  have "\<exists>w < length (widget_store c1).
      map_of (widgets (screen_store c1 ! r)) (?sid @ ''_wTITLE'') = Some w \<and>
      widgetId (widget_store c1 ! w) = ?sid @ ''_wTITLE''"
    if "AddTitle r \<in> set ks"
  proof -
    from that title obtain w where w: "map_of (widgets (screen_store c1 ! r)) (?sid @ ''_wTITLE'') = Some w"
      by blast
    from assms(2) len have "r < length (screen_store c1)" by simp
    with inv1 w have "w < length (widget_store c1) \<and> widgetId (widget_store c1 ! w) = ?sid @ ''_wTITLE''"
      unfolding consistent_def by blast
    with w show ?thesis by blast
  qed
  with run ids cnt have "\<exists>vs c1. run ks c = Inr (vs, c1) \<and>
      map (\<lambda>w. widgetId (widget_store c1 ! w)) (widgets_of vs) =
        expected_ids ?sid (widgetCnt (screen_store c ! r)) ks \<and>
      widgetCnt (screen_store c1 ! r) =
        widgetCnt (screen_store c ! r) + length (filter (\<lambda>k. k \<noteq> AddTitle r) ks) \<and>
      (AddTitle r \<in> set ks \<longrightarrow>
         (\<exists>w < length (widget_store c1).
            map_of (widgets (screen_store c1 ! r)) (?sid @ ''_wTITLE'') = Some w \<and>
            widgetId (widget_store c1 ! w) = ?sid @ ''_wTITLE''))"
    by blast
  then show ?thesis
    using expected_ids_numbered [OF assms(3), of ?sid "widgetCnt (screen_store c ! r)"]
      addTitle_twice [OF inv assms(2)]
    by simp
qed

text \<open>On the screen of the example, whose counter is at 4.\<close>

theorem title_not_counted_witness:
  "(\<exists>vs c1. run [AddTitle 0, AddString 0, AddTitle 0, AddIcon 0] demo_client = Inr (vs, c1) \<and>
      map (\<lambda>w. widgetId (widget_store c1 ! w)) (widgets_of vs) =
        [''lcdprocjs_s0_wTITLE'', ''lcdprocjs_s0_w4'', ''lcdprocjs_s0_wTITLE'',
         ''lcdprocjs_s0_w5''] \<and>
      widgetCnt (screen_store c1 ! 0) = 6) \<and>
   widgetCnt (screen_store (snd (Screen_addTitle 0 demo_client)) ! 0) = 4 \<and>
   map_of (widgets (screen_store (snd (Screen_addTitle 0 demo_client)) ! 0))
     ''lcdprocjs_s0_wTITLE'' = Some 4"
proof -
  have held: "0 < length (screen_store demo_client)"
    by (simp add: demo_client_def)
  have calls: "list_all (factory_on 0) [AddTitle 0, AddString 0, AddTitle 0, AddIcon 0]"
    by simp
  have given: "screenId (screen_store demo_client ! 0) = ''lcdprocjs_s0''"
    "widgetCnt (screen_store demo_client ! 0) = 4"
    by (simp_all add: demo_client_def)
  have title: "Screen_addTitle 0 demo_client = (4, demo_client)"
    by (simp add: Screen_addTitle_def demo_client_def Let_def)
  note main = title_not_counted [OF run_demo held calls]
  from main obtain vs c1
    where r: "run [AddTitle 0, AddString 0, AddTitle 0, AddIcon 0] demo_client = Inr (vs, c1)"
      and i: "map (\<lambda>w. widgetId (widget_store c1 ! w)) (widgets_of vs) =
        expected_ids (screenId (screen_store demo_client ! 0))
          (widgetCnt (screen_store demo_client ! 0))
          [AddTitle 0, AddString 0, AddTitle 0, AddIcon 0]"
      and n: "widgetCnt (screen_store c1 ! 0) =
        widgetCnt (screen_store demo_client ! 0) +
        length (filter (\<lambda>k. k \<noteq> AddTitle 0) [AddTitle 0, AddString 0, AddTitle 0, AddIcon 0])"
    by blast
  from i have i': "map (\<lambda>w. widgetId (widget_store c1 ! w)) (widgets_of vs) =
      [''lcdprocjs_s0_wTITLE'', ''lcdprocjs_s0_w4'', ''lcdprocjs_s0_wTITLE'',
       ''lcdprocjs_s0_w5'']"
    by (simp add: given dec_numerals)
  from n have n': "widgetCnt (screen_store c1 ! 0) = 6"
    by (simp add: given)
  from main have "widgetCnt (screen_store (snd (Screen_addTitle 0 demo_client)) ! 0) =
      widgetCnt (screen_store demo_client ! 0)"
    and "map_of (widgets (screen_store (snd (Screen_addTitle 0 demo_client)) ! 0))
        (screenId (screen_store demo_client ! 0) @ ''_wTITLE'') =
      Some (fst (Screen_addTitle 0 demo_client))"
    by blast+
  then have t: "widgetCnt (screen_store (snd (Screen_addTitle 0 demo_client)) ! 0) = 4"
    "map_of (widgets (screen_store (snd (Screen_addTitle 0 demo_client)) ! 0))
       ''lcdprocjs_s0_wTITLE'' = Some 4"
    by (simp_all add: given title)
  have "\<exists>vs c1. run [AddTitle 0, AddString 0, AddTitle 0, AddIcon 0] demo_client = Inr (vs, c1) \<and>
      map (\<lambda>w. widgetId (widget_store c1 ! w)) (widgets_of vs) =
        [''lcdprocjs_s0_wTITLE'', ''lcdprocjs_s0_w4'', ''lcdprocjs_s0_wTITLE'',
         ''lcdprocjs_s0_w5''] \<and>
      widgetCnt (screen_store c1 ! 0) = 6"
  proof (intro exI conjI)
    show "run [AddTitle 0, AddString 0, AddTitle 0, AddIcon 0] demo_client = Inr (vs, c1)"
      by (rule r)
    show "map (\<lambda>w. widgetId (widget_store c1 ! w)) (widgets_of vs) =
        [''lcdprocjs_s0_wTITLE'', ''lcdprocjs_s0_w4'', ''lcdprocjs_s0_wTITLE'',
         ''lcdprocjs_s0_w5'']"
      by (rule i')
    show "widgetCnt (screen_store c1 ! 0) = 6"
      by (rule n')
  qed
  with t show ?thesis
    by (intro conjI) assumption+
qed


section \<open>Deleting a screen\<close>

lemma exec_deleted:
  assumes "exec k c = Inr (v, c1)" and "n < screenCnt c"
    and "map_of (screens c) (name (config c) @ ''_s'' @ dec n) = None"
  shows "map_of (screens c1) (name (config c) @ ''_s'' @ dec n) = None"
proof (cases "structural k")
  case False
  with assms show ?thesis
    by (simp add: skeletonD [OF exec_skeleton])
next
  case True
  with assms show ?thesis
    by (cases k)
      (auto simp: addTitle_frame new_screen_def new_widget_def returning_def on_screen_def
        on_widget_def factory_defs Client_addScreen_eq Screen_delete_eq add_numbered_eq
        Widget_delete_eq map_of_obj_put map_of_obj_delete dec_inj split: if_splits)
qed

lemma run_deleted:
  assumes "run ks c = Inr (vs, c1)" and "n < screenCnt c"
    and "map_of (screens c) (name (config c) @ ''_s'' @ dec n) = None"
  shows "map_of (screens c1) (name (config c) @ ''_s'' @ dec n) = None"
  using assms
proof (induction ks arbitrary: c vs)
  case Nil
  then show ?case by simp
next
  case (Cons k ks)
  from Cons.prems(1) obtain v c' vs' where e: "exec k c = Inr (v, c')"
    and r: "run ks c' = Inr (vs', c1)"
    by (auto split: sum.splits prod.splits)
  from exec_frame(1,5) [OF e] Cons.prems(2)
  have "config c' = config c" and "n < screenCnt c'"
    by simp_all
  with Cons.IH [OF r] exec_deleted [OF e Cons.prems(2,3)] show ?case
    by simp
qed

lemma screen_emit_Missing: "obj_get (screens c) sid = Missing \<Longrightarrow> screen_emit sid event c = Inr c"
  by (simp add: screen_emit_def)

lemma on_data_line:
  assumes "msg \<noteq> []" and "\<not> is_ws (hd msg)" and "\<not> is_ws (last msg)"
    and "line_feed \<notin> set msg" and "\<not> starts_with ''connect'' msg"
  shows "on_data msg c = on_message msg c" and "on_data (msg @ [line_feed]) c = on_message msg c"
proof -
  have "on_messages [msg] c = on_message msg c"
    by (simp split: sum.splits)
  with assms show "on_data msg c = on_message msg c"
    and "on_data (msg @ [line_feed]) c = on_message msg c"
    by (simp_all add: on_data_def trim_id trim_line_feed split_no_sep)
qed


lemma on_message_listen: "on_message (''listen '' @ d) c = screen_emit d ''shown'' c"
  by (simp add: on_message_def)

lemma on_message_ignore: "on_message (''ignore '' @ d) c = screen_emit d ''hidden'' c"
  by (simp add: on_message_def)

lemma notification_line:
  assumes "line_feed \<notin> set (s @ dec n)"
  shows "on_data (''listen '' @ s @ dec n) c = on_message (''listen '' @ s @ dec n) c"
    and "on_data (''listen '' @ s @ dec n @ [line_feed]) c = on_message (''listen '' @ s @ dec n) c"
    and "on_data (''ignore '' @ s @ dec n) c = on_message (''ignore '' @ s @ dec n) c"
    and "on_data (''ignore '' @ s @ dec n @ [line_feed]) c = on_message (''ignore '' @ s @ dec n) c"
proof -
  have d: "\<not> is_ws (last (t @ s @ dec n))" for t
    using last_dec [of "t @ s" n] by (simp add: is_digit_not_ws)
  have l: "on_data (''listen '' @ s @ dec n) c = on_message (''listen '' @ s @ dec n) c"
    "on_data ((''listen '' @ s @ dec n) @ [line_feed]) c = on_message (''listen '' @ s @ dec n) c"
    using assms d [of "''listen ''"]
    by (intro on_data_line; simp add: is_ws_def line_feed_def starts_with_def)+
  have i: "on_data (''ignore '' @ s @ dec n) c = on_message (''ignore '' @ s @ dec n) c"
    "on_data ((''ignore '' @ s @ dec n) @ [line_feed]) c = on_message (''ignore '' @ s @ dec n) c"
    using assms d [of "''ignore ''"]
    by (intro on_data_line; simp add: is_ws_def line_feed_def starts_with_def)+
  from l i show "on_data (''listen '' @ s @ dec n) c = on_message (''listen '' @ s @ dec n) c"
    and "on_data (''listen '' @ s @ dec n @ [line_feed]) c = on_message (''listen '' @ s @ dec n) c"
    and "on_data (''ignore '' @ s @ dec n) c = on_message (''ignore '' @ s @ dec n) c"
    and "on_data (''ignore '' @ s @ dec n @ [line_feed]) c = on_message (''ignore '' @ s @ dec n) c"
    by simp_all
qed

text \<open>
  Claim C8.  Let the client be in any state \<open>c\<close> that a program reaches from a new client,
  and \<open>r\<close> a screen of it with id \<open>d\<close>.  \<^verbatim>\<open>delete\<close> sends \<^verbatim>\<open>screen_del d\<close> and removes the
  key \<open>d\<close> from the registry \<^verbatim>\<open>screens\<close>, and changes nothing else: every other key of the
  registry reads as before.  In every state \<open>c'\<close> that a later program reaches, the
  messages \<^verbatim>\<open>listen d\<close> and \<^verbatim>\<open>ignore d\<close> leave the state as it is, so that no event is
  emitted, nothing is sent, and no exception is raised; the same holds for a chunk of
  data that consists of such a line, with or without its line feed, when the id has
  no line feed in it.
\<close>

theorem deleted_screen_silent:
  assumes "run ks (Client opts) = Inr (vs, c)" and "r < length (screen_store c)"
    and "run ks' (Screen_delete r c) = Inr (vs', c')"
  shows "Screen_delete r c =
           c\<lparr>screens := obj_delete (screens c) (screenId (screen_store c ! r)),
             trace := trace c @
               [SocketWrite (''screen_del '' @ screenId (screen_store c ! r) @ [line_feed])]\<rparr> \<and>
         obj_get (screens (Screen_delete r c)) (screenId (screen_store c ! r)) = Missing \<and>
         (\<forall>k. k \<noteq> screenId (screen_store c ! r) \<longrightarrow>
            obj_get (screens (Screen_delete r c)) k = obj_get (screens c) k) \<and>
         on_message (''listen '' @ screenId (screen_store c ! r)) c' = Inr c' \<and>
         on_message (''ignore '' @ screenId (screen_store c ! r)) c' = Inr c' \<and>
         (line_feed \<notin> set (screenId (screen_store c ! r)) \<longrightarrow>
            on_data (''listen '' @ screenId (screen_store c ! r)) c' = Inr c' \<and>
            on_data (''listen '' @ screenId (screen_store c ! r) @ [line_feed]) c' = Inr c' \<and>
            on_data (''ignore '' @ screenId (screen_store c ! r)) c' = Inr c' \<and>
            on_data (''ignore '' @ screenId (screen_store c ! r) @ [line_feed]) c' = Inr c')"
proof -
  define s where "s = name (config c) @ ''_s''"
  have "consistent c"
    using run_consistent [OF assms(1) consistent_Client] .
  with assms(2) have d: "screenId (screen_store c ! r) = s @ dec r" and n: "r < screenCnt c"
    unfolding consistent_def s_def by simp_all
  let ?c = "Screen_delete r c"
  have eq: "?c = c\<lparr>screens := obj_delete (screens c) (s @ dec r),
      trace := trace c @ [SocketWrite (''screen_del '' @ s @ dec r @ [line_feed])]\<rparr>"
    by (simp add: Screen_delete_eq d)
  have gone: "map_of (screens ?c) (name (config ?c) @ ''_s'' @ dec r) = None"
    by (simp add: eq map_of_obj_delete s_def)
  have other: "obj_get (screens ?c) k = obj_get (screens c) k" if "k \<noteq> s @ dec r" for k
    using that by (simp add: eq obj_get_def map_of_obj_delete)
  from n have "r < screenCnt ?c"
    by (simp add: eq)
  from run_deleted [OF assms(3) this gone] have "map_of (screens c') (s @ dec r) = None"
    by (simp add: eq s_def)
  then have "obj_get (screens c') (s @ dec r) = Missing"
    by (rule obj_get_Missing)
  then have m: "on_message (''listen '' @ s @ dec r) c' = Inr c'"
    "on_message (''ignore '' @ s @ dec r) c' = Inr c'"
    using on_message_listen [of "s @ dec r" c'] on_message_ignore [of "s @ dec r" c']
    by (simp_all add: screen_emit_Missing)
  have "obj_get (screens ?c) (s @ dec r) = Missing"
    using gone by (intro obj_get_Missing) (simp add: eq s_def)
  with eq other m notification_line [of s r c'] show ?thesis
    unfolding d by simp
qed

theorem deleted_screen_silent_witness:
  "Screen_delete 0 demo_client =
     demo_client\<lparr>screens := [],
       trace := trace demo_client @ [SocketWrite (''screen_del lcdprocjs_s0'' @ [line_feed])]\<rparr> \<and>
   run [AddScreen None] (Screen_delete 0 demo_client) =
     Inr ([ScreenRef 1], snd (Client_addScreen None (Screen_delete 0 demo_client))) \<and>
   obj_get (screens (snd (Client_addScreen None (Screen_delete 0 demo_client)))) ''lcdprocjs_s1''
     = Own 1 \<and>
   on_data (''listen lcdprocjs_s0'' @ [line_feed])
       (snd (Client_addScreen None (Screen_delete 0 demo_client))) =
     Inr (snd (Client_addScreen None (Screen_delete 0 demo_client))) \<and>
   on_data (''ignore lcdprocjs_s0'' @ [line_feed])
       (snd (Client_addScreen None (Screen_delete 0 demo_client))) =
     Inr (snd (Client_addScreen None (Screen_delete 0 demo_client)))"
proof -
  let ?c = "snd (Client_addScreen None (Screen_delete 0 demo_client))"
  have sid: "screenId (screen_store demo_client ! 0) = ''lcdprocjs_s0''"
    and len: "0 < length (screen_store demo_client)"
    and screens: "screens demo_client = [(''lcdprocjs_s0'', 0)]"
    by (simp_all add: demo_client_def)
  have later: "run [AddScreen None] (Screen_delete 0 demo_client) = Inr ([ScreenRef 1], ?c)"
    by (simp add: new_screen_def Client_addScreen_eq Screen_delete_eq demo_client_def)
  have own: "obj_get (screens ?c) ''lcdprocjs_s1'' = Own 1"
    by (simp add: Client_addScreen_eq Screen_delete_eq demo_client_def obj_get_def
        map_of_obj_put dec_small)
  have lf: "line_feed \<notin> set ''lcdprocjs_s0''"
    by (simp add: line_feed_def)
  from deleted_screen_silent [OF run_demo len later, unfolded sid] lf
  have "Screen_delete 0 demo_client =
      demo_client\<lparr>screens := obj_delete (screens demo_client) ''lcdprocjs_s0'',
        trace := trace demo_client @ [SocketWrite (''screen_del '' @ ''lcdprocjs_s0'' @ [line_feed])]\<rparr>"
    and "on_data (''listen '' @ ''lcdprocjs_s0'' @ [line_feed]) ?c = Inr ?c"
    and "on_data (''ignore '' @ ''lcdprocjs_s0'' @ [line_feed]) ?c = Inr ?c"
    by blast+
  with later own show ?thesis
    by (simp add: screens obj_delete_def)
qed


section \<open>The handshake and \<^verbatim>\<open>ready\<close>\<close>

lemma ready_count_effect [simp]:
  "ready_count (effect e c) = ready_count c + (if e = ClientEmit ''ready'' then 1 else 0)"
  by (simp add: ready_count_def effect_def)

lemma lcdprocConfig_effect [simp]: "lcdprocConfig (effect e c) = lcdprocConfig c"
  by (simp add: effect_def)

lemma ready_count_update [simp]:
  "ready_count (c\<lparr>screens := a\<rparr>) = ready_count c"
  "ready_count (c\<lparr>screenCnt := b\<rparr>) = ready_count c"
  "ready_count (c\<lparr>screen_store := d\<rparr>) = ready_count c"
  "ready_count (c\<lparr>widget_store := e\<rparr>) = ready_count c"
  "ready_count (c\<lparr>lcdprocConfig := f\<rparr>) = ready_count c"
  by (simp_all add: ready_count_def)

lemma ready_count_write [simp]: "ready_count (Client_write args c) = ready_count c"
  by (simp add: Client_write_def Let_def)

lemma lcdprocConfig_write [simp]: "lcdprocConfig (Client_write args c) = lcdprocConfig c"
  by (simp add: Client_write_def Let_def)

















lemma handshake_connect_line: "handshake (SocketData connect_line)"
  by (simp add: trim_connect_line starts_with_connect_line)





section \<open>The configuration of a screen\<close>

lemma distinct_own_entries:
  assumes "wf_object obj"
  shows "distinct (map fst (own_entries obj))"
proof -
  from assms have "distinct obj" and "inj_on fst (set obj)"
    by (simp_all add: wf_object_def distinct_map)
  then have "distinct (own_entries obj)"
    by (auto simp: own_entries_def)
  with \<open>inj_on fst (set obj)\<close> show ?thesis
    by (simp add: distinct_map set_own_entries)
qed

lemma map_of_own_entries: "wf_object obj \<Longrightarrow> map_of (own_entries obj) = map_of obj"
  using distinct_own_entries [of obj]
  by (simp add: map_of_inject_set wf_object_def set_own_entries)

lemma map_of_foldl_put:
  "distinct (map fst ps) \<Longrightarrow>
   map_of (foldl (\<lambda>t p. obj_put t (fst p) (snd p)) t ps) = map_of t ++ map_of ps"
proof (induction ps arbitrary: t)
  case Nil
  then show ?case by simp
next
  case (Cons p ps)
  obtain k v where p: "p = (k, v)"
    by (cases p)
  from Cons.prems have d: "distinct (map fst ps)" and n: "k \<notin> fst ` set ps"
    by (simp_all add: p)
  from n have "map_of ps k = None"
    by (simp add: map_of_eq_None_iff)
  then have e: "(map_of t)(k \<mapsto> v) ++ map_of ps = map_of t ++ map_of ((k, v) # ps)"
    by (auto simp: map_add_def fun_eq_iff split: option.splits)
  have "map_of (foldl (\<lambda>t p. obj_put t (fst p) (snd p)) t (p # ps)) =
      map_of (foldl (\<lambda>t p. obj_put t (fst p) (snd p)) (obj_put t k v) ps)"
    by (simp add: p)
  also have "\<dots> = map_of (obj_put t k v) ++ map_of ps"
    by (rule Cons.IH [OF d])
  also have "\<dots> = (map_of t)(k \<mapsto> v) ++ map_of ps"
    by (simp only: map_of_obj_put)
  also note e
  finally show ?case
    by (simp only: p)
qed

text \<open>\<^verbatim>\<open>_.assign\<close>: the keys of the source are added, and overwrite.\<close>

lemma map_of_assign:
  "wf_object obj \<Longrightarrow> map_of (assign target (Some obj)) = map_of target ++ map_of obj"
  by (simp add: assign_def map_of_foldl_put distinct_own_entries map_of_own_entries)

lemma wf_obj_put: "wf_object t \<Longrightarrow> wf_object (obj_put t k v)"
proof (induction t)
  case Nil
  then show ?case by (simp add: wf_object_def)
next
  case (Cons p t)
  have "fst ` set (obj_put t k v) = insert k (fst ` set t)"
    by (induction t) auto
  with Cons show ?case
    by (cases p) (auto simp: wf_object_def)
qed

lemma wf_assign: "wf_object target \<Longrightarrow> wf_object (assign target cfg)"
proof (cases cfg)
  case None
  assume "wf_object target"
  with None show ?thesis by (simp add: assign_def)
next
  case (Some obj)
  assume t: "wf_object target"
  have "wf_object (foldl (\<lambda>t p. obj_put t (fst p) (snd p)) t ps)" if "wf_object t" for ps t
    using that by (induction ps arbitrary: t) (simp_all add: wf_obj_put)
  with t Some show ?thesis by (simp add: assign_def)
qed

lemma own_entries_b1:
  "own_entries [(''b'', u), (''1'', v)] = [(''1'', v), (''b'', u)]"
  by (simp add: own_entries_def array_index_letters array_index_1)


text \<open>
  C7, as stated, fails for the order of the pairs: a key of the supplied object that is
  an array index is sent (and stored) before the keys the caller wrote earlier.
  \<^verbatim>\<open>setConfig({b: 1, "1": 2})\<close> on a new screen sends
  \<^verbatim>\<open>screen_set lcdprocjs_s0 -1 2 -b 1\<close>, not \<^verbatim>\<open>screen_set lcdprocjs_s0 -b 1 -1 2\<close>.
\<close>

theorem setConfig_order_counterexample:
  "run [AddScreen None, SetConfig 0 (Some [(''b'', JNum (Finite 1)), (''1'', JNum (Finite 2))])]
       (Client no_options) =
     Inr ([ScreenRef 0, Done],
       (Client no_options)
         \<lparr> screens := [(''lcdprocjs_s0'', 0)],
           screenCnt := 1,
           screen_store :=
             [\<lparr> screenId = ''lcdprocjs_s0'',
                screen_config = [(''1'', JNum (Finite 2)), (''b'', JNum (Finite 1))],
                widgets = [], widgetCnt = 0 \<rparr>],
           trace :=
             [SocketWrite ''screen_add lcdprocjs_s0\<newline>'',
              SocketWrite ''screen_set lcdprocjs_s0 -1 2 -b 1\<newline>''] \<rparr>)"
  by (simp add: new_screen_def on_screen_def returning_def Client_addScreen_eq
      Screen_setConfig_eq isEmpty_iff assign_def flattenObj_def own_entries_b1 Client_def
      no_options_def dec_small pos_toString_small line_feed_def)

text \<open>
  C7, amended. On every screen, \<^verbatim>\<open>setConfig(config)\<close> with a configuration that is left
  out or has no key changes nothing: nothing is written and the stored configuration is
  as before. With a configuration that has a key, it changes the stored configuration
  and writes one line, and nothing else: the stored configuration then maps every
  supplied key to the supplied value and every other key to what it had (the stored
  object stays well formed), and the line is \<^verbatim>\<open>screen_set <id>\<close> followed by \<open>-key\<close> and
  value for each key of the supplied object alone, in the order in which that object
  enumerates its keys: the keys that are array indices first, in ascending numeric order,
  then the other keys in the caller's order; this is the caller's order whenever no key is
  an array index.
\<close>

theorem setConfig_merges:
  "(isEmpty cfg \<longleftrightarrow> cfg = None \<or> cfg = Some []) \<and>
   (isEmpty cfg \<longrightarrow> Screen_setConfig r cfg c = c) \<and>
   (\<forall>obj. cfg = Some obj \<and> obj \<noteq> [] \<longrightarrow>
      Screen_setConfig r cfg c =
        c\<lparr> screen_store := (screen_store c)
             [r := (screen_store c ! r)
                \<lparr>screen_config := assign (screen_config (screen_store c ! r)) cfg\<rparr>],
           trace := trace c @
             [SocketWrite
                (join '' ''
                   ([JStr ''screen_set'', JStr (screenId (screen_store c ! r))] @
                    concat (map (\<lambda>p. [JStr (''-'' @ fst p), snd p]) (own_entries obj)))
                 @ [line_feed])] \<rparr> \<and>
      (wf_object obj \<longrightarrow>
         map_of (assign (screen_config (screen_store c ! r)) cfg) =
           map_of (screen_config (screen_store c ! r)) ++ map_of obj) \<and>
      (wf_object (screen_config (screen_store c ! r)) \<longrightarrow>
         wf_object (assign (screen_config (screen_store c ! r)) cfg)) \<and>
      own_entries obj =
        sort_key (\<lambda>p. the (array_index (fst p))) (filter (\<lambda>p. is_array_index (fst p)) obj) @
        filter (\<lambda>p. \<not> is_array_index (fst p)) obj \<and>
      ((\<forall>p \<in> set obj. \<not> is_array_index (fst p)) \<longrightarrow> own_entries obj = obj))"
proof -
  have "Screen_setConfig r (Some obj) c =
        c\<lparr> screen_store := (screen_store c)
             [r := (screen_store c ! r)
                \<lparr>screen_config := assign (screen_config (screen_store c ! r)) (Some obj)\<rparr>],
           trace := trace c @
             [SocketWrite
                (join '' ''
                   ([JStr ''screen_set'', JStr (screenId (screen_store c ! r))] @
                    concat (map (\<lambda>p. [JStr (''-'' @ fst p), snd p]) (own_entries obj)))
                 @ [line_feed])] \<rparr>"
    if "obj \<noteq> []" for obj
    using that by (simp add: Screen_setConfig_eq isEmpty_iff flattenObj_def)
  moreover have "isEmpty cfg \<longrightarrow> Screen_setConfig r cfg c = c"
    by (simp add: Screen_setConfig_eq)
  ultimately show ?thesis
    using isEmpty_iff [of cfg]
    by (auto simp: map_of_assign wf_assign own_entries_no_index own_entries_def)
qed


text \<open>
  On the screen of the example: no configuration, an empty one, a first configuration of
  two keys, and a second one that overwrites one of them.
\<close>

theorem setConfig_merges_witness:
  "Screen_setConfig 0 None demo_client = demo_client \<and>
   Screen_setConfig 0 (Some []) demo_client = demo_client \<and>
   trace (Screen_setConfig 0 (Some [(''priority'', JStr ''info''), (''heartbeat'', JStr ''off'')])
            demo_client) =
     trace demo_client @ [SocketWrite ''screen_set lcdprocjs_s0 -priority info -heartbeat off\<newline>''] \<and>
   screen_config (screen_store
       (Screen_setConfig 0 (Some [(''priority'', JStr ''info''), (''heartbeat'', JStr ''off'')])
          demo_client) ! 0) =
     [(''priority'', JStr ''info''), (''heartbeat'', JStr ''off'')] \<and>
   map_of (assign [(''priority'', JStr ''info''), (''heartbeat'', JStr ''off'')]
             (Some [(''heartbeat'', JStr ''on'')])) =
     [''priority'' \<mapsto> JStr ''info'', ''heartbeat'' \<mapsto> JStr ''on''] \<and>
   trace (Screen_setConfig 0 (Some [(''heartbeat'', JStr ''on'')])
           (Screen_setConfig 0 (Some [(''priority'', JStr ''info''), (''heartbeat'', JStr ''off'')])
              demo_client)) =
     trace demo_client @
       [SocketWrite ''screen_set lcdprocjs_s0 -priority info -heartbeat off\<newline>'',
        SocketWrite ''screen_set lcdprocjs_s0 -heartbeat on\<newline>''] \<and>
   wf_object (assign (screen_config (screen_store demo_client ! 0))
     (Some [(''priority'', JStr ''info''), (''heartbeat'', JStr ''off'')]))"
proof -
  let ?one = "[(''priority'', JStr ''info''), (''heartbeat'', JStr ''off'')]"
  let ?two = "[(''heartbeat'', JStr ''on'')]"
  let ?c = "Screen_setConfig 0 (Some ?one) demo_client"
  have plain: "\<forall>p \<in> set ?one. \<not> is_array_index (fst p)" "\<forall>p \<in> set ?two. \<not> is_array_index (fst p)"
    by (simp_all add: is_array_index_def array_index_def is_digit_def)
  have wf: "wf_object ?one" "wf_object ?two"
    "wf_object (screen_config (screen_store demo_client ! 0))"
    by (simp_all add: wf_object_def demo_client_def)
  have "Screen_setConfig 0 None demo_client = demo_client"
    and "Screen_setConfig 0 (Some []) demo_client = demo_client"
    using setConfig_merges [of None 0 demo_client] setConfig_merges [of "Some []" 0 demo_client]
    by simp_all
  moreover
  from setConfig_merges [of "Some ?one" 0 demo_client] plain(1)
  have one: "?c =
      demo_client\<lparr> screen_store := (screen_store demo_client)
           [0 := (screen_store demo_client ! 0)
              \<lparr>screen_config :=
                 assign (screen_config (screen_store demo_client ! 0)) (Some ?one)\<rparr>],
         trace := trace demo_client @
           [SocketWrite
              (join '' ''
                 ([JStr ''screen_set'', JStr (screenId (screen_store demo_client ! 0))] @
                  concat (map (\<lambda>p. [JStr (''-'' @ fst p), snd p]) (own_entries ?one)))
               @ [line_feed])] \<rparr>"
    and o1: "own_entries ?one = ?one"
    by blast+
  have stored: "screen_config (screen_store ?c ! 0) = ?one"
    unfolding one by (simp add: demo_client_def assign_def o1)
  have sent: "trace ?c =
      trace demo_client @ [SocketWrite ''screen_set lcdprocjs_s0 -priority info -heartbeat off\<newline>'']"
    unfolding one by (simp add: demo_client_def o1 line_feed_def)
  moreover note stored
  moreover
  from setConfig_merges [of "Some ?two" 0 ?c] plain(2) wf(2)
  have two: "Screen_setConfig 0 (Some ?two) ?c =
      ?c\<lparr> screen_store := (screen_store ?c)
           [0 := (screen_store ?c ! 0)
              \<lparr>screen_config := assign (screen_config (screen_store ?c ! 0)) (Some ?two)\<rparr>],
         trace := trace ?c @
           [SocketWrite
              (join '' ''
                 ([JStr ''screen_set'', JStr (screenId (screen_store ?c ! 0))] @
                  concat (map (\<lambda>p. [JStr (''-'' @ fst p), snd p]) (own_entries ?two)))
               @ [line_feed])] \<rparr>"
    and o2: "own_entries ?two = ?two"
    and merged: "map_of (assign (screen_config (screen_store ?c ! 0)) (Some ?two)) =
      map_of (screen_config (screen_store ?c ! 0)) ++ map_of ?two"
    by blast+
  have sid: "screenId (screen_store ?c ! 0) = ''lcdprocjs_s0''"
    unfolding one by (simp add: demo_client_def)
  from merged have "map_of (assign ?one (Some ?two)) =
      [''priority'' \<mapsto> JStr ''info'', ''heartbeat'' \<mapsto> JStr ''on'']"
    unfolding stored by (auto simp: map_add_def fun_eq_iff)
  moreover have "trace (Screen_setConfig 0 (Some ?two) ?c) =
      trace demo_client @
        [SocketWrite ''screen_set lcdprocjs_s0 -priority info -heartbeat off\<newline>'',
         SocketWrite ''screen_set lcdprocjs_s0 -heartbeat on\<newline>'']"
    unfolding two by (simp add: sent sid o2 line_feed_def)
  moreover
  from setConfig_merges [of "Some ?one" 0 demo_client] wf(3)
  have "wf_object (assign (screen_config (screen_store demo_client ! 0)) (Some ?one))"
    by blast
  ultimately show ?thesis
    by (intro conjI) assumption+
qed


end
